theory Spec2Isabelle
  imports Main "HOL-Library.Word" "HOL-Library.Signed_Division"
begin

unbundle bit_operations_syntax

section \<open>The Arizona jack detection driver (drivers/switch/switch-arizona.c)\<close>

text \<open>
  A shallow embedding of the jack detection state machine of \<^verbatim>\<open>switch-arizona.c\<close>.
  The driver state \<^verbatim>\<open>struct arizona_extcon_info\<close> is a record that is passed through
  every function and returned updated. Conventions of the embedding:
  \<^item> \<^verbatim>\<open>unsigned int\<close> and \<^verbatim>\<open>u16\<close> are 32 and 16 bit words; \<^verbatim>\<open>int\<close> is \<open>int\<close> (the
    driver's signed quantities are small counters, error codes and ohm values; a
    conversion from \<^verbatim>\<open>unsigned int\<close> to \<^verbatim>\<open>int\<close> is \<open>sint\<close>, the other way \<open>word_of_int\<close>);
    where the platform data or a counter that is never reset can make a signed
    result large (the flip bound and the counters of \<^verbatim>\<open>arizona_micd_mic_reading\<close>), the
    wrap-around of the 32 bit \<^verbatim>\<open>int\<close> is written out with \<open>int32\<close>;
  \<^item> a dereference of a null pointer, an array access out of bounds and a remainder by
    zero are values of the type \<open>fault\<close>: a function that can run into one returns
    \<open>fault + result\<close>;
  \<^item> what the driver does to the world outside (input events, switch reports, delayed
    work, GPIO, regulator, DAPM and runtime PM calls, callbacks of the platform data,
    kernel log lines of level warning, error and info) is appended to the field
    \<open>trace\<close>, in program order; the field \<open>pending\<close> holds the delay of every
    delayed work item that is queued; \<^verbatim>\<open>dev_dbg\<close> lines and the taking and releasing of
    mutexes are left out (the embedding is sequential: one handler runs at a time);
  \<^item> the register map is a function from registers to 32 bit values together with the
    return code of each access, which the environment chooses (\<open>io_env\<close>);
  \<^item> the macros of the header files that are not part of the sources (register masks
    and shifts, \<^verbatim>\<open>ARIZONA_HP_Z_OPEN\<close>, \<^verbatim>\<open>ARIZONA_HP_SHORT_IMPEDANCE\<close>) are the fields of
    a parameter \<open>H\<close> of type \<open>hdr\<close>;
  \<^item> the fields \<^verbatim>\<open>type\<close> and \<^verbatim>\<open>rev\<close> of \<^verbatim>\<open>struct arizona\<close> are \<open>codec\<close> and \<open>rev_no\<close>, the field
    \<^verbatim>\<open>max\<close> of a button range is \<open>max_ohm\<close>, and the members of the platform data that
    share a name with a member of the driver state carry the prefix \<open>pdata\<close>;
  \<^item> a detection state (\<^verbatim>\<open>const struct arizona_jd_state *\<close>) is a value of the datatype
    \<open>jd_state\<close> that names the static object pointed to; the operations of the
    state \<^verbatim>\<open>pdata.custom_jd\<close>, which board code supplies, are a parameter \<open>C\<close>.
\<close>

subsection \<open>Machine types and constants\<close>

type_synonym u32 = "32 word"
type_synonym u16 = "16 word"

text \<open>Error numbers of the kernel (errno-base.h, errno.h) and \<^verbatim>\<open>INT_MAX\<close>.\<close>

definition ENOMEM :: int where "ENOMEM = 12"
definition EAGAIN :: int where "EAGAIN = 11"
definition EEXIST :: int where "EEXIST = 17"
definition EINVAL :: int where "EINVAL = 22"
definition EPROBE_DEFER :: int where "EPROBE_DEFER = 517"
definition INT_MAX :: int where "INT_MAX = 2147483647"

text \<open>
  The value of a signed 32 bit expression whose mathematical result is \<open>k\<close>: the kernel
  is built with \<^verbatim>\<open>-fno-strict-overflow\<close>, so the result wraps around.
\<close>

definition int32 :: "int \<Rightarrow> int" where
  "int32 k = sint (word_of_int k :: 32 word)"

text \<open>The macros that \<^verbatim>\<open>switch-arizona.c\<close> defines itself.\<close>

definition ARIZONA_MAX_MICD_RANGE :: int where "ARIZONA_MAX_MICD_RANGE = 8"
definition ARIZONA_ACCDET_MODE_MIC :: int where "ARIZONA_ACCDET_MODE_MIC = 0"
definition ARIZONA_ACCDET_MODE_HPL :: int where "ARIZONA_ACCDET_MODE_HPL = 1"
definition ARIZONA_ACCDET_MODE_HPR :: int where "ARIZONA_ACCDET_MODE_HPR = 2"
definition ARIZONA_ACCDET_MODE_HPM :: int where "ARIZONA_ACCDET_MODE_HPM = 4"
definition ARIZONA_ACCDET_MODE_ADC :: int where "ARIZONA_ACCDET_MODE_ADC = 7"
definition ARIZONA_ACCDET_MODE_INVALID :: int where "ARIZONA_ACCDET_MODE_INVALID = 8"
definition ARIZONA_MICD_CLAMP_MODE_JDL :: u32 where "ARIZONA_MICD_CLAMP_MODE_JDL = 0x4"
definition ARIZONA_MICD_CLAMP_MODE_JDH :: u32 where "ARIZONA_MICD_CLAMP_MODE_JDH = 0x5"
definition ARIZONA_MICD_CLAMP_MODE_JDL_GP5H :: u32 where "ARIZONA_MICD_CLAMP_MODE_JDL_GP5H = 0x9"
definition ARIZONA_MICD_CLAMP_MODE_JDH_GP5H :: u32 where "ARIZONA_MICD_CLAMP_MODE_JDH_GP5H = 0xb"
definition ARIZONA_HPDET_MAX :: int where "ARIZONA_HPDET_MAX = 10000"
definition HPDET_DEBOUNCE :: int where "HPDET_DEBOUNCE = 500"
definition DEFAULT_MICD_TIMEOUT :: int where "DEFAULT_MICD_TIMEOUT = 2000"
definition QUICK_HEADPHONE_MAX_OHM :: u32 where "QUICK_HEADPHONE_MAX_OHM = 3"
definition MICROPHONE_MIN_OHM :: u32 where "MICROPHONE_MIN_OHM = 1257"
definition MICROPHONE_MAX_OHM :: u32 where "MICROPHONE_MAX_OHM = 30000"
definition HP_NORMAL_IMPEDANCE :: int where "HP_NORMAL_IMPEDANCE = 0"
definition HP_LOW_IMPEDANCE :: int where "HP_LOW_IMPEDANCE = 1"
definition HP_LOW_IMPEDANCE_LIMIT :: int where "HP_LOW_IMPEDANCE_LIMIT = 13"
definition ARIZONA_NUM_MICD_BUTTON_LEVELS :: nat where "ARIZONA_NUM_MICD_BUTTON_LEVELS = 64"
definition ARIZONA_HPDET_B_RANGE_MAX :: u32 where "ARIZONA_HPDET_B_RANGE_MAX = 0x3fb"

text \<open>\<^verbatim>\<open>enum headset_state\<close>.\<close>

definition BIT_NO_HEADSET :: int where "BIT_NO_HEADSET = 0"
definition BIT_HEADSET :: int where "BIT_HEADSET = 1"
definition BIT_HEADSET_NO_MIC :: int where "BIT_HEADSET_NO_MIC = 2"

text \<open>
  The macros of the headers outside the sources. Each field has the name of its macro;
  masks and bits are \<^verbatim>\<open>unsigned int\<close> operands of the register accesses.
\<close>

record hdr =
  ARIZONA_HP1L_SHRTO :: u32
  ARIZONA_HP1L_FLWR :: u32
  ARIZONA_HP1L_SHRTI :: u32
  ARIZONA_RMV_SHRT_HP1L :: u32
  ARIZONA_OUT1L_ENA :: u32
  ARIZONA_OUT1R_ENA :: u32
  ARIZONA_MICD_BIAS_SRC_MASK :: u32
  ARIZONA_MICD_BIAS_SRC_SHIFT :: nat
  ARIZONA_ACCDET_SRC :: u32
  ARIZONA_ACCDET_MODE_MASK :: u32
  ARIZONA_MICD_ENA :: u32
  ARIZONA_MICDET_ADCVAL_MASK :: u32
  ARIZONA_MICD_STS :: u32
  ARIZONA_MICD_VALID :: u32
  ARIZONA_MICD_LVL_0 :: u32
  ARIZONA_MICD_LVL_1 :: u32
  ARIZONA_MICD_LVL_8 :: u32
  ARIZONA_MICD_LVL_MASK :: u32
  ARIZONA_MICD_LVL_SHIFT :: nat
  MICD_LVL_1_TO_7 :: u32
  MICD_LVL_0_TO_7 :: u32
  MICD_LVL_0_TO_8 :: u32
  ARIZONA_HP_DONE :: u32
  ARIZONA_HP_LVL_MASK :: u32
  ARIZONA_HP_DONE_B :: u32
  ARIZONA_HP_LVL_B_MASK :: u32
  ARIZONA_HP_IMPEDANCE_RANGE_MASK :: u32
  ARIZONA_HP_IMPEDANCE_RANGE_SHIFT :: nat
  ARIZONA_HP_POLL :: u32
  ARIZONA_HP1_SC_ENA_MASK :: u32
  ARIZONA_MICD_CLAMP_STS :: u32
  ARIZONA_JD1_STS :: u32
  ARIZONA_MICD_CLAMP_DB :: u32
  ARIZONA_JD1_DB :: u32
  ARIZONA_MICD_CLAMP_FALL_TRIG_STS :: u32
  ARIZONA_MICD_CLAMP_RISE_TRIG_STS :: u32
  ARIZONA_JD1_FALL_TRIG_STS :: u32
  ARIZONA_JD1_RISE_TRIG_STS :: u32
  ARIZONA_HP_Z_OPEN :: int
  ARIZONA_HP_SHORT_IMPEDANCE :: int

text \<open>
  \<^verbatim>\<open>ffs\<close> of the kernel library: the position of the least significant set bit, counted
  from 1, and 0 for the argument 0.
\<close>

definition ffs :: "u32 \<Rightarrow> int" where
  "ffs x = (case find (bit x) [0 ..< 32] of None \<Rightarrow> 0 | Some n \<Rightarrow> int n + 1)"

subsection \<open>Data model\<close>

datatype fault = null_pointer | array_bounds | division_by_zero

datatype irqreturn = IRQ_NONE | IRQ_HANDLED

datatype arizona_type = WM5102 | WM5110 | WM8280 | WM8998 | WM1814 | other_codec

datatype reg =
    ARIZONA_OUTPUT_ENABLES_1
  | ARIZONA_HP_CTRL_1L
  | ARIZONA_HP_CTRL_1R
  | ARIZONA_MIC_DETECT_1
  | ARIZONA_MIC_DETECT_2
  | ARIZONA_MIC_DETECT_3
  | ARIZONA_MIC_DETECT_4
  | ARIZONA_ACCESSORY_DETECT_MODE_1
  | ARIZONA_HEADPHONE_DETECT_1
  | ARIZONA_HEADPHONE_DETECT_2
  | ARIZONA_HP_DACVAL
  | ARIZONA_HP1_SHORT_CIRCUIT_CTRL
  | ARIZONA_AOD_IRQ_RAW_STATUS
  | ARIZONA_AOD_WKUP_AND_TRIG
  | ARIZONA_JACK_DETECT_DEBOUNCE
  | reg_addr nat

text \<open>
  The static detection states of the file, and the one of the platform data. A value of
  this type stands for the address of the object, so equality is pointer equality.
\<close>

datatype jd_state =
    arizona_hpdet_moisture
  | arizona_hpdet_left
  | arizona_hpdet_right
  | arizona_micd_button
  | arizona_micd_microphone
  | arizona_hpdet_acc_id
  | custom_jd

datatype work = hpdet_work | micd_detect_work | micd_clear_work | state_timeout_work

datatype event =
    input_report_key int int
  | input_sync
  | switch_set_state int
  | schedule_delayed_work work int
  | cancel_delayed_work_sync work
  | gpio_set_value_cansleep int int
  | snd_soc_dapm_force_enable_pin string
  | snd_soc_dapm_disable_pin string
  | snd_soc_dapm_sync
  | regulator_enable
  | regulator_disable
  | regulator_allow_bypass bool
  | pm_runtime_enable
  | pm_runtime_idle
  | pm_runtime_disable
  | pm_runtime_get_sync
  | pm_runtime_put
  | pm_runtime_put_autosuspend
  | pm_runtime_mark_last_busy
  | pm_wakeup_event int
  | msleep int
  | hpdet_cb int
  | micd_cb bool
  | dev_err string
  | dev_warn string
  | dev_info string

record arizona_micd_config =
  src :: u32
  bias :: u32
  gpio :: int

record arizona_micd_range =
  max_ohm :: int
  key :: int

text \<open>
  The fields of \<^verbatim>\<open>struct arizona_pdata\<close> that the detection code reads. The callbacks
  \<^verbatim>\<open>hpdet_cb\<close> and \<^verbatim>\<open>micd_cb\<close> are kept as flags (set or null): a call is an event of the
  trace. \<^verbatim>\<open>custom_jd\<close> is a flag as well; the operations behind it are the parameter
  \<open>C\<close> of the functions below.
\<close>

record arizona_pdata =
  micd_pol_gpio :: int
  hpdet_id_gpio :: int
  hpdet_short_circuit_imp :: int
  hpdet_ext_res :: u32
  fixed_hpdet_imp :: int
  hpdet_moisture_imp :: int
  hpdet_channel :: int
  hpdet_acc_id :: bool
  hpdet_acc_id_line :: bool
  has_hpdet_cb :: bool
  has_micd_cb :: bool
  has_custom_jd :: bool
  micd_force_micbias :: bool
  micd_force_micbias_initial :: bool
  micd_software_compare :: bool
  micd_open_circuit_declare :: bool
  micd_timeout :: int
  jd_gpio5 :: bool
  jd_invert :: bool
  jd_wake_time :: int
  init_mic_delay :: int
  pdata_num_micd_configs :: int
  pdata_micd_configs :: "arizona_micd_config list"
  pdata_num_micd_ranges :: int
  pdata_micd_ranges :: "arizona_micd_range list"

text \<open>
  The environment of one handler run: the return code of a read and of a write access to
  each register, of the DAPM and regulator calls, and the content of a local variable
  that was never assigned.
\<close>

record io_env =
  rd_ret :: "reg \<Rightarrow> int"
  wr_ret :: "reg \<Rightarrow> int"
  dapm_enable_ret :: int
  dapm_disable_ret :: int
  regulator_enable_ret :: int
  regulator_bypass_ret :: int
  uninitialised :: u32

record arizona =
  codec :: arizona_type
  rev_no :: int
  hp_impedance :: int
  hpdet_clamp :: bool
  hp_ena :: u32
  pdata :: arizona_pdata
  regmap :: "reg \<Rightarrow> u32"
  io :: io_env

record arizona_extcon_info =
  arizona :: arizona
  last_jackdet :: u16
  micd_mode :: int
  micd_modes :: "arizona_micd_config list"
  micd_num_modes :: int
  micd_ranges :: "arizona_micd_range list"
  num_micd_ranges :: int
  micd_reva :: bool
  micd_clamp :: bool
  hpdet_retried :: bool
  hp_imp_level :: int
  num_hpdet_res :: int
  hpdet_res :: "u32 \<times> u32 \<times> u32"
  mic :: bool
  detecting :: bool
  jack_flips :: int
  hpdet_ip :: int
  edev :: int
  state :: "jd_state option"
  pending :: "work \<Rightarrow> int option"
  trace :: "event list"

text \<open>
  The operations of the detection state of the platform data
  (\<^verbatim>\<open>struct arizona_jd_state\<close>; \<^verbatim>\<open>restart\<close>, \<^verbatim>\<open>timeout_ms\<close> and \<^verbatim>\<open>timeout\<close> may be null).
\<close>

record custom_ops =
  custom_mode :: int
  custom_start :: "arizona_extcon_info \<Rightarrow> fault + (int \<times> arizona_extcon_info)"
  custom_restart :: "(arizona_extcon_info \<Rightarrow> fault + arizona_extcon_info) option"
  custom_reading :: "arizona_extcon_info \<Rightarrow> int \<Rightarrow> fault + (int \<times> arizona_extcon_info)"
  custom_stop :: "arizona_extcon_info \<Rightarrow> fault + arizona_extcon_info"
  custom_timeout_ms :: "(arizona_extcon_info \<Rightarrow> int) option"
  custom_timeout :: "(arizona_extcon_info \<Rightarrow> fault + arizona_extcon_info) option"

subsection \<open>Register map, trace and arrays\<close>

text \<open>
  Modelled from the spec: the register interface the driver consumes (the kernel's
  regmap; "read/write of named control/status registers; must support atomic
  read-modify-write of bit-fields and report I/O failure distinctly from a zero/false
  reading"). A failing access returns its error code and changes nothing; a failing
  read leaves the variable it was to fill as it was (\<open>old\<close>).
\<close>

definition regmap_read :: "arizona \<Rightarrow> reg \<Rightarrow> u32 \<Rightarrow> int \<times> u32" where
  "regmap_read az r old =
     (if rd_ret (io az) r \<noteq> 0 then (rd_ret (io az) r, old) else (0, regmap az r))"

definition regmap_update_bits_check :: "arizona \<Rightarrow> reg \<Rightarrow> u32 \<Rightarrow> u32 \<Rightarrow> int \<times> bool \<times> arizona" where
  "regmap_update_bits_check az r msk val =
     (if wr_ret (io az) r \<noteq> 0 then (wr_ret (io az) r, False, az)
      else let orig = regmap az r; tmp = (orig AND NOT msk) OR (val AND msk)
           in (0, tmp \<noteq> orig, az\<lparr>regmap := (regmap az)(r := tmp)\<rparr>))"

definition regmap_update_bits :: "arizona \<Rightarrow> reg \<Rightarrow> u32 \<Rightarrow> u32 \<Rightarrow> int \<times> arizona" where
  "regmap_update_bits az r msk val =
     (case regmap_update_bits_check az r msk val of (ret, _, az') \<Rightarrow> (ret, az'))"

definition regmap_write :: "arizona \<Rightarrow> reg \<Rightarrow> u32 \<Rightarrow> int \<times> arizona" where
  "regmap_write az r val =
     (if wr_ret (io az) r \<noteq> 0 then (wr_ret (io az) r, az)
      else (0, az\<lparr>regmap := (regmap az)(r := val)\<rparr>))"

text \<open>The same accesses on the driver state, and the append to the trace.\<close>

definition update_bits :: "arizona_extcon_info \<Rightarrow> reg \<Rightarrow> u32 \<Rightarrow> u32 \<Rightarrow> int \<times> arizona_extcon_info" where
  "update_bits info r msk val =
     (case regmap_update_bits (arizona info) r msk val of (ret, az) \<Rightarrow> (ret, info\<lparr>arizona := az\<rparr>))"

definition write_reg :: "arizona_extcon_info \<Rightarrow> reg \<Rightarrow> u32 \<Rightarrow> int \<times> arizona_extcon_info" where
  "write_reg info r val =
     (case regmap_write (arizona info) r val of (ret, az) \<Rightarrow> (ret, info\<lparr>arizona := az\<rparr>))"

definition emit :: "event \<Rightarrow> arizona_extcon_info \<Rightarrow> arizona_extcon_info" where
  "emit e info = info\<lparr>trace := trace info @ [e]\<rparr>"

text \<open>An access whose return code the source only logs as a warning.\<close>

definition update_bits_warn ::
  "arizona_extcon_info \<Rightarrow> reg \<Rightarrow> u32 \<Rightarrow> u32 \<Rightarrow> string \<Rightarrow> arizona_extcon_info" where
  "update_bits_warn info r msk val msg =
     (case update_bits info r msk val of (ret, info') \<Rightarrow>
        if ret \<noteq> 0 then emit (dev_warn msg) info' else info')"

text \<open>An access whose return code the source drops.\<close>

definition update_bits_ignore ::
  "arizona_extcon_info \<Rightarrow> reg \<Rightarrow> u32 \<Rightarrow> u32 \<Rightarrow> arizona_extcon_info" where
  "update_bits_ignore info r msk val = snd (update_bits info r msk val)"

definition write_reg_ignore :: "arizona_extcon_info \<Rightarrow> reg \<Rightarrow> u32 \<Rightarrow> arizona_extcon_info" where
  "write_reg_ignore info r val = snd (write_reg info r val)"

text \<open>A C array read at a signed index.\<close>

definition array_get :: "'a list \<Rightarrow> int \<Rightarrow> fault + 'a" where
  "array_get xs i = (if 0 \<le> i \<and> i < int (length xs) then Inr (xs ! nat i) else Inl array_bounds)"

text \<open>The array \<^verbatim>\<open>unsigned int hpdet_res[3]\<close> is a triple.\<close>

definition res3_get :: "u32 \<times> u32 \<times> u32 \<Rightarrow> int \<Rightarrow> fault + u32" where
  "res3_get t i =
     (case t of (a, b, c) \<Rightarrow>
        if i = 0 then Inr a else if i = 1 then Inr b else if i = 2 then Inr c
        else Inl array_bounds)"

definition res3_set :: "u32 \<times> u32 \<times> u32 \<Rightarrow> int \<Rightarrow> u32 \<Rightarrow> fault + (u32 \<times> u32 \<times> u32)" where
  "res3_set t i v =
     (case t of (a, b, c) \<Rightarrow>
        if i = 0 then Inr (v, b, c) else if i = 1 then Inr (a, v, c)
        else if i = 2 then Inr (a, b, v) else Inl array_bounds)"

subsection \<open>Tables of the file\<close>

definition micd_default_modes :: "hdr \<Rightarrow> arizona_micd_config list" where
  "micd_default_modes H =
     [\<lparr>src = ARIZONA_ACCDET_SRC H, bias = 1, gpio = 0\<rparr>, \<lparr>src = 0, bias = 2, gpio = 1\<rparr>]"

text \<open>The key codes \<^verbatim>\<open>BTN_0\<close> to \<^verbatim>\<open>BTN_5\<close> of the input layer.\<close>

definition BTN_0 :: int where "BTN_0 = 0x100"
definition BTN_1 :: int where "BTN_1 = 0x101"
definition BTN_2 :: int where "BTN_2 = 0x102"
definition BTN_3 :: int where "BTN_3 = 0x103"
definition BTN_4 :: int where "BTN_4 = 0x104"
definition BTN_5 :: int where "BTN_5 = 0x105"

definition micd_default_ranges :: "arizona_micd_range list" where
  "micd_default_ranges =
     [\<lparr>max_ohm = 11, key = BTN_0\<rparr>, \<lparr>max_ohm = 28, key = BTN_1\<rparr>,
      \<lparr>max_ohm = 54, key = BTN_2\<rparr>, \<lparr>max_ohm = 100, key = BTN_3\<rparr>,
      \<lparr>max_ohm = 186, key = BTN_4\<rparr>, \<lparr>max_ohm = 430, key = BTN_5\<rparr>]"

definition arizona_micd_levels :: "int list" where
  "arizona_micd_levels =
     [3, 6, 8, 11, 13, 16, 18, 21, 23, 26, 28, 31, 34, 36, 39, 41, 44, 46,
      49, 52, 54, 57, 60, 62, 65, 67, 70, 73, 75, 78, 81, 83, 89, 94, 100,
      105, 111, 116, 122, 127, 139, 150, 161, 173, 186, 196, 209, 220, 245,
      270, 295, 321, 348, 375, 402, 430, 489, 550, 614, 681, 752, 903, 1071,
      1257, 30000]"

record hpdet_b_range =
  threshold :: u32
  factor_a :: u32
  factor_b :: u32

definition arizona_hpdet_b_ranges :: "hpdet_b_range list" where
  "arizona_hpdet_b_ranges =
     [\<lparr>threshold = 100, factor_a = 5528, factor_b = 362464\<rparr>,
      \<lparr>threshold = 169, factor_a = 11084, factor_b = 6186851\<rparr>,
      \<lparr>threshold = 169, factor_a = 11065, factor_b = 65460395\<rparr>]"

text \<open>
  The bounds of the third table are of type \<^verbatim>\<open>int\<close> in the source; every use compares
  them with or assigns them to an \<^verbatim>\<open>unsigned int\<close>, which converts them.
\<close>

record hpdet_c_range =
  range_min :: u32
  range_max :: u32

definition arizona_hpdet_c_ranges :: "hpdet_c_range list" where
  "arizona_hpdet_c_ranges =
     [\<lparr>range_min = 0, range_max = 30\<rparr>, \<lparr>range_min = 8, range_max = 100\<rparr>,
      \<lparr>range_min = 100, range_max = 1000\<rparr>, \<lparr>range_min = 1000, range_max = 10000\<rparr>]"

subsection \<open>Reporting and clamping\<close>

definition arizona_extcon_report :: "arizona_extcon_info \<Rightarrow> int \<Rightarrow> arizona_extcon_info" where
  "arizona_extcon_report info st = emit (switch_set_state st) (info\<lparr>edev := st\<rparr>)"

definition arizona_extcon_hp_clamp :: "hdr \<Rightarrow> arizona_extcon_info \<Rightarrow> bool \<Rightarrow> arizona_extcon_info" where
  "arizona_extcon_hp_clamp H info clamp =
     (let (msk, val) =
        (case codec (arizona info) of
           WM1814 \<Rightarrow> (0, 0)
         | WM8998 \<Rightarrow> (0, 0)
         | WM8280 \<Rightarrow>
             (ARIZONA_HP1L_SHRTO H OR ARIZONA_HP1L_FLWR H OR ARIZONA_HP1L_SHRTI H,
              if clamp then ARIZONA_HP1L_SHRTO H
              else ARIZONA_HP1L_FLWR H OR ARIZONA_HP1L_SHRTI H)
         | WM5110 \<Rightarrow>
             (ARIZONA_HP1L_SHRTO H OR ARIZONA_HP1L_FLWR H OR ARIZONA_HP1L_SHRTI H,
              if clamp then ARIZONA_HP1L_SHRTO H
              else ARIZONA_HP1L_FLWR H OR ARIZONA_HP1L_SHRTI H)
         | _ \<Rightarrow> (ARIZONA_RMV_SHRT_HP1L H, if clamp then ARIZONA_RMV_SHRT_HP1L H else 0));
        i1 = info\<lparr>arizona := (arizona info)\<lparr>hpdet_clamp := clamp\<rparr>\<rparr>;
        i2 = (if clamp
              then update_bits_warn i1 ARIZONA_OUTPUT_ENABLES_1
                     (ARIZONA_OUT1L_ENA H OR ARIZONA_OUT1R_ENA H) 0
                     ''Failed to disable headphone outputs''
              else i1);
        i3 = (if msk \<noteq> 0
              then update_bits_warn
                     (update_bits_warn i2 ARIZONA_HP_CTRL_1L msk val ''Failed to do clamp'')
                     ARIZONA_HP_CTRL_1R msk val ''Failed to do clamp''
              else i2)
      in if \<not> clamp \<and>
            hp_impedance (arizona i3) > hpdet_short_circuit_imp (pdata (arizona i3))
         then update_bits_warn i3 ARIZONA_OUTPUT_ENABLES_1
                (ARIZONA_OUT1L_ENA H OR ARIZONA_OUT1R_ENA H) (hp_ena (arizona i3))
                ''Failed to restore headphone outputs''
         else i3)"

subsection \<open>Microphone bias and polarity\<close>

definition arizona_extcon_set_mode ::
  "hdr \<Rightarrow> arizona_extcon_info \<Rightarrow> int \<Rightarrow> fault + arizona_extcon_info" where
  "arizona_extcon_set_mode H info mode0 =
     (if micd_num_modes info = 0 then Inl division_by_zero
      else let mode = mode0 smod micd_num_modes info in
        case array_get (micd_modes info) mode of
          Inl f \<Rightarrow> Inl f
        | Inr m \<Rightarrow>
            let i1 = (if micd_pol_gpio (pdata (arizona info)) > 0
                      then emit (gpio_set_value_cansleep
                                   (micd_pol_gpio (pdata (arizona info))) (gpio m)) info
                      else info);
                i2 = update_bits_ignore i1 ARIZONA_MIC_DETECT_1 (ARIZONA_MICD_BIAS_SRC_MASK H)
                       (push_bit (ARIZONA_MICD_BIAS_SRC_SHIFT H) (bias m));
                i3 = update_bits_ignore i2 ARIZONA_ACCESSORY_DETECT_MODE_1
                       (ARIZONA_ACCDET_SRC H) (src m)
            in Inr (i3\<lparr>micd_mode := mode\<rparr>))"

definition arizona_extcon_get_micbias :: "arizona_extcon_info \<Rightarrow> fault + string" where
  "arizona_extcon_get_micbias info =
     (case array_get (micd_modes info) 0 of
        Inl f \<Rightarrow> Inl f
      | Inr m \<Rightarrow>
          Inr (if bias m = 1 then ''MICBIAS1''
               else if bias m = 2 then ''MICBIAS2''
               else if bias m = 3 then ''MICBIAS3''
               else ''MICVDD''))"

definition arizona_extcon_pulse_micbias ::
  "arizona_extcon_info \<Rightarrow> fault + arizona_extcon_info" where
  "arizona_extcon_pulse_micbias info =
     (case arizona_extcon_get_micbias info of
        Inl f \<Rightarrow> Inl f
      | Inr widget \<Rightarrow>
          let i1 = emit (snd_soc_dapm_force_enable_pin widget) info;
              i2 = (if dapm_enable_ret (io (arizona i1)) \<noteq> 0
                    then emit (dev_warn ''Failed to enable'') i1 else i1);
              i3 = emit snd_soc_dapm_sync i2
          in if micd_force_micbias_initial (pdata (arizona i3)) \<and> detecting i3 then Inr i3
             else if \<not> micd_force_micbias (pdata (arizona i3)) then
               let i4 = emit (snd_soc_dapm_disable_pin widget) i3;
                   i5 = (if dapm_disable_ret (io (arizona i4)) \<noteq> 0
                         then emit (dev_warn ''Failed to disable'') i4 else i4)
               in Inr (emit snd_soc_dapm_sync i5)
             else Inr i3)"

subsection \<open>Reading the microphone detection level\<close>

text \<open>
  The polling loop of \<^verbatim>\<open>arizona_micd_read\<close>, from the counter \<open>i\<close> and the last value read.
  It returns the early return code, or the counter and the value at the loop's end.
\<close>

function micd_read_loop ::
  "hdr \<Rightarrow> arizona_extcon_info \<Rightarrow> nat \<Rightarrow> u32 \<Rightarrow> (int + (nat \<times> u32)) \<times> arizona_extcon_info" where
  "micd_read_loop H info i val =
     (if i < 10 \<and> val AND MICD_LVL_0_TO_8 H = 0 then
        (case regmap_read (arizona info) ARIZONA_MIC_DETECT_3 val of (ret, val') \<Rightarrow>
           if ret \<noteq> 0 then (Inl ret, emit (dev_err ''Failed to read MICDET'') info)
           else if val' AND ARIZONA_MICD_VALID H = 0
           then (Inl (- EINVAL), emit (dev_warn ''Microphone detection state invalid'') info)
           else micd_read_loop H info (i + 1) val')
      else (Inr (i, val), info))"
  by pat_completeness auto
termination
  by (relation "measure (\<lambda>(H, info, i, val). 10 - i)") auto

definition arizona_micd_read :: "hdr \<Rightarrow> arizona_extcon_info \<Rightarrow> int \<times> arizona_extcon_info" where
  "arizona_micd_read H info =
     (if detecting info \<and> micd_software_compare (pdata (arizona info)) then
        (case regmap_update_bits_check (arizona info) ARIZONA_MIC_DETECT_1 (ARIZONA_MICD_ENA H) 0 of
           (ret, micd_ena, az) \<Rightarrow>
             let i1 = info\<lparr>arizona := az\<rparr> in
             if ret \<noteq> 0 then (ret, emit (dev_err ''Failed to disable MICD'') i1)
             else
               (case regmap_read (arizona i1) ARIZONA_MIC_DETECT_4 0 of (ret, val) \<Rightarrow>
                  if ret \<noteq> 0 then (ret, emit (dev_err ''Failed to read MICDET_ADCVAL'') i1)
                  else
                    let v1 = val AND ARIZONA_MICDET_ADCVAL_MASK H;
                        v2 = (if unat v1 < length arizona_micd_levels
                              then word_of_int (arizona_micd_levels ! unat v1)
                              else word_of_int INT_MAX);
                        v3 = (if v2 \<le> QUICK_HEADPHONE_MAX_OHM
                              then ARIZONA_MICD_STS H OR ARIZONA_MICD_LVL_0 H
                              else if v2 \<le> MICROPHONE_MIN_OHM
                              then ARIZONA_MICD_STS H OR ARIZONA_MICD_LVL_1 H
                              else if v2 \<le> MICROPHONE_MAX_OHM
                              then ARIZONA_MICD_STS H OR ARIZONA_MICD_LVL_8 H
                              else ARIZONA_MICD_LVL_8 H);
                        micd_ena_bit = (if micd_ena then ARIZONA_MICD_ENA H else 0)
                    in (case update_bits i1 ARIZONA_MIC_DETECT_1 (ARIZONA_MICD_ENA H) micd_ena_bit of
                          (ret, i2) \<Rightarrow>
                            if ret \<noteq> 0 then (ret, emit (dev_err ''Failed to restore MICD'') i2)
                            else (sint v3, i2))))
      else
        (case micd_read_loop H info 0 0 of
           (Inl ret, i1) \<Rightarrow> (ret, i1)
         | (Inr (i, val), i1) \<Rightarrow>
             if i = 10 \<and> val AND MICD_LVL_0_TO_8 H = 0
             then (- EINVAL, emit (dev_err ''Failed to get valid MICDET value'') i1)
             else (sint val, i1)))"

subsection \<open>Reading the headphone impedance\<close>

text \<open>The range field of the register \<^verbatim>\<open>ARIZONA_HEADPHONE_DETECT_1\<close>, as the source reads it.\<close>

definition hpdet_range :: "hdr \<Rightarrow> arizona_extcon_info \<Rightarrow> u32" where
  "hpdet_range H info =
     drop_bit (ARIZONA_HP_IMPEDANCE_RANGE_SHIFT H)
       (snd (regmap_read (arizona info) ARIZONA_HEADPHONE_DETECT_1
               (uninitialised (io (arizona info))))
        AND ARIZONA_HP_IMPEDANCE_RANGE_MASK H)"

definition hpdet_set_range :: "hdr \<Rightarrow> arizona_extcon_info \<Rightarrow> u32 \<Rightarrow> arizona_extcon_info" where
  "hpdet_set_range H info rng =
     update_bits_ignore info ARIZONA_HEADPHONE_DETECT_1 (ARIZONA_HP_IMPEDANCE_RANGE_MASK H)
       (push_bit (ARIZONA_HP_IMPEDANCE_RANGE_SHIFT H) rng)"

text \<open>
  The cases of the \<^verbatim>\<open>switch (info->hpdet_ip)\<close> of \<^verbatim>\<open>arizona_hpdet_read\<close> on the status
  word: an early return with a code (\<open>Inl\<close>) or the measured value with which the
  function goes on (\<open>Inr\<close>). The default case logs a warning and falls through to
  case 2.
\<close>

definition hpdet_ip_0 ::
  "hdr \<Rightarrow> arizona_extcon_info \<Rightarrow> u32 \<Rightarrow> fault + ((int + u32) \<times> arizona_extcon_info)" where
  "hpdet_ip_0 H info val =
     (if val AND ARIZONA_HP_DONE H = 0
      then Inr (Inl (- EAGAIN), emit (dev_err ''HPDET did not complete'') info)
      else Inr (Inr (val AND ARIZONA_HP_LVL_MASK H), info))"

definition hpdet_ip_1 ::
  "hdr \<Rightarrow> arizona_extcon_info \<Rightarrow> u32 \<Rightarrow> fault + ((int + u32) \<times> arizona_extcon_info)" where
  "hpdet_ip_1 H info val0 =
     (if val0 AND ARIZONA_HP_DONE_B H = 0
      then Inr (Inl (- EAGAIN), emit (dev_err ''HPDET did not complete'') info)
      else
        (case regmap_read (arizona info) ARIZONA_HP_DACVAL val0 of (ret, val) \<Rightarrow>
           if ret \<noteq> 0
           then Inr (Inl (- EAGAIN), emit (dev_err ''Failed to read HP value'') info)
           else
             let rng = hpdet_range H info in
             if rng < 2 \<and>
                (val < threshold (arizona_hpdet_b_ranges ! unat rng) \<or>
                 val \<ge> ARIZONA_HPDET_B_RANGE_MAX)
             then Inr (Inl (- EAGAIN), hpdet_set_range H info (rng + 1))
             else
               (case array_get arizona_hpdet_b_ranges (uint rng) of
                  Inl f \<Rightarrow> Inl f
                | Inr b \<Rightarrow>
                    if val < threshold b \<or> val \<ge> ARIZONA_HPDET_B_RANGE_MAX
                    then Inr (Inl ARIZONA_HPDET_MAX, info)
                    else if val * 100 - factor_a b = 0 then Inl division_by_zero
                    else Inr (Inr (factor_b b div (val * 100 - factor_a b)), info))))"

definition hpdet_ip_2 ::
  "hdr \<Rightarrow> arizona_extcon_info \<Rightarrow> u32 \<Rightarrow> fault + ((int + u32) \<times> arizona_extcon_info)" where
  "hpdet_ip_2 H info val0 =
     (if val0 AND ARIZONA_HP_DONE_B H = 0
      then Inr (Inl (- EAGAIN), emit (dev_err ''HPDET did not complete'') info)
      else
        let val = (val0 AND ARIZONA_HP_LVL_B_MASK H) div 2;
            rng = hpdet_range H info
        in if rng < 3 \<and> val \<ge> range_max (arizona_hpdet_c_ranges ! unat rng)
           then Inr (Inl (- EAGAIN), hpdet_set_range H info (rng + 1))
           else if rng \<noteq> 0
           then (case array_get arizona_hpdet_c_ranges (uint rng) of
                   Inl f \<Rightarrow> Inl f
                 | Inr c \<Rightarrow> Inr (Inr (if val < range_min c then range_min c else val), info))
           else Inr (Inr val, info))"

definition hpdet_switch ::
  "hdr \<Rightarrow> arizona_extcon_info \<Rightarrow> u32 \<Rightarrow> fault + ((int + u32) \<times> arizona_extcon_info)" where
  "hpdet_switch H info val0 =
     (if hpdet_ip info = 0 then hpdet_ip_0 H info val0
      else if hpdet_ip info = 1 then hpdet_ip_1 H info val0
      else if hpdet_ip info = 2 then hpdet_ip_2 H info val0
      else hpdet_ip_2 H (emit (dev_warn ''Unknown HPDET IP revision'') info) val0)"

definition arizona_hpdet_read ::
  "hdr \<Rightarrow> arizona_extcon_info \<Rightarrow> fault + (int \<times> arizona_extcon_info)" where
  "arizona_hpdet_read H info =
     (case regmap_read (arizona info) ARIZONA_HEADPHONE_DETECT_2
             (uninitialised (io (arizona info))) of
        (ret, val0) \<Rightarrow>
          if ret \<noteq> 0 then Inr (ret, emit (dev_err ''Failed to read HPDET status'') info)
          else
            (case hpdet_switch H info val0 of
               Inl f \<Rightarrow> Inl f
             | Inr (Inl ret, i1) \<Rightarrow> Inr (ret, i1)
             | Inr (Inr val, i1) \<Rightarrow>
                 if hpdet_ext_res (pdata (arizona i1)) \<noteq> 0 then
                   (if hpdet_ext_res (pdata (arizona i1)) \<ge> val
                    then Inr (sint val, emit (dev_err ''External resistor >= measurement'') i1)
                    else Inr (sint (val - hpdet_ext_res (pdata (arizona i1))), i1))
                 else Inr (sint val, i1)))"

subsection \<open>Headphone tuning\<close>

definition wm5110_low_impedance_patch :: "(nat \<times> u32) list" where
  "wm5110_low_impedance_patch =
     [(0x460, 0x0C21), (0x461, 0xA000), (0x462, 0x0C41), (0x463, 0x50E5),
      (0x464, 0x0C41), (0x465, 0x4040), (0x466, 0x0C41), (0x467, 0x3940),
      (0x468, 0x0C41), (0x469, 0x2418), (0x46A, 0x0846), (0x46B, 0x1990),
      (0x46C, 0x08C6), (0x46D, 0x1450), (0x46E, 0x04CE), (0x46F, 0x1020),
      (0x470, 0x04CE), (0x471, 0x0CD0), (0x472, 0x04CE), (0x473, 0x0A30),
      (0x474, 0x044E), (0x475, 0x0660), (0x476, 0x044E), (0x477, 0x0510),
      (0x478, 0x04CE), (0x479, 0x0400), (0x47A, 0x04CE), (0x47B, 0x0330),
      (0x47C, 0x05DF), (0x47D, 0x0001), (0x47E, 0x07FF), (0x483, 0x0021)]"

definition wm5110_normal_impedance_patch :: "(nat \<times> u32) list" where
  "wm5110_normal_impedance_patch =
     [(0x460, 0x0C40), (0x461, 0xA000), (0x462, 0x0C42), (0x463, 0x50E5),
      (0x464, 0x0842), (0x465, 0x4040), (0x466, 0x0842), (0x467, 0x3940),
      (0x468, 0x0846), (0x469, 0x2418), (0x46A, 0x0442), (0x46B, 0x1990),
      (0x46C, 0x04C6), (0x46D, 0x1450), (0x46E, 0x04CE), (0x46F, 0x1020),
      (0x470, 0x04CE), (0x471, 0x0CD0), (0x472, 0x04CE), (0x473, 0x0A30),
      (0x474, 0x044E), (0x475, 0x0660), (0x476, 0x044E), (0x477, 0x0510),
      (0x478, 0x04CE), (0x479, 0x0400), (0x47A, 0x04CE), (0x47B, 0x0330),
      (0x47C, 0x05DF), (0x47D, 0x0001), (0x47E, 0x07FF), (0x483, 0x0021)]"

definition wm1814_low_impedance_patch :: "(nat \<times> u32) list" where
  "wm1814_low_impedance_patch = [(0x46C, 0x0C01), (0x46E, 0x0C01), (0x470, 0x0C01)]"

definition wm1814_normal_impedance_patch :: "(nat \<times> u32) list" where
  "wm1814_normal_impedance_patch = [(0x46C, 0x0801), (0x46E, 0x0801), (0x470, 0x0801)]"

text \<open>The loop that writes a patch, one register after the other.\<close>

fun write_patch :: "arizona_extcon_info \<Rightarrow> (nat \<times> u32) list \<Rightarrow> arizona_extcon_info" where
  "write_patch info [] = info"
| "write_patch info ((r, d) # patch) =
     (case write_reg info (reg_addr r) d of (ret, i1) \<Rightarrow>
        write_patch (if ret \<noteq> 0 then emit (dev_warn ''Failed to write headphone patch'') i1 else i1)
          patch)"

definition arizona_wm5110_tune_headphone ::
  "hdr \<Rightarrow> arizona_extcon_info \<Rightarrow> int \<Rightarrow> arizona_extcon_info" where
  "arizona_wm5110_tune_headphone H info reading =
     (if reading \<le> hpdet_short_circuit_imp (pdata (arizona info))
      then emit (dev_warn ''Possible HP short, disabling'') info
      else if reading \<le> HP_LOW_IMPEDANCE_LIMIT then
        (if hp_imp_level info = HP_LOW_IMPEDANCE then info
         else write_patch
                (update_bits_ignore (info\<lparr>hp_imp_level := HP_LOW_IMPEDANCE\<rparr>)
                   ARIZONA_HP1_SHORT_CIRCUIT_CTRL (ARIZONA_HP1_SC_ENA_MASK H) 0)
                wm5110_low_impedance_patch)
      else
        (if hp_imp_level info = HP_NORMAL_IMPEDANCE then info
         else write_patch
                (update_bits_ignore (info\<lparr>hp_imp_level := HP_NORMAL_IMPEDANCE\<rparr>)
                   ARIZONA_HP1_SHORT_CIRCUIT_CTRL (ARIZONA_HP1_SC_ENA_MASK H)
                   (ARIZONA_HP1_SC_ENA_MASK H))
                wm5110_normal_impedance_patch))"

definition arizona_wm1814_tune_headphone ::
  "arizona_extcon_info \<Rightarrow> int \<Rightarrow> arizona_extcon_info" where
  "arizona_wm1814_tune_headphone info reading =
     (if reading \<le> hpdet_short_circuit_imp (pdata (arizona info))
      then emit (dev_warn ''Possible HP short, disabling'') info
      else if reading < 15 then
        (if hp_imp_level info = HP_LOW_IMPEDANCE then info
         else write_patch (info\<lparr>hp_imp_level := HP_LOW_IMPEDANCE\<rparr>) wm1814_low_impedance_patch)
      else
        (if hp_imp_level info = HP_NORMAL_IMPEDANCE then info
         else write_patch (info\<lparr>hp_imp_level := HP_NORMAL_IMPEDANCE\<rparr>)
                wm1814_normal_impedance_patch))"

text \<open>The \<^verbatim>\<open>switch (arizona->type)\<close> that picks the tuning function.\<close>

definition tune_headphone :: "hdr \<Rightarrow> arizona_extcon_info \<Rightarrow> int \<Rightarrow> arizona_extcon_info" where
  "tune_headphone H info reading =
     (case codec (arizona info) of
        WM5110 \<Rightarrow> arizona_wm5110_tune_headphone H info reading
      | WM1814 \<Rightarrow> arizona_wm1814_tune_headphone info reading
      | _ \<Rightarrow> info)"

subsection \<open>The detection states: mode, start, restart and stop\<close>

definition jd_mode :: "custom_ops \<Rightarrow> jd_state \<Rightarrow> int" where
  "jd_mode C s =
     (case s of
        arizona_hpdet_moisture \<Rightarrow> ARIZONA_ACCDET_MODE_HPL
      | arizona_hpdet_left \<Rightarrow> ARIZONA_ACCDET_MODE_HPL
      | arizona_hpdet_right \<Rightarrow> ARIZONA_ACCDET_MODE_HPR
      | arizona_micd_button \<Rightarrow> ARIZONA_ACCDET_MODE_MIC
      | arizona_micd_microphone \<Rightarrow> ARIZONA_ACCDET_MODE_MIC
      | arizona_hpdet_acc_id \<Rightarrow> ARIZONA_ACCDET_MODE_HPL
      | custom_jd \<Rightarrow> custom_mode C)"

definition arizona_jds_get_mode :: "custom_ops \<Rightarrow> arizona_extcon_info \<Rightarrow> int" where
  "arizona_jds_get_mode C info =
     (case state info of None \<Rightarrow> ARIZONA_ACCDET_MODE_INVALID | Some s \<Rightarrow> jd_mode C s)"

text \<open>The error exit of \<^verbatim>\<open>arizona_hpdet_start\<close> (label \<^verbatim>\<open>err\<close>).\<close>

definition hpdet_start_err ::
  "hdr \<Rightarrow> arizona_extcon_info \<Rightarrow> int \<Rightarrow> fault + (int \<times> arizona_extcon_info)" where
  "hpdet_start_err H info ret =
     Inr (ret, emit pm_runtime_put_autosuspend (arizona_extcon_hp_clamp H info False))"

definition arizona_hpdet_start ::
  "hdr \<Rightarrow> custom_ops \<Rightarrow> arizona_extcon_info \<Rightarrow> fault + (int \<times> arizona_extcon_info)" where
  "arizona_hpdet_start H C info =
     (if fixed_hpdet_imp (pdata (arizona info)) \<noteq> 0 then
        let imp = fixed_hpdet_imp (pdata (arizona info));
            i1 = (if has_hpdet_cb (pdata (arizona info)) then emit (hpdet_cb imp) info else info);
            i2 = (case codec (arizona i1) of
                    WM5110 \<Rightarrow>
                      (let t = arizona_wm5110_tune_headphone H i1 imp
                       in t\<lparr>arizona := (arizona t)\<lparr>hp_impedance := imp\<rparr>\<rparr>)
                  | WM1814 \<Rightarrow>
                      (let t = arizona_wm1814_tune_headphone i1 imp
                       in t\<lparr>arizona := (arizona t)\<lparr>hp_impedance := imp\<rparr>\<rparr>)
                  | _ \<Rightarrow> i1)
        in Inr (- EEXIST, i2)
      else
        let i1 = arizona_extcon_hp_clamp H (emit pm_runtime_get_sync info) True in
        (case state i1 of
           None \<Rightarrow> Inl null_pointer
         | Some s \<Rightarrow>
             (case update_bits i1 ARIZONA_ACCESSORY_DETECT_MODE_1 (ARIZONA_ACCDET_MODE_MASK H)
                     (word_of_int (jd_mode C s)) of
                (ret, i2) \<Rightarrow>
                  if ret \<noteq> 0
                  then hpdet_start_err H (emit (dev_err ''Failed to set HPDET mode'') i2) ret
                  else
                    (case update_bits i2 ARIZONA_HEADPHONE_DETECT_1 (ARIZONA_HP_POLL H)
                            (ARIZONA_HP_POLL H) of
                       (ret, i3) \<Rightarrow>
                         if ret \<noteq> 0
                         then hpdet_start_err H
                                (emit (dev_err ''Can't start HPDET measurement'') i3) ret
                         else Inr (0, i3)))))"

definition arizona_hpdet_restart :: "hdr \<Rightarrow> arizona_extcon_info \<Rightarrow> arizona_extcon_info" where
  "arizona_hpdet_restart H info =
     update_bits_ignore
       (update_bits_ignore info ARIZONA_HEADPHONE_DETECT_1
          (ARIZONA_HP_IMPEDANCE_RANGE_MASK H OR ARIZONA_HP_POLL H) 0)
       ARIZONA_HEADPHONE_DETECT_1 (ARIZONA_HP_POLL H) (ARIZONA_HP_POLL H)"

definition arizona_hpdet_stop :: "hdr \<Rightarrow> arizona_extcon_info \<Rightarrow> arizona_extcon_info" where
  "arizona_hpdet_stop H info =
     (let i1 = update_bits_ignore info ARIZONA_HEADPHONE_DETECT_1
                 (ARIZONA_HP_IMPEDANCE_RANGE_MASK H OR ARIZONA_HP_POLL H) 0;
          i2 = update_bits_ignore i1 ARIZONA_ACCESSORY_DETECT_MODE_1
                 (ARIZONA_ACCDET_MODE_MASK H) 0;
          i3 = arizona_extcon_hp_clamp H i2 False
      in emit pm_runtime_put_autosuspend (emit pm_runtime_mark_last_busy i3))"

definition arizona_hpdet_moisture_start ::
  "hdr \<Rightarrow> custom_ops \<Rightarrow> arizona_extcon_info \<Rightarrow> fault + (int \<times> arizona_extcon_info)" where
  "arizona_hpdet_moisture_start H C info =
     (case arizona_hpdet_start H C info of
        Inl f \<Rightarrow> Inl f
      | Inr (ret, i1) \<Rightarrow> Inr (ret, arizona_extcon_hp_clamp H i1 False))"

text \<open>The three writes that the source makes on revision A silicon (\<^verbatim>\<open>micd_reva\<close>).\<close>

definition micd_reva_writes :: "arizona_extcon_info \<Rightarrow> u32 \<Rightarrow> arizona_extcon_info" where
  "micd_reva_writes info v =
     write_reg_ignore
       (write_reg_ignore (write_reg_ignore info (reg_addr 0x80) 0x3) (reg_addr 0x294) v)
       (reg_addr 0x80) 0x0"

definition arizona_micd_start ::
  "hdr \<Rightarrow> custom_ops \<Rightarrow> arizona_extcon_info \<Rightarrow> fault + (int \<times> arizona_extcon_info)" where
  "arizona_micd_start H C info =
     (let i1 = emit regulator_enable (emit pm_runtime_get_sync info);
          i2 = (if regulator_enable_ret (io (arizona i1)) \<noteq> 0
                then emit (dev_err ''Failed to enable MICVDD'') i1 else i1);
          i3 = (if micd_reva i2 then micd_reva_writes i2 0 else i2)
      in case state i3 of
           None \<Rightarrow> Inl null_pointer
         | Some s \<Rightarrow>
             let mode = (if detecting i3 \<and> micd_software_compare (pdata (arizona i3))
                         then ARIZONA_ACCDET_MODE_ADC else jd_mode C s);
                 i4 = update_bits_ignore i3 ARIZONA_ACCESSORY_DETECT_MODE_1
                        (ARIZONA_ACCDET_MODE_MASK H) (word_of_int mode)
             in (case arizona_extcon_pulse_micbias i4 of
                   Inl f \<Rightarrow> Inl f
                 | Inr i5 \<Rightarrow>
                     Inr (0, update_bits_ignore i5 ARIZONA_MIC_DETECT_1 (ARIZONA_MICD_ENA H)
                               (ARIZONA_MICD_ENA H))))"

definition arizona_micd_stop :: "hdr \<Rightarrow> arizona_extcon_info \<Rightarrow> fault + arizona_extcon_info" where
  "arizona_micd_stop H info =
     (case arizona_extcon_get_micbias info of
        Inl f \<Rightarrow> Inl f
      | Inr widget \<Rightarrow>
          let i1 = update_bits_ignore info ARIZONA_MIC_DETECT_1 (ARIZONA_MICD_ENA H) 0;
              i2 = emit (snd_soc_dapm_disable_pin widget) i1;
              i3 = (if dapm_disable_ret (io (arizona i2)) \<noteq> 0
                    then emit (dev_warn ''Failed to disable'') i2 else i2);
              i4 = emit snd_soc_dapm_sync i3;
              i5 = (if micd_reva i4 then micd_reva_writes i4 2 else i4);
              i6 = update_bits_ignore i5 ARIZONA_ACCESSORY_DETECT_MODE_1
                     (ARIZONA_ACCDET_MODE_MASK H) 0
          in Inr (emit pm_runtime_put_autosuspend
                    (emit pm_runtime_mark_last_busy (emit regulator_disable i6))))"

definition arizona_micd_mic_start ::
  "hdr \<Rightarrow> custom_ops \<Rightarrow> arizona_extcon_info \<Rightarrow> fault + (int \<times> arizona_extcon_info)" where
  "arizona_micd_mic_start H C info =
     (let i1 = emit (regulator_allow_bypass False) (info\<lparr>detecting := True\<rparr>);
          i2 = (if regulator_bypass_ret (io (arizona i1)) \<noteq> 0
                then emit (dev_err ''Failed to regulate MICVDD'') i1 else i1)
      in arizona_micd_start H C i2)"

definition arizona_micd_mic_stop :: "hdr \<Rightarrow> arizona_extcon_info \<Rightarrow> fault + arizona_extcon_info" where
  "arizona_micd_mic_stop H info =
     (case arizona_micd_stop H info of
        Inl f \<Rightarrow> Inl f
      | Inr i1 \<Rightarrow>
          let i2 = emit (regulator_allow_bypass True) i1;
              i3 = (if regulator_bypass_ret (io (arizona i2)) \<noteq> 0
                    then emit (dev_err ''Failed to bypass MICVDD'') i2 else i2)
          in Inr (i3\<lparr>detecting := False\<rparr>))"

definition arizona_hpdet_acc_id_stop ::
  "hdr \<Rightarrow> arizona_extcon_info \<Rightarrow> fault + arizona_extcon_info" where
  "arizona_hpdet_acc_id_stop H info =
     (case array_get (micd_modes info) 0 of
        Inl f \<Rightarrow> Inl f
      | Inr m \<Rightarrow>
          let id_gpio = hpdet_id_gpio (pdata (arizona info));
              i1 = update_bits_ignore info ARIZONA_ACCESSORY_DETECT_MODE_1
                     (ARIZONA_ACCDET_SRC H) (src m);
              i2 = (if id_gpio \<noteq> 0 then emit (gpio_set_value_cansleep id_gpio 0) i1 else i1)
          in Inr (arizona_hpdet_stop H i2))"

text \<open>The call \<^verbatim>\<open>info->state->stop(info)\<close>, by the static initialisers of the states.\<close>

definition jd_stop ::
  "hdr \<Rightarrow> custom_ops \<Rightarrow> jd_state \<Rightarrow> arizona_extcon_info \<Rightarrow> fault + arizona_extcon_info" where
  "jd_stop H C s info =
     (case s of
        arizona_hpdet_moisture \<Rightarrow> Inr (arizona_hpdet_stop H info)
      | arizona_hpdet_left \<Rightarrow> Inr (arizona_hpdet_stop H info)
      | arizona_hpdet_right \<Rightarrow> Inr (arizona_hpdet_stop H info)
      | arizona_micd_button \<Rightarrow> arizona_micd_stop H info
      | arizona_micd_microphone \<Rightarrow> arizona_micd_mic_stop H info
      | arizona_hpdet_acc_id \<Rightarrow> arizona_hpdet_acc_id_stop H info
      | custom_jd \<Rightarrow> custom_stop C info)"

subsection \<open>The state controller\<close>

text \<open>
  \<^verbatim>\<open>arizona_jds_set_state\<close> calls the \<^verbatim>\<open>start\<close> operation of the new state through the
  function pointer (\<open>jd_start\<close>, by the static initialisers), and the start operation
  of the accessory identification state feeds a first reading to its own \<^verbatim>\<open>reading\<close>
  operation, which changes the state again: the four functions are mutually recursive.
\<close>

function arizona_jds_set_state ::
    "hdr \<Rightarrow> custom_ops \<Rightarrow> arizona_extcon_info \<Rightarrow> jd_state option \<Rightarrow>
       fault + (int \<times> arizona_extcon_info)"
  and jd_start ::
    "hdr \<Rightarrow> custom_ops \<Rightarrow> jd_state \<Rightarrow> arizona_extcon_info \<Rightarrow>
       fault + (int \<times> arizona_extcon_info)"
  and arizona_hpdet_acc_id_start ::
    "hdr \<Rightarrow> custom_ops \<Rightarrow> arizona_extcon_info \<Rightarrow> fault + (int \<times> arizona_extcon_info)"
  and arizona_hpdet_acc_id_reading ::
    "hdr \<Rightarrow> custom_ops \<Rightarrow> arizona_extcon_info \<Rightarrow> int \<Rightarrow> fault + (int \<times> arizona_extcon_info)"
where
  "arizona_jds_set_state H C info new_state =
     (if new_state \<noteq> state info then
        (case (case state info of None \<Rightarrow> Inr info | Some old \<Rightarrow> jd_stop H C old info) of
           Inl f \<Rightarrow> Inl f
         | Inr i1 \<Rightarrow>
             (case new_state of
                None \<Rightarrow> Inr (0, i1\<lparr>state := None\<rparr>)
              | Some s \<Rightarrow>
                  (case jd_start H C s (i1\<lparr>state := Some s\<rparr>) of
                     Inl f \<Rightarrow> Inl f
                   | Inr (ret, i2) \<Rightarrow> Inr (ret, if ret < 0 then i2\<lparr>state := None\<rparr> else i2))))
      else Inr (0, info))"
| "jd_start H C s info =
     (case s of
        arizona_hpdet_moisture \<Rightarrow> arizona_hpdet_moisture_start H C info
      | arizona_hpdet_left \<Rightarrow> arizona_hpdet_start H C info
      | arizona_hpdet_right \<Rightarrow> arizona_hpdet_start H C info
      | arizona_micd_button \<Rightarrow> arizona_micd_start H C info
      | arizona_micd_microphone \<Rightarrow> arizona_micd_mic_start H C info
      | arizona_hpdet_acc_id \<Rightarrow> arizona_hpdet_acc_id_start H C info
      | custom_jd \<Rightarrow> custom_start C info)"
| "arizona_hpdet_acc_id_start H C info =
     (let i1 = arizona_extcon_hp_clamp H (emit pm_runtime_get_sync info) True in
      case array_get (micd_modes i1) 0 of
        Inl f \<Rightarrow> Inl f
      | Inr m \<Rightarrow>
          (case update_bits i1 ARIZONA_ACCESSORY_DETECT_MODE_1
                  (ARIZONA_ACCDET_SRC H OR ARIZONA_ACCDET_MODE_MASK H)
                  (src m OR word_of_int ARIZONA_ACCDET_MODE_HPL) of
             (ret, i2) \<Rightarrow>
               if ret \<noteq> 0
               then Inr (ret, arizona_extcon_report
                                (emit pm_runtime_put_autosuspend
                                   (arizona_extcon_hp_clamp H
                                      (emit (dev_err ''Failed to set HPDETL mode'') i2) False))
                                BIT_HEADSET_NO_MIC)
               else if hpdet_acc_id_line (pdata (arizona i2)) then
                 (case update_bits i2 ARIZONA_HEADPHONE_DETECT_1 (ARIZONA_HP_POLL H)
                         (ARIZONA_HP_POLL H) of
                    (ret, i3) \<Rightarrow>
                      if ret \<noteq> 0
                      then Inr (ret, arizona_extcon_report
                                       (emit pm_runtime_put_autosuspend
                                          (arizona_extcon_hp_clamp H
                                             (emit (dev_err ''Can't start HPDETL measurement'') i3)
                                             False))
                                       BIT_HEADSET_NO_MIC)
                      else Inr (0, i3))
               else
                 (case arizona_hpdet_acc_id_reading H C i2 32 of
                    Inl f \<Rightarrow> Inl f
                  | Inr (_, i3) \<Rightarrow> Inr (0, i3))))"
| "arizona_hpdet_acc_id_reading H C info reading =
     (let id_gpio = hpdet_id_gpio (pdata (arizona info)) in
      if reading < 0 then Inr (reading, info)
      else
        case res3_set (hpdet_res info) (num_hpdet_res info) (word_of_int reading) of
          Inl f \<Rightarrow> Inl f
        | Inr res \<Rightarrow>
            let i1 = info\<lparr>hpdet_res := res, num_hpdet_res := num_hpdet_res info + 1\<rparr> in
            if id_gpio \<noteq> 0 \<and> num_hpdet_res i1 = 1 then
              (case array_get (micd_modes i1) 0 of
                 Inl f \<Rightarrow> Inl f
               | Inr m \<Rightarrow>
                   Inr (- EAGAIN,
                        emit (gpio_set_value_cansleep id_gpio 1)
                          (update_bits_ignore i1 ARIZONA_ACCESSORY_DETECT_MODE_1
                             (ARIZONA_ACCDET_SRC H OR ARIZONA_ACCDET_MODE_MASK H)
                             (src m OR word_of_int ARIZONA_ACCDET_MODE_HPR))))
            else if sint (fst (hpdet_res i1)) \<ge> ARIZONA_HPDET_MAX \<and> \<not> hpdet_retried i1 then
              (case array_get (micd_modes i1) 0 of
                 Inl f \<Rightarrow> Inl f
               | Inr m \<Rightarrow>
                   Inr (- EAGAIN,
                        update_bits_ignore (i1\<lparr>num_hpdet_res := 0, hpdet_retried := True\<rparr>)
                          ARIZONA_ACCESSORY_DETECT_MODE_1
                          (ARIZONA_ACCDET_SRC H OR ARIZONA_ACCDET_MODE_MASK H)
                          (src m OR word_of_int ARIZONA_ACCDET_MODE_HPL)))
            else if id_gpio = 0 \<or> fst (snd (hpdet_res i1)) > 50 then
              (case arizona_jds_set_state H C i1 (Some arizona_micd_microphone) of
                 Inl f \<Rightarrow> Inl f
               | Inr (_, i2) \<Rightarrow> Inr (0, i2))
            else
              (case arizona_jds_set_state H C
                      (arizona_extcon_report i1 BIT_HEADSET_NO_MIC) None of
                 Inl f \<Rightarrow> Inl f
               | Inr (_, i2) \<Rightarrow> Inr (0, i2)))"
  by pat_completeness auto
termination
  by (relation "measure (\<lambda>x. case x of
         Inl (Inl (H, C, info, new_state)) \<Rightarrow>
           (if new_state = Some arizona_hpdet_acc_id then 5 else 1)
       | Inl (Inr (H, C, s, info)) \<Rightarrow> (if s = arizona_hpdet_acc_id then 4 else 0)
       | Inr (Inl (H, C, info)) \<Rightarrow> 3
       | Inr (Inr (H, C, info, reading)) \<Rightarrow> 2)") auto

subsection \<open>Delayed work\<close>

text \<open>
  Modelled from the spec: the kernel's delayed work items ("cancellable scheduled
  tasks"). Queueing an item that is already queued changes nothing; cancelling tells
  whether the item was queued.
\<close>

definition schedule_work :: "arizona_extcon_info \<Rightarrow> work \<Rightarrow> int \<Rightarrow> arizona_extcon_info" where
  "schedule_work info w ms =
     emit (schedule_delayed_work w ms)
       (if pending info w = None then info\<lparr>pending := (pending info)(w := Some ms)\<rparr> else info)"

definition cancel_work :: "arizona_extcon_info \<Rightarrow> work \<Rightarrow> bool \<times> arizona_extcon_info" where
  "cancel_work info w =
     (pending info w \<noteq> None,
      emit (cancel_delayed_work_sync w) (info\<lparr>pending := (pending info)(w := None)\<rparr>))"

text \<open>The work queue takes an item off the queue before it runs the item's function.\<close>

definition dequeue_work :: "arizona_extcon_info \<Rightarrow> work \<Rightarrow> arizona_extcon_info" where
  "dequeue_work info w = info\<lparr>pending := (pending info)(w := None)\<rparr>"

subsection \<open>The readings of the detection states\<close>

definition arizona_hpdet_moisture_reading ::
  "hdr \<Rightarrow> custom_ops \<Rightarrow> arizona_extcon_info \<Rightarrow> int \<Rightarrow> fault + (int \<times> arizona_extcon_info)" where
  "arizona_hpdet_moisture_reading H C info val =
     (if val < 0 then Inr (val, info)
      else if val < hpdet_moisture_imp (pdata (arizona info)) then
        (case arizona_jds_set_state H C info (Some arizona_micd_microphone) of
           Inl f \<Rightarrow> Inl f
         | Inr (_, i1) \<Rightarrow> Inr (0, i1))
      else
        (case arizona_jds_set_state H C
                (emit (dev_warn ''Jack detection due to moisture, ignoring'') info) None of
           Inl f \<Rightarrow> Inl f
         | Inr (_, i1) \<Rightarrow> Inr (0, i1)))"

definition arizona_hpdet_reading ::
  "hdr \<Rightarrow> custom_ops \<Rightarrow> arizona_extcon_info \<Rightarrow> int \<Rightarrow> fault + (int \<times> arizona_extcon_info)" where
  "arizona_hpdet_reading H C info val =
     (if val < 0 then Inr (val, info)
      else
        let i1 = info\<lparr>arizona := (arizona info)\<lparr>hp_impedance := val\<rparr>\<rparr>;
            i2 = (if has_hpdet_cb (pdata (arizona i1))
                  then emit (hpdet_cb (hp_impedance (arizona i1))) i1 else i1);
            i3 = tune_headphone H i2 (hp_impedance (arizona i2))
        in if mic i3 then
             (case arizona_jds_set_state H C (arizona_extcon_report i3 BIT_HEADSET)
                     (Some arizona_micd_button) of
                Inl f \<Rightarrow> Inl f
              | Inr (_, i4) \<Rightarrow> Inr (0, i4))
           else
             (case arizona_jds_set_state H C (arizona_extcon_report i3 BIT_HEADSET_NO_MIC) None of
                Inl f \<Rightarrow> Inl f
              | Inr (_, i4) \<Rightarrow> Inr (0, i4)))"

text \<open>
  The loop \<^verbatim>\<open>for (i = 0; i < info->num_micd_ranges; i++)\<close> that reports every configured
  key as released, from the counter \<open>i\<close>.
\<close>

function report_keys_released :: "arizona_extcon_info \<Rightarrow> int \<Rightarrow> fault + arizona_extcon_info" where
  "report_keys_released info i =
     (if i < num_micd_ranges info then
        (case array_get (micd_ranges info) i of
           Inl f \<Rightarrow> Inl f
         | Inr r \<Rightarrow> report_keys_released (emit (input_report_key (key r) 0) info) (i + 1))
      else Inr info)"
  by pat_completeness auto
termination
  by (relation "measure (\<lambda>(info, i). nat (num_micd_ranges info - i))") (auto simp: emit_def)

text \<open>The level field of a reading: \<^verbatim>\<open>(val & ARIZONA_MICD_LVL_MASK) >> ARIZONA_MICD_LVL_SHIFT\<close>.\<close>

definition micd_lvl :: "hdr \<Rightarrow> int \<Rightarrow> u32" where
  "micd_lvl H val =
     drop_bit (ARIZONA_MICD_LVL_SHIFT H) (word_of_int val AND ARIZONA_MICD_LVL_MASK H)"

definition arizona_micd_button_reading ::
  "hdr \<Rightarrow> arizona_extcon_info \<Rightarrow> int \<Rightarrow> fault + (int \<times> arizona_extcon_info)" where
  "arizona_micd_button_reading H info val =
     (if val < 0 then Inr (val, info)
      else if word_of_int val AND MICD_LVL_0_TO_7 H \<noteq> 0 then
        let lvl = micd_lvl H val
        in case report_keys_released info 0 of
             Inl f \<Rightarrow> Inl f
           | Inr i1 \<Rightarrow>
               if lvl \<noteq> 0 \<and> ffs lvl - 1 < num_micd_ranges i1 then
                 (case array_get (micd_ranges i1) (ffs lvl - 1) of
                    Inl f \<Rightarrow> Inl f
                  | Inr r \<Rightarrow> Inr (0, emit input_sync (emit (input_report_key (key r) 1) i1)))
               else Inr (0, emit (dev_warn ''Button level out of range'') i1)
      else
        (case report_keys_released info 0 of
           Inl f \<Rightarrow> Inl f
         | Inr i1 \<Rightarrow>
             (case arizona_extcon_pulse_micbias (emit input_sync i1) of
                Inl f \<Rightarrow> Inl f
              | Inr i2 \<Rightarrow> Inr (0, i2))))"

text \<open>The label \<^verbatim>\<open>done\<close> of \<^verbatim>\<open>arizona_micd_mic_reading\<close>.\<close>

definition micd_mic_reading_done ::
  "hdr \<Rightarrow> custom_ops \<Rightarrow> arizona_extcon_info \<Rightarrow> fault + (int \<times> arizona_extcon_info)" where
  "micd_mic_reading_done H C info =
     (case arizona_jds_set_state H C (emit pm_runtime_mark_last_busy info)
             (if hpdet_channel (pdata (arizona info)) \<noteq> 0
              then Some arizona_hpdet_right else Some arizona_hpdet_left) of
        Inl f \<Rightarrow> Inl f
      | Inr (ret, i1) \<Rightarrow>
          let i2 = (if ret < 0
                    then (if mic i1 then arizona_extcon_report i1 BIT_HEADSET
                          else arizona_extcon_report i1 BIT_HEADSET_NO_MIC)
                    else i1)
          in Inr (0, if has_micd_cb (pdata (arizona i2)) then emit (micd_cb (mic i2)) i2 else i2))"

definition arizona_micd_mic_reading ::
  "hdr \<Rightarrow> custom_ops \<Rightarrow> arizona_extcon_info \<Rightarrow> int \<Rightarrow> fault + (int \<times> arizona_extcon_info)" where
  "arizona_micd_mic_reading H C info val =
     (if val < 0 then Inr (val, info)
      else if word_of_int val AND ARIZONA_MICD_STS H = 0 then
        micd_mic_reading_done H C
          ((emit (dev_warn ''Detected open circuit'') info)
             \<lparr>mic := micd_open_circuit_declare (pdata (arizona info))\<rparr>)
      else if word_of_int val AND ARIZONA_MICD_LVL_8 H \<noteq> 0 then
        micd_mic_reading_done H C (info\<lparr>mic := True\<rparr>)
      else if word_of_int val AND MICD_LVL_1_TO_7 H \<noteq> 0 then
        (if jack_flips info \<ge> int32 (micd_num_modes info * 10)
         then micd_mic_reading_done H C info
         else
           let i1 = info\<lparr>micd_mode := int32 (micd_mode info + 1)\<rparr>;
               i2 = (if micd_mode i1 = micd_num_modes i1 then i1\<lparr>micd_mode := 0\<rparr> else i1)
           in case arizona_extcon_set_mode H i2 (micd_mode i2) of
                Inl f \<Rightarrow> Inl f
              | Inr i3 \<Rightarrow> Inr (0, i3\<lparr>jack_flips := int32 (jack_flips i3 + 1)\<rparr>))
      else micd_mic_reading_done H C info)"

definition arizona_micd_mic_timeout_ms :: "arizona_extcon_info \<Rightarrow> int" where
  "arizona_micd_mic_timeout_ms info =
     (if micd_timeout (pdata (arizona info)) \<noteq> 0 then micd_timeout (pdata (arizona info))
      else DEFAULT_MICD_TIMEOUT)"

definition arizona_micd_mic_timeout ::
  "hdr \<Rightarrow> custom_ops \<Rightarrow> arizona_extcon_info \<Rightarrow> fault + arizona_extcon_info" where
  "arizona_micd_mic_timeout H C info =
     (case arizona_jds_set_state H C info
             (if hpdet_channel (pdata (arizona info)) \<noteq> 0
              then Some arizona_hpdet_right else Some arizona_hpdet_left) of
        Inl f \<Rightarrow> Inl f
      | Inr (ret, i1) \<Rightarrow>
          Inr (if ret < 0 then arizona_extcon_report i1 BIT_HEADSET_NO_MIC else i1))"

subsection \<open>Dispatch through the active state\<close>

text \<open>
  The members \<^verbatim>\<open>reading\<close>, \<^verbatim>\<open>restart\<close>, \<^verbatim>\<open>timeout_ms\<close> and \<^verbatim>\<open>timeout\<close> of the static states;
  \<open>None\<close> is a member the initialiser leaves null.
\<close>

definition jd_reading ::
  "hdr \<Rightarrow> custom_ops \<Rightarrow> jd_state \<Rightarrow> arizona_extcon_info \<Rightarrow> int \<Rightarrow>
     fault + (int \<times> arizona_extcon_info)" where
  "jd_reading H C s info val =
     (case s of
        arizona_hpdet_moisture \<Rightarrow> arizona_hpdet_moisture_reading H C info val
      | arizona_hpdet_left \<Rightarrow> arizona_hpdet_reading H C info val
      | arizona_hpdet_right \<Rightarrow> arizona_hpdet_reading H C info val
      | arizona_micd_button \<Rightarrow> arizona_micd_button_reading H info val
      | arizona_micd_microphone \<Rightarrow> arizona_micd_mic_reading H C info val
      | arizona_hpdet_acc_id \<Rightarrow> arizona_hpdet_acc_id_reading H C info val
      | custom_jd \<Rightarrow> custom_reading C info val)"

definition jd_restart ::
  "hdr \<Rightarrow> custom_ops \<Rightarrow> jd_state \<Rightarrow> (arizona_extcon_info \<Rightarrow> fault + arizona_extcon_info) option" where
  "jd_restart H C s =
     (case s of
        arizona_hpdet_acc_id \<Rightarrow> Some (\<lambda>info. Inr (arizona_hpdet_restart H info))
      | custom_jd \<Rightarrow> custom_restart C
      | _ \<Rightarrow> None)"

definition jd_timeout_ms :: "custom_ops \<Rightarrow> jd_state \<Rightarrow> (arizona_extcon_info \<Rightarrow> int) option" where
  "jd_timeout_ms C s =
     (case s of
        arizona_micd_microphone \<Rightarrow> Some arizona_micd_mic_timeout_ms
      | custom_jd \<Rightarrow> custom_timeout_ms C
      | _ \<Rightarrow> None)"

definition jd_timeout ::
  "hdr \<Rightarrow> custom_ops \<Rightarrow> jd_state \<Rightarrow> (arizona_extcon_info \<Rightarrow> fault + arizona_extcon_info) option" where
  "jd_timeout H C s =
     (case s of
        arizona_micd_microphone \<Rightarrow> Some (arizona_micd_mic_timeout H C)
      | custom_jd \<Rightarrow> custom_timeout C
      | _ \<Rightarrow> None)"

definition arizona_jds_reading ::
  "hdr \<Rightarrow> custom_ops \<Rightarrow> arizona_extcon_info \<Rightarrow> int \<Rightarrow> fault + arizona_extcon_info" where
  "arizona_jds_reading H C info val =
     (case state info of
        None \<Rightarrow> Inl null_pointer
      | Some s \<Rightarrow>
          (case jd_reading H C s info val of
             Inl f \<Rightarrow> Inl f
           | Inr (ret, i1) \<Rightarrow>
               if ret = - EAGAIN then
                 (case state i1 of
                    None \<Rightarrow> Inl null_pointer
                  | Some s1 \<Rightarrow>
                      (case jd_restart H C s1 of None \<Rightarrow> Inr i1 | Some restart \<Rightarrow> restart i1))
               else Inr i1))"

definition arizona_jds_cancel_timeout :: "arizona_extcon_info \<Rightarrow> bool \<times> arizona_extcon_info" where
  "arizona_jds_cancel_timeout info = cancel_work info state_timeout_work"

definition arizona_jds_start_timeout ::
  "hdr \<Rightarrow> custom_ops \<Rightarrow> arizona_extcon_info \<Rightarrow> arizona_extcon_info" where
  "arizona_jds_start_timeout H C info =
     (case state info of
        None \<Rightarrow> info
      | Some s \<Rightarrow>
          (case jd_timeout_ms C s of
             None \<Rightarrow> info
           | Some timeout_ms \<Rightarrow>
               if jd_timeout H C s \<noteq> None
               then schedule_work info state_timeout_work (timeout_ms info)
               else info))"

subsection \<open>Work functions and interrupt handlers\<close>

definition arizona_jds_timeout_work ::
  "hdr \<Rightarrow> custom_ops \<Rightarrow> arizona_extcon_info \<Rightarrow> fault + arizona_extcon_info" where
  "arizona_jds_timeout_work H C info0 =
     (let info = dequeue_work info0 state_timeout_work in
      case state info of
        None \<Rightarrow> Inl null_pointer
      | Some s \<Rightarrow>
          (case jd_timeout H C s of
             None \<Rightarrow> Inl null_pointer
           | Some timeout \<Rightarrow>
               (case timeout info of
                  Inl f \<Rightarrow> Inl f
                | Inr i1 \<Rightarrow> Inr (arizona_jds_start_timeout H C i1))))"

definition arizona_hpdet_handler ::
  "hdr \<Rightarrow> custom_ops \<Rightarrow> arizona_extcon_info \<Rightarrow> fault + (irqreturn \<times> arizona_extcon_info)" where
  "arizona_hpdet_handler H C info0 =
     (let info = snd (arizona_jds_cancel_timeout info0);
          mode = arizona_jds_get_mode C info
      in if mode = ARIZONA_ACCDET_MODE_HPL \<or> mode = ARIZONA_ACCDET_MODE_HPR \<or>
            mode = ARIZONA_ACCDET_MODE_HPM
         then
           (case arizona_hpdet_read H info of
              Inl f \<Rightarrow> Inl f
            | Inr (ret, i1) \<Rightarrow>
                (case (if ret = - EAGAIN then Inr i1 else arizona_jds_reading H C i1 ret) of
                   Inl f \<Rightarrow> Inl f
                 | Inr i2 \<Rightarrow>
                     Inr (IRQ_HANDLED,
                          emit pm_runtime_mark_last_busy (arizona_jds_start_timeout H C i2))))
         else Inr (IRQ_NONE,
                   arizona_jds_start_timeout H C (emit (dev_warn ''Spurious HPDET IRQ'') info)))"

definition arizona_micd_handler ::
  "hdr \<Rightarrow> custom_ops \<Rightarrow> arizona_extcon_info \<Rightarrow> fault + arizona_extcon_info" where
  "arizona_micd_handler H C info0 =
     (let info = snd (arizona_jds_cancel_timeout (dequeue_work info0 micd_detect_work));
          mode = arizona_jds_get_mode C info
      in if mode = ARIZONA_ACCDET_MODE_MIC \<or> mode = ARIZONA_ACCDET_MODE_ADC
         then
           (case arizona_micd_read H info of
              (ret, i1) \<Rightarrow>
                (case (if ret = - EAGAIN then Inr i1 else arizona_jds_reading H C i1 ret) of
                   Inl f \<Rightarrow> Inl f
                 | Inr i2 \<Rightarrow>
                     Inr (emit pm_runtime_mark_last_busy (arizona_jds_start_timeout H C i2))))
         else Inr (arizona_jds_start_timeout H C (emit (dev_warn ''Spurious MICDET IRQ'') info)))"

definition arizona_hpdet_work ::
  "hdr \<Rightarrow> custom_ops \<Rightarrow> arizona_extcon_info \<Rightarrow> fault + arizona_extcon_info" where
  "arizona_hpdet_work H C info =
     (case arizona_jds_set_state H C (dequeue_work info hpdet_work) (Some arizona_hpdet_acc_id) of
        Inl f \<Rightarrow> Inl f
      | Inr (_, i1) \<Rightarrow> Inr i1)"

text \<open>The label \<^verbatim>\<open>out\<close> of \<^verbatim>\<open>arizona_jackdet\<close>.\<close>

definition jackdet_out :: "hdr \<Rightarrow> arizona_extcon_info \<Rightarrow> irqreturn \<times> arizona_extcon_info" where
  "jackdet_out H info =
     (IRQ_HANDLED,
      emit pm_runtime_put_autosuspend
        (emit pm_runtime_mark_last_busy
           (write_reg_ignore info ARIZONA_AOD_WKUP_AND_TRIG
              (ARIZONA_MICD_CLAMP_FALL_TRIG_STS H OR ARIZONA_MICD_CLAMP_RISE_TRIG_STS H OR
               ARIZONA_JD1_FALL_TRIG_STS H OR ARIZONA_JD1_RISE_TRIG_STS H))))"

text \<open>The branch of \<^verbatim>\<open>arizona_jackdet\<close> for a jack that is present.\<close>

definition jackdet_insert ::
  "hdr \<Rightarrow> custom_ops \<Rightarrow> arizona_extcon_info \<Rightarrow> fault + arizona_extcon_info" where
  "jackdet_insert H C info =
     (let i1 = emit (dev_info ''Detected jack'') info;
          i2 = (if jd_wake_time (pdata (arizona i1)) \<noteq> 0
                then emit (pm_wakeup_event (jd_wake_time (pdata (arizona i1)))) i1 else i1)
      in case (if \<not> hpdet_acc_id (pdata (arizona i2)) then
                 let i3 = i2\<lparr>mic := False, jack_flips := 0\<rparr>;
                     i4 = (if init_mic_delay (pdata (arizona i3)) \<noteq> 0
                           then emit (msleep (init_mic_delay (pdata (arizona i3)))) i3 else i3)
                 in case arizona_jds_set_state H C i4
                           (if has_custom_jd (pdata (arizona i4)) then Some custom_jd
                            else if hpdet_moisture_imp (pdata (arizona i4)) \<noteq> 0
                            then Some arizona_hpdet_moisture
                            else Some arizona_micd_microphone) of
                      Inl f \<Rightarrow> Inl f
                    | Inr (_, i5) \<Rightarrow> Inr (arizona_jds_start_timeout H C i5)
               else Inr (schedule_work i2 hpdet_work HPDET_DEBOUNCE)) of
           Inl f \<Rightarrow> Inl f
         | Inr i6 \<Rightarrow>
             Inr (update_bits_ignore i6 ARIZONA_JACK_DETECT_DEBOUNCE
                    (ARIZONA_MICD_CLAMP_DB H OR ARIZONA_JD1_DB H) 0))"

text \<open>The branch of \<^verbatim>\<open>arizona_jackdet\<close> for a jack that was removed.\<close>

definition jackdet_removal ::
  "hdr \<Rightarrow> custom_ops \<Rightarrow> arizona_extcon_info \<Rightarrow> fault + arizona_extcon_info" where
  "jackdet_removal H C info =
     (let i1 = emit (dev_info ''Detected jack removal'') info;
          i2 = i1\<lparr>num_hpdet_res := 0, hpdet_res := (0, 0, 0), mic := False,
                  hpdet_retried := False, arizona := (arizona i1)\<lparr>hp_impedance := 0\<rparr>\<rparr>
      in case arizona_jds_set_state H C i2 None of
           Inl f \<Rightarrow> Inl f
         | Inr (_, i3) \<Rightarrow>
             (case report_keys_released i3 0 of
                Inl f \<Rightarrow> Inl f
              | Inr i4 \<Rightarrow>
                  let i5 = arizona_extcon_report (emit input_sync i4) BIT_NO_HEADSET;
                      i6 = update_bits_ignore i5 ARIZONA_JACK_DETECT_DEBOUNCE
                             (ARIZONA_MICD_CLAMP_DB H OR ARIZONA_JD1_DB H)
                             (ARIZONA_MICD_CLAMP_DB H OR ARIZONA_JD1_DB H);
                      i7 = tune_headphone H i6 (ARIZONA_HP_Z_OPEN H);
                      i8 = (if has_hpdet_cb (pdata (arizona i7))
                            then emit (hpdet_cb (ARIZONA_HP_Z_OPEN H)) i7 else i7)
                  in Inr (if has_micd_cb (pdata (arizona i8)) then emit (micd_cb False) i8 else i8)))"

definition arizona_jackdet ::
  "hdr \<Rightarrow> custom_ops \<Rightarrow> arizona_extcon_info \<Rightarrow> fault + (irqreturn \<times> arizona_extcon_info)" where
  "arizona_jackdet H C info0 =
     (case cancel_work info0 hpdet_work of (cancelled_hp, ia) \<Rightarrow>
      case arizona_jds_cancel_timeout ia of (cancelled_state, ib) \<Rightarrow>
        let info = emit pm_runtime_get_sync ib;
            (msk, present) =
              (if jd_gpio5 (pdata (arizona info))
               then (ARIZONA_MICD_CLAMP_STS H,
                     if jd_invert (pdata (arizona info)) then ARIZONA_MICD_CLAMP_STS H else 0)
               else (ARIZONA_JD1_STS H,
                     if jd_invert (pdata (arizona info)) then 0 else ARIZONA_JD1_STS H))
        in case regmap_read (arizona info) ARIZONA_AOD_IRQ_RAW_STATUS
                  (uninitialised (io (arizona info))) of
             (ret, val0) \<Rightarrow>
               if ret \<noteq> 0
               then Inr (IRQ_NONE,
                         emit pm_runtime_put_autosuspend
                           (emit (dev_err ''Failed to read jackdet status'') info))
               else
                 let val = val0 AND msk in
                 if val = ucast (last_jackdet info) then
                   let i1 = (if cancelled_hp then schedule_work info hpdet_work HPDET_DEBOUNCE
                             else info);
                       i2 = (if cancelled_state then arizona_jds_start_timeout H C i1 else i1)
                   in Inr (jackdet_out H i2)
                 else
                   let i1 = info\<lparr>last_jackdet := ucast val\<rparr> in
                   (case (if ucast (last_jackdet i1) = present then jackdet_insert H C i1
                          else jackdet_removal H C i1) of
                      Inl f \<Rightarrow> Inl f
                    | Inr i2 \<Rightarrow> Inr (jackdet_out H i2)))"

subsection \<open>Driver initialisation\<close>

text \<open>
  \<^verbatim>\<open>arizona_extcon_probe\<close>, for a device with platform data (the device tree is not
  read then). The embedding follows every exit of the function and builds the driver
  state and the trace; the results of the calls into the rest of the kernel that the
  function tests are the fields of \<open>probe_env\<close>. The registrations and requests (switch
  device, input device, GPIOs, interrupts, wake-up source, 32 kHz clock, sysfs file)
  appear through their return codes only, also when an error exit undoes them. Left out
  are the writes of the probe to the registers that configure the detection (switch
  mode, bias start time, rate, debounce time, button levels, clamp, jack detection
  enable): no exit depends on them, and the handlers above read none of them back.
\<close>

record probe_env =
  dapm_ready :: bool
  kzalloc_ok :: bool
  micvdd_ptr :: int
  switch_dev_register_ret :: int
  input_allocate_ok :: bool
  gpio_request_pol_ret :: int
  gpio_request_id_ret :: int
  request_irq_rise_ret :: int
  set_irq_wake_rise_ret :: int
  request_irq_fall_ret :: int
  set_irq_wake_fall_ret :: int
  request_irq_micdet_ret :: int
  request_irq_hpdet_ret :: int
  input_register_ret :: int
  device_create_file_ret :: int

text \<open>\<^verbatim>\<open>IS_ERR\<close> of the kernel: the last 4095 addresses encode error numbers.\<close>

definition IS_ERR :: "int \<Rightarrow> bool" where
  "IS_ERR p = (- 4095 \<le> p \<and> p < 0)"

text \<open>The driver state as \<^verbatim>\<open>devm_kzalloc\<close> returns it: every member zero.\<close>

definition kzalloc_info :: "arizona \<Rightarrow> arizona_extcon_info" where
  "kzalloc_info az =
     \<lparr>arizona = az, last_jackdet = 0, micd_mode = 0, micd_modes = [], micd_num_modes = 0,
      micd_ranges = [], num_micd_ranges = 0, micd_reva = False, micd_clamp = False,
      hpdet_retried = False, hp_imp_level = 0, num_hpdet_res = 0, hpdet_res = (0, 0, 0),
      mic = False, detecting = False, jack_flips = 0, hpdet_ip = 0, edev = 0,
      state = None, pending = (\<lambda>w. None), trace = []\<rparr>"

text \<open>The \<^verbatim>\<open>switch (arizona->type)\<close> of the probe.\<close>

definition probe_codec :: "arizona_extcon_info \<Rightarrow> arizona_extcon_info" where
  "probe_codec info =
     (case codec (arizona info) of
        WM5102 \<Rightarrow>
          (if rev_no (arizona info) = 0 then info\<lparr>micd_reva := True\<rparr>
           else info\<lparr>micd_clamp := True, hpdet_ip := 1\<rparr>)
      | WM8280 \<Rightarrow>
          (if 0 \<le> rev_no (arizona info) \<and> rev_no (arizona info) \<le> 2 then info
           else info\<lparr>micd_clamp := True, hpdet_ip := 2\<rparr>)
      | WM5110 \<Rightarrow>
          (if 0 \<le> rev_no (arizona info) \<and> rev_no (arizona info) \<le> 2 then info
           else info\<lparr>micd_clamp := True, hpdet_ip := 2\<rparr>)
      | WM8998 \<Rightarrow> info\<lparr>micd_clamp := True, hpdet_ip := 2\<rparr>
      | WM1814 \<Rightarrow> info\<lparr>micd_clamp := True, hpdet_ip := 2\<rparr>
      | _ \<Rightarrow> info)"

text \<open>
  The loop that checks that the button ranges are sorted, from the counter \<open>i\<close>:
  \<open>True\<close> when it runs to its end, \<open>False\<close> when it finds a range whose maximum is
  below the one before.
\<close>

function probe_ranges_sorted :: "arizona_extcon_info \<Rightarrow> int \<Rightarrow> fault + bool" where
  "probe_ranges_sorted info i =
     (if i < num_micd_ranges info then
        (case array_get (micd_ranges info) (i - 1) of
           Inl f \<Rightarrow> Inl f
         | Inr a \<Rightarrow>
             (case array_get (micd_ranges info) i of
                Inl f \<Rightarrow> Inl f
              | Inr b \<Rightarrow>
                  if max_ohm a > max_ohm b then Inr False
                  else probe_ranges_sorted info (i + 1)))
      else Inr True)"
  by pat_completeness auto
termination
  by (relation "measure (\<lambda>(info, i). nat (num_micd_ranges info - i))") auto

text \<open>
  The inner loop of the button set-up: the first level of \<^verbatim>\<open>arizona_micd_levels\<close> from
  \<open>j\<close> on that is not below the maximum \<open>m\<close>, or \<^verbatim>\<open>ARIZONA_NUM_MICD_BUTTON_LEVELS\<close>.
\<close>

function probe_find_level :: "int \<Rightarrow> nat \<Rightarrow> nat" where
  "probe_find_level m j =
     (if j < ARIZONA_NUM_MICD_BUTTON_LEVELS then
        (if arizona_micd_levels ! j \<ge> m then j else probe_find_level m (j + 1))
      else j)"
  by pat_completeness auto
termination
  by (relation "measure (\<lambda>(m, j). ARIZONA_NUM_MICD_BUTTON_LEVELS - j)") auto

text \<open>
  The outer loop of the button set-up, from the counter \<open>i\<close>: \<open>True\<close> when every
  range has a level, \<open>False\<close> at the first range that has none.
\<close>

function probe_buttons :: "arizona_extcon_info \<Rightarrow> int \<Rightarrow> fault + bool" where
  "probe_buttons info i =
     (if i < num_micd_ranges info then
        (case array_get (micd_ranges info) i of
           Inl f \<Rightarrow> Inl f
         | Inr r \<Rightarrow>
             if probe_find_level (max_ohm r) 0 = ARIZONA_NUM_MICD_BUTTON_LEVELS then Inr False
             else probe_buttons info (i + 1))
      else Inr True)"
  by pat_completeness auto
termination
  by (relation "measure (\<lambda>(info, i). nat (num_micd_ranges info - i))") auto

text \<open>The labels \<^verbatim>\<open>err_input\<close> and \<^verbatim>\<open>err_register\<close>: runtime PM is disabled.\<close>

definition probe_err_register :: "arizona_extcon_info \<Rightarrow> arizona_extcon_info" where
  "probe_err_register info = emit pm_runtime_disable info"

text \<open>
  The part of the probe after \<^verbatim>\<open>pm_runtime_get_sync\<close>: the interrupts, the bypass of the
  regulator, the input device and the sysfs file.
\<close>

definition probe_irqs :: "probe_env \<Rightarrow> arizona_extcon_info \<Rightarrow> int \<times> arizona_extcon_info" where
  "probe_irqs E info =
     (if request_irq_rise_ret E \<noteq> 0
      then (request_irq_rise_ret E,
            probe_err_register (emit (dev_err ''Failed to get JACKDET rise IRQ'') info))
      else if set_irq_wake_rise_ret E \<noteq> 0
      then (set_irq_wake_rise_ret E,
            probe_err_register (emit (dev_err ''Failed to set JD rise IRQ wake'') info))
      else if request_irq_fall_ret E \<noteq> 0
      then (request_irq_fall_ret E,
            probe_err_register (emit (dev_err ''Failed to get JD fall IRQ'') info))
      else if set_irq_wake_fall_ret E \<noteq> 0
      then (set_irq_wake_fall_ret E,
            probe_err_register (emit (dev_err ''Failed to set JD fall IRQ wake'') info))
      else if request_irq_micdet_ret E \<noteq> 0
      then (request_irq_micdet_ret E,
            probe_err_register (emit (dev_err ''Failed to get MICDET IRQ'') info))
      else if request_irq_hpdet_ret E \<noteq> 0
      then (request_irq_hpdet_ret E,
            probe_err_register (emit (dev_err ''Failed to get HPDET IRQ'') info))
      else
        let i1 = emit (regulator_allow_bypass True) info;
            i2 = (if regulator_bypass_ret (io (arizona i1)) \<noteq> 0
                  then emit (dev_warn ''Failed to set MICVDD to bypass'') i1 else i1);
            i3 = emit pm_runtime_put i2
        in if input_register_ret E \<noteq> 0
           then (input_register_ret E,
                 probe_err_register (emit (dev_err ''Can't register input device'') i3))
           else (0, if device_create_file_ret E \<noteq> 0
                    then emit (dev_err ''Failed to create sysfs node for hp_impedance'') i3
                    else i3))"

text \<open>
  The part of the probe that takes over and validates the button ranges, sets the first
  polarity mode and enables runtime PM.
\<close>

definition probe_micd_ranges ::
  "hdr \<Rightarrow> probe_env \<Rightarrow> arizona_extcon_info \<Rightarrow> fault + (int \<times> arizona_extcon_info)" where
  "probe_micd_ranges H E info =
     (let pd = pdata (arizona info);
          i1 = (if pdata_num_micd_ranges pd \<noteq> 0
                then info\<lparr>micd_ranges := pdata_micd_ranges pd,
                          num_micd_ranges := pdata_num_micd_ranges pd\<rparr>
                else info\<lparr>micd_ranges := micd_default_ranges,
                          num_micd_ranges := int (length micd_default_ranges)\<rparr>);
          i2 = (if pdata_num_micd_ranges pd > ARIZONA_MAX_MICD_RANGE
                then emit (dev_err ''Too many MICD ranges'') i1 else i1)
      in case (if num_micd_ranges i2 > 1 then probe_ranges_sorted i2 1 else Inr True) of
           Inl f \<Rightarrow> Inl f
         | Inr False \<Rightarrow>
             Inr (- EINVAL, probe_err_register (emit (dev_err ''MICD ranges must be sorted'') i2))
         | Inr True \<Rightarrow>
             (case probe_buttons i2 0 of
                Inl f \<Rightarrow> Inl f
              | Inr False \<Rightarrow>
                  Inr (- EINVAL, probe_err_register (emit (dev_err ''Unsupported MICD level'') i2))
              | Inr True \<Rightarrow>
                  (case arizona_extcon_set_mode H i2 0 of
                     Inl f \<Rightarrow> Inl f
                   | Inr i3 \<Rightarrow>
                       Inr (probe_irqs E
                              (emit pm_runtime_get_sync
                                 (emit pm_runtime_idle (emit pm_runtime_enable i3)))))))"

definition arizona_extcon_probe ::
  "hdr \<Rightarrow> probe_env \<Rightarrow> arizona \<Rightarrow> fault + (int \<times> arizona_extcon_info)" where
  "arizona_extcon_probe H E az0 =
     (if \<not> dapm_ready E then Inr (- EPROBE_DEFER, kzalloc_info az0)
      else
        let pd0 = pdata az0;
            pd = (if hpdet_short_circuit_imp pd0 < 1
                  then pd0\<lparr>hpdet_short_circuit_imp := ARIZONA_HP_SHORT_IMPEDANCE H\<rparr>
                  else if hpdet_short_circuit_imp pd0 \<ge> HP_LOW_IMPEDANCE_LIMIT
                  then pd0\<lparr>hpdet_short_circuit_imp := HP_LOW_IMPEDANCE_LIMIT - 1\<rparr>
                  else pd0);
            az = az0\<lparr>pdata := pd\<rparr>
        in if \<not> kzalloc_ok E then Inr (- ENOMEM, kzalloc_info az)
           else if IS_ERR (micvdd_ptr E)
           then Inr (micvdd_ptr E, emit (dev_err ''Failed to get MICVDD'') (kzalloc_info az))
           else
             let i1 = probe_codec
                        ((kzalloc_info az)
                           \<lparr>last_jackdet :=
                              ucast (NOT (ARIZONA_MICD_CLAMP_STS H OR ARIZONA_JD1_STS H))\<rparr>)
             in if switch_dev_register_ret E < 0
                then Inr (switch_dev_register_ret E,
                          emit (dev_err ''extcon_dev_register() failed'') i1)
                else if \<not> input_allocate_ok E
                then Inr (- ENOMEM,
                          probe_err_register (emit (dev_err ''Can't allocate input dev'') i1))
                else
                  let i2 = (if pdata_num_micd_configs pd \<noteq> 0
                            then i1\<lparr>micd_modes := pdata_micd_configs pd,
                                    micd_num_modes := pdata_num_micd_configs pd\<rparr>
                            else i1\<lparr>micd_modes := micd_default_modes H,
                                    micd_num_modes := int (length (micd_default_modes H))\<rparr>)
                  in case (if micd_pol_gpio pd > 0
                           then (case array_get (micd_modes i2) 0 of
                                   Inl f \<Rightarrow> Inl f
                                 | Inr _ \<Rightarrow> Inr (gpio_request_pol_ret E))
                           else Inr 0) of
                       Inl f \<Rightarrow> Inl f
                     | Inr ret \<Rightarrow>
                         if ret \<noteq> 0
                         then Inr (ret, probe_err_register
                                          (emit (dev_err ''Failed to request GPIO'') i2))
                         else if hpdet_id_gpio pd > 0 \<and> gpio_request_id_ret E \<noteq> 0
                         then Inr (gpio_request_id_ret E,
                                   probe_err_register
                                     (emit (dev_err ''Failed to request GPIO'') i2))
                         else probe_micd_ranges H E i2)"

section \<open>Concrete inputs\<close>

text \<open>
  An instance of every parameter, on which the functions of the driver are run below:
  header values as in the register map of the WM5110, platform data that leave every
  option off, an environment in which every access succeeds, and the driver state as a
  successful probe leaves it with the default tables.
\<close>

definition example_hdr :: hdr where
  "example_hdr =
     \<lparr>ARIZONA_HP1L_SHRTO = 0x0001, ARIZONA_HP1L_FLWR = 0x0004, ARIZONA_HP1L_SHRTI = 0x0002,
      ARIZONA_RMV_SHRT_HP1L = 0x4000, ARIZONA_OUT1L_ENA = 0x0002, ARIZONA_OUT1R_ENA = 0x0001,
      ARIZONA_MICD_BIAS_SRC_MASK = 0x0030, ARIZONA_MICD_BIAS_SRC_SHIFT = 4,
      ARIZONA_ACCDET_SRC = 0x2000, ARIZONA_ACCDET_MODE_MASK = 0x0007,
      ARIZONA_MICD_ENA = 0x0001, ARIZONA_MICDET_ADCVAL_MASK = 0x007F,
      ARIZONA_MICD_STS = 0x0001, ARIZONA_MICD_VALID = 0x0002,
      ARIZONA_MICD_LVL_0 = 0x0004, ARIZONA_MICD_LVL_1 = 0x0008, ARIZONA_MICD_LVL_8 = 0x0400,
      ARIZONA_MICD_LVL_MASK = 0x07FC, ARIZONA_MICD_LVL_SHIFT = 2,
      MICD_LVL_1_TO_7 = 0x03F8, MICD_LVL_0_TO_7 = 0x03FC, MICD_LVL_0_TO_8 = 0x07FC,
      ARIZONA_HP_DONE = 0x0080, ARIZONA_HP_LVL_MASK = 0x007F,
      ARIZONA_HP_DONE_B = 0x8000, ARIZONA_HP_LVL_B_MASK = 0x7FFF,
      ARIZONA_HP_IMPEDANCE_RANGE_MASK = 0x0600, ARIZONA_HP_IMPEDANCE_RANGE_SHIFT = 9,
      ARIZONA_HP_POLL = 0x0001, ARIZONA_HP1_SC_ENA_MASK = 0x1000,
      ARIZONA_MICD_CLAMP_STS = 0x0008, ARIZONA_JD1_STS = 0x0001,
      ARIZONA_MICD_CLAMP_DB = 0x0008, ARIZONA_JD1_DB = 0x0001,
      ARIZONA_MICD_CLAMP_FALL_TRIG_STS = 0x0080, ARIZONA_MICD_CLAMP_RISE_TRIG_STS = 0x0040,
      ARIZONA_JD1_FALL_TRIG_STS = 0x0008, ARIZONA_JD1_RISE_TRIG_STS = 0x0004,
      ARIZONA_HP_Z_OPEN = 2147483647, ARIZONA_HP_SHORT_IMPEDANCE = 4\<rparr>"

definition example_pdata :: arizona_pdata where
  "example_pdata =
     \<lparr>micd_pol_gpio = 0, hpdet_id_gpio = 0, hpdet_short_circuit_imp = 4, hpdet_ext_res = 0,
      fixed_hpdet_imp = 0, hpdet_moisture_imp = 0, hpdet_channel = 0, hpdet_acc_id = False,
      hpdet_acc_id_line = False, has_hpdet_cb = False, has_micd_cb = False,
      has_custom_jd = False, micd_force_micbias = False, micd_force_micbias_initial = False,
      micd_software_compare = False, micd_open_circuit_declare = False, micd_timeout = 0,
      jd_gpio5 = False, jd_invert = False, jd_wake_time = 0, init_mic_delay = 0,
      pdata_num_micd_configs = 0, pdata_micd_configs = [], pdata_num_micd_ranges = 0,
      pdata_micd_ranges = []\<rparr>"

definition example_io :: io_env where
  "example_io =
     \<lparr>rd_ret = (\<lambda>r. 0), wr_ret = (\<lambda>r. 0), dapm_enable_ret = 0, dapm_disable_ret = 0,
      regulator_enable_ret = 0, regulator_bypass_ret = 0, uninitialised = 0\<rparr>"

definition example_arizona :: arizona where
  "example_arizona =
     \<lparr>codec = WM5110, rev_no = 3, hp_impedance = 0, hpdet_clamp = False, hp_ena = 0,
      pdata = example_pdata, regmap = (\<lambda>r. 0), io = example_io\<rparr>"

definition example_env :: probe_env where
  "example_env =
     \<lparr>dapm_ready = True, kzalloc_ok = True, micvdd_ptr = 1, switch_dev_register_ret = 0,
      input_allocate_ok = True, gpio_request_pol_ret = 0, gpio_request_id_ret = 0,
      request_irq_rise_ret = 0, set_irq_wake_rise_ret = 0, request_irq_fall_ret = 0,
      set_irq_wake_fall_ret = 0, request_irq_micdet_ret = 0, request_irq_hpdet_ret = 0,
      input_register_ret = 0, device_create_file_ret = 0\<rparr>"

definition example_custom :: custom_ops where
  "example_custom =
     \<lparr>custom_mode = ARIZONA_ACCDET_MODE_MIC,
      custom_start = (\<lambda>info. Inr (0, info)),
      custom_restart = None,
      custom_reading = (\<lambda>info val. Inr (0, info)),
      custom_stop = (\<lambda>info. Inr info),
      custom_timeout_ms = None,
      custom_timeout = None\<rparr>"

definition example_info :: arizona_extcon_info where
  "example_info =
     \<lparr>arizona = example_arizona, last_jackdet = 0, micd_mode = 0,
      micd_modes = micd_default_modes example_hdr, micd_num_modes = 2,
      micd_ranges = micd_default_ranges, num_micd_ranges = 6, micd_reva = False,
      micd_clamp = True, hpdet_retried = False, hp_imp_level = 0, num_hpdet_res = 0,
      hpdet_res = (0, 0, 0), mic = False, detecting = False, jack_flips = 0, hpdet_ip = 2,
      edev = 0, state = None, pending = (\<lambda>w. None), trace = []\<rparr>"

definition with_reg :: "arizona_extcon_info \<Rightarrow> reg \<Rightarrow> u32 \<Rightarrow> arizona_extcon_info" where
  "with_reg info r v = info\<lparr>arizona := (arizona info)\<lparr>regmap := (regmap (arizona info))(r := v)\<rparr>\<rparr>"

definition with_pdata :: "arizona_extcon_info \<Rightarrow> arizona_pdata \<Rightarrow> arizona_extcon_info" where
  "with_pdata info pd = info\<lparr>arizona := (arizona info)\<lparr>pdata := pd\<rparr>\<rparr>"

definition ext_res_info :: arizona_extcon_info where
  "ext_res_info =
     with_reg (with_pdata example_info (example_pdata\<lparr>hpdet_ext_res := 10\<rparr>))
       ARIZONA_HEADPHONE_DETECT_2 0x8020"

section \<open>Notions the properties are stated with\<close>

text \<open>
  The state of the key \<open>k\<close> of the input device after a sequence of events, from the
  state \<open>b\<close> before: the last report of the key decides.
\<close>

fun key_state :: "event list \<Rightarrow> int \<Rightarrow> bool \<Rightarrow> bool" where
  "key_state [] k b = b"
| "key_state (input_report_key k' v # es) k b = key_state es k (if k' = k then v \<noteq> 0 else b)"
| "key_state (e # es) k b = key_state es k b"

text \<open>The reports that release every configured key, in the order of the table.\<close>

definition release_events :: "arizona_extcon_info \<Rightarrow> event list" where
  "release_events info = map (\<lambda>r. input_report_key (key r) 0) (micd_ranges info)"

text \<open>
  Platform data with a fixed headphone impedance (the headphone detection is skipped
  and its start operation returns \<^verbatim>\<open>-EEXIST\<close>), and platform data with nine sorted
  button ranges, one more than \<^verbatim>\<open>ARIZONA_MAX_MICD_RANGE\<close>.
\<close>

definition fixed_imp_info :: arizona_extcon_info where
  "fixed_imp_info = with_pdata example_info (example_pdata\<lparr>fixed_hpdet_imp := 32\<rparr>)"

definition nine_ranges :: "arizona_micd_range list" where
  "nine_ranges =
     [\<lparr>max_ohm = 3, key = 0x100\<rparr>, \<lparr>max_ohm = 6, key = 0x101\<rparr>,
      \<lparr>max_ohm = 8, key = 0x102\<rparr>, \<lparr>max_ohm = 11, key = 0x103\<rparr>,
      \<lparr>max_ohm = 13, key = 0x104\<rparr>, \<lparr>max_ohm = 16, key = 0x105\<rparr>,
      \<lparr>max_ohm = 18, key = 0x106\<rparr>, \<lparr>max_ohm = 21, key = 0x107\<rparr>,
      \<lparr>max_ohm = 23, key = 0x108\<rparr>]"

definition nine_ranges_arizona :: arizona where
  "nine_ranges_arizona =
     example_arizona\<lparr>pdata := example_pdata\<lparr>pdata_num_micd_ranges := 9,
                                               pdata_micd_ranges := nine_ranges\<rparr>\<rparr>"

text \<open>
  The range field of \<^verbatim>\<open>ARIZONA_HEADPHONE_DETECT_1\<close> is two bits wide (it holds the
  indices 0 to 3 of the range tables).
\<close>

definition range_field_ok :: "hdr \<Rightarrow> bool" where
  "range_field_ok H =
     (ARIZONA_HP_IMPEDANCE_RANGE_SHIFT H \<le> 30 \<and>
      ARIZONA_HP_IMPEDANCE_RANGE_MASK H = push_bit (ARIZONA_HP_IMPEDANCE_RANGE_SHIFT H) 3)"

text \<open>The range index that the register holds.\<close>

definition range_field :: "hdr \<Rightarrow> arizona_extcon_info \<Rightarrow> u32" where
  "range_field H info =
     drop_bit (ARIZONA_HP_IMPEDANCE_RANGE_SHIFT H)
       (regmap (arizona info) ARIZONA_HEADPHONE_DETECT_1 AND ARIZONA_HP_IMPEDANCE_RANGE_MASK H)"

text \<open>The accesses to the range register succeed.\<close>

definition range_io_ok :: "io_env \<Rightarrow> bool" where
  "range_io_ok e =
     (rd_ret e ARIZONA_HEADPHONE_DETECT_1 = 0 \<and> wr_ret e ARIZONA_HEADPHONE_DETECT_1 = 0)"

text \<open>The number of ranges of the hardware revision: the size of the table it uses.\<close>

definition range_count :: "arizona_extcon_info \<Rightarrow> nat" where
  "range_count info =
     (if hpdet_ip info = 0 then 1
      else if hpdet_ip info = 1 then length arizona_hpdet_b_ranges
      else length arizona_hpdet_c_ranges)"

text \<open>
  The measurement is complete and the driver can read it: the status register is read
  and has the done bit, and on the three-range revision the DAC value is read.
\<close>

definition hpdet_complete :: "hdr \<Rightarrow> arizona_extcon_info \<Rightarrow> bool" where
  "hpdet_complete H info =
     (rd_ret (io (arizona info)) ARIZONA_HEADPHONE_DETECT_2 = 0 \<and>
      regmap (arizona info) ARIZONA_HEADPHONE_DETECT_2 AND ARIZONA_HP_DONE_B H \<noteq> 0 \<and>
      (hpdet_ip info = 1 \<longrightarrow> rd_ret (io (arizona info)) ARIZONA_HP_DACVAL = 0))"

text \<open>
  A read on a revision with ranges that returns \<^verbatim>\<open>-EAGAIN\<close> although the measurement
  was complete: the retry that an out-of-bounds value causes.
\<close>

definition range_retry :: "hdr \<Rightarrow> arizona_extcon_info \<Rightarrow> int \<Rightarrow> bool" where
  "range_retry H info ret = (ret = - EAGAIN \<and> hpdet_ip info \<noteq> 0 \<and> hpdet_complete H info)"

text \<open>
  What the hardware and the bus present at one headphone detection interrupt: the status
  word, the DAC value and the return codes of the accesses.
\<close>

record hp_sample =
  sample_status :: u32
  sample_dacval :: u32
  sample_io :: io_env

definition present_sample :: "hp_sample \<Rightarrow> arizona_extcon_info \<Rightarrow> arizona_extcon_info" where
  "present_sample x info =
     info\<lparr>arizona := (arizona info)
       \<lparr>regmap := (regmap (arizona info))
                    (ARIZONA_HEADPHONE_DETECT_2 := sample_status x,
                     ARIZONA_HP_DACVAL := sample_dacval x),
        io := sample_io x\<rparr>\<rparr>"

text \<open>
  A detection session: \<^verbatim>\<open>arizona_hpdet_read\<close> once for every sample, in order. For each
  read the session records whether it was a retry for an out-of-bounds value, the
  return code, and the range index in the register afterwards.
\<close>

fun hpdet_session ::
  "hdr \<Rightarrow> arizona_extcon_info \<Rightarrow> hp_sample list \<Rightarrow> (bool \<times> int \<times> u32) list" where
  "hpdet_session H info [] = []"
| "hpdet_session H info (x # xs) =
     (case arizona_hpdet_read H (present_sample x info) of
        Inl f \<Rightarrow> []
      | Inr (ret, i1) \<Rightarrow>
          (range_retry H (present_sample x info) ret, ret, range_field H i1)
            # hpdet_session H i1 xs)"

text \<open>
  The four-range revision at its last range, with the largest value the level field can
  hold and the done bit.
\<close>

definition last_range_info :: arizona_extcon_info where
  "last_range_info =
     with_reg (with_reg example_info ARIZONA_HEADPHONE_DETECT_1 0x0600)
       ARIZONA_HEADPHONE_DETECT_2 0xFFFF"

text \<open>Three samples that are out of bounds in the ranges 0, 1 and 2, and a fourth in range 3.\<close>

definition stepping_samples :: "hp_sample list" where
  "stepping_samples =
     [\<lparr>sample_status = 0xFFFF, sample_dacval = 0, sample_io = example_io\<rparr>,
      \<lparr>sample_status = 0xFFFF, sample_dacval = 0, sample_io = example_io\<rparr>,
      \<lparr>sample_status = 0xFFFF, sample_dacval = 0, sample_io = example_io\<rparr>,
      \<lparr>sample_status = 0xFFFF, sample_dacval = 0, sample_io = example_io\<rparr>]"

text \<open>
  The three-range revision at its last range, with a complete measurement and a DAC
  value above the ceiling of the range.
\<close>

definition top_b_range_info :: arizona_extcon_info where
  "top_b_range_info =
     with_reg (with_reg (with_reg (example_info\<lparr>hpdet_ip := 1\<rparr>)
       ARIZONA_HEADPHONE_DETECT_1 0x0400) ARIZONA_HEADPHONE_DETECT_2 0x8000)
       ARIZONA_HP_DACVAL 0x3FF"

text \<open>
  The driver state without what a register access, a message or the regulator changes:
  the register map, the clamp flag, the flag \<open>detecting\<close> and the trace are erased.
\<close>

definition soft_state :: "arizona_extcon_info \<Rightarrow> arizona_extcon_info" where
  "soft_state info =
     info\<lparr>arizona := (arizona info)\<lparr>regmap := (\<lambda>r. 0), hpdet_clamp := False\<rparr>,
          detecting := False, trace := []\<rparr>"

text \<open>
  The driver state further without what the start of a detection state and a reading
  of the accessory identification change: the active state, the reported
  classification, the stored impedance and tuning level, and the accumulators.
\<close>

definition stable_state :: "arizona_extcon_info \<Rightarrow> arizona_extcon_info" where
  "stable_state info =
     (soft_state info)
       \<lparr>arizona := (arizona (soft_state info))\<lparr>hp_impedance := 0\<rparr>,
        state := None, edev := 0, hp_imp_level := 0, num_hpdet_res := 0,
        hpdet_res := (0, 0, 0), hpdet_retried := False\<rparr>"

text \<open>
  What the properties below ask of the operations of a platform detection state: the
  stop operation returns and changes only what \<open>soft_state\<close> erases, reporting nothing to
  the switch device; the start operation, when it returns, changes only what
  \<open>stable_state\<close> erases.
\<close>

fun last_report :: "event list \<Rightarrow> int option \<Rightarrow> int option" where
  "last_report [] b = b"
| "last_report (switch_set_state v # es) b = last_report es (Some v)"
| "last_report (e # es) b = last_report es b"

definition custom_keeps :: "custom_ops \<Rightarrow> bool" where
  "custom_keeps C =
     ((\<forall>i. \<exists>i'. custom_stop C i = Inr i' \<and> soft_state i' = soft_state i) \<and>
      (\<forall>i. case custom_start C i of
              Inl f \<Rightarrow> True
            | Inr (ret, i') \<Rightarrow> stable_state i' = stable_state i))"

text \<open>
  The mask that \<^verbatim>\<open>arizona_jackdet\<close> selects, the masked value that stands for a jack that
  is present, and the masked value of the raw status register.
\<close>

definition jackdet_mask :: "hdr \<Rightarrow> arizona_extcon_info \<Rightarrow> u32" where
  "jackdet_mask H info =
     (if jd_gpio5 (pdata (arizona info)) then ARIZONA_MICD_CLAMP_STS H else ARIZONA_JD1_STS H)"

definition jackdet_present :: "hdr \<Rightarrow> arizona_extcon_info \<Rightarrow> u32" where
  "jackdet_present H info =
     (if jd_gpio5 (pdata (arizona info))
      then (if jd_invert (pdata (arizona info)) then ARIZONA_MICD_CLAMP_STS H else 0)
      else (if jd_invert (pdata (arizona info)) then 0 else ARIZONA_JD1_STS H))"

definition jackdet_raw :: "hdr \<Rightarrow> arizona_extcon_info \<Rightarrow> u32" where
  "jackdet_raw H info =
     regmap (arizona info) ARIZONA_AOD_IRQ_RAW_STATUS AND jackdet_mask H info"

text \<open>The classification that the switch device was last given, if any.\<close>

definition reported :: "arizona_extcon_info \<Rightarrow> int option" where
  "reported info = last_report (trace info) None"

text \<open>
  The driver state after the first statements of \<^verbatim>\<open>arizona_jackdet\<close>: both delayed work
  items are cancelled and the device is resumed.
\<close>

definition jackdet_entry :: "arizona_extcon_info \<Rightarrow> arizona_extcon_info" where
  "jackdet_entry info =
     emit pm_runtime_get_sync
       (snd (arizona_jds_cancel_timeout (snd (cancel_work info hpdet_work))))"

text \<open>
  A headset in use: the jack was seen present, the button detection is active, and every
  accumulator of the session holds a value. The raw status register reads 0: the jack
  is gone.
\<close>

definition removal_info :: arizona_extcon_info where
  "removal_info =
     example_info\<lparr>arizona := example_arizona\<lparr>hp_impedance := 32\<rparr>, last_jackdet := 1,
       hpdet_retried := True, hp_imp_level := HP_LOW_IMPEDANCE, num_hpdet_res := 2,
       hpdet_res := (32, 60, 0), mic := True, edev := BIT_HEADSET,
       state := Some arizona_micd_button\<rparr>"

text \<open>
  A result of a start or a reading operation that, when it is not a fault, has the
  members of \<open>stable_state\<close> as they are in \<open>info\<close>.
\<close>

definition stable_result ::
  "fault + (int \<times> arizona_extcon_info) \<Rightarrow> arizona_extcon_info \<Rightarrow> bool" where
  "stable_result res info =
     (case res of Inl f \<Rightarrow> True | Inr (ret, i') \<Rightarrow> stable_state i' = stable_state info)"

text \<open>
  What \<^verbatim>\<open>arizona_jackdet\<close> compares a read with and selects the mask by, and the
  environment of the read.
\<close>

definition jackdet_config ::
  "arizona_extcon_info \<Rightarrow> u16 \<times> arizona_pdata \<times> io_env" where
  "jackdet_config info = (last_jackdet info, pdata (arizona info), io (arizona info))"

text \<open>
  The events that tell user space or the platform of an insertion or a removal: the
  state of the switch device, the key reports and their synchronisation, the
  callbacks, and the messages "Detected jack" and "Detected jack removal".
\<close>

fun is_report :: "event \<Rightarrow> bool" where
  "is_report (switch_set_state v) = True"
| "is_report (input_report_key k v) = True"
| "is_report input_sync = True"
| "is_report (hpdet_cb z) = True"
| "is_report (micd_cb m) = True"
| "is_report (dev_info msg) = True"
| "is_report e = False"

text \<open>
  The active state has a timeout: the condition under which
  \<^verbatim>\<open>arizona_jds_start_timeout\<close> arms the state timeout.
\<close>

definition has_state_timeout :: "hdr \<Rightarrow> custom_ops \<Rightarrow> arizona_extcon_info \<Rightarrow> bool" where
  "has_state_timeout H C info =
     (case state info of
        None \<Rightarrow> False
      | Some s \<Rightarrow> jd_timeout_ms C s \<noteq> None \<and> jd_timeout H C s \<noteq> None)"

text \<open>
  A jack that has just been inserted, on a platform that identifies the accessory by
  the headphone detection: the raw status has the bit of a present jack and the driver
  has not seen it yet.
\<close>

definition inserted_info :: arizona_extcon_info where
  "inserted_info =
     with_reg (with_pdata example_info (example_pdata\<lparr>hpdet_acc_id := True\<rparr>))
       ARIZONA_AOD_IRQ_RAW_STATUS 0x0001"

text \<open>
  A reading of the microphone detection with a level between 1 and 7 and no level 8:
  an impedance that is low but not a short.
\<close>

definition ambiguous_level :: "hdr \<Rightarrow> int \<Rightarrow> bool" where
  "ambiguous_level H val =
     (0 \<le> val \<and> word_of_int val AND ARIZONA_MICD_STS H \<noteq> 0 \<and>
      word_of_int val AND ARIZONA_MICD_LVL_8 H = 0 \<and>
      word_of_int val AND MICD_LVL_1_TO_7 H \<noteq> 0)"

text \<open>
  The table of the polarity modes as the probe leaves it: not empty, its length in
  \<open>micd_num_modes\<close>, and the current mode an index into it.
\<close>

definition modes_ok :: "arizona_extcon_info \<Rightarrow> bool" where
  "modes_ok info =
     (0 < micd_num_modes info \<and> micd_num_modes info = int (length (micd_modes info)) \<and>
      0 \<le> micd_mode info \<and> micd_mode info < micd_num_modes info)"

text \<open>
  A sequence of readings given to \<^verbatim>\<open>arizona_micd_mic_reading\<close> one after the other. For
  each reading the session records whether the polarity was flipped (the flip counter
  changed) and the mode index afterwards.
\<close>

fun mic_session ::
  "hdr \<Rightarrow> custom_ops \<Rightarrow> arizona_extcon_info \<Rightarrow> int list \<Rightarrow> (bool \<times> int) list" where
  "mic_session H C info [] = []"
| "mic_session H C info (v # vs) =
     (case arizona_micd_mic_reading H C info v of
        Inl f \<Rightarrow> []
      | Inr (ret, i1) \<Rightarrow>
          (jack_flips i1 \<noteq> jack_flips info, micd_mode i1) # mic_session H C i1 vs)"

text \<open>
  The microphone detection at work after an insertion, before any flip and after twenty
  flips, which is the bound for the two default modes.
\<close>

definition mic_info :: arizona_extcon_info where
  "mic_info = example_info\<lparr>detecting := True, state := Some arizona_micd_microphone\<rparr>"

definition exhausted_info :: arizona_extcon_info where
  "exhausted_info = mic_info\<lparr>jack_flips := 20\<rparr>"

text \<open>
  Every register of a patch can be written, and every register of a patch holds the
  value of the patch.
\<close>

definition patch_writable :: "(nat \<times> u32) list \<Rightarrow> arizona_extcon_info \<Rightarrow> bool" where
  "patch_writable p info = list_all (\<lambda>(a, d). wr_ret (io (arizona info)) (reg_addr a) = 0) p"

definition patch_written :: "(nat \<times> u32) list \<Rightarrow> arizona_extcon_info \<Rightarrow> bool" where
  "patch_written p info = list_all (\<lambda>(a, d). regmap (arizona info) (reg_addr a) = d) p"

text \<open>
  The microphone detection active with its timeout queued and nothing else: the state a
  while after an insertion.
\<close>

definition mic_timeout_queued :: "arizona_extcon_info \<Rightarrow> arizona_extcon_info" where
  "mic_timeout_queued info =
     info\<lparr>state := Some arizona_micd_microphone,
          pending := (\<lambda>w. None)(state_timeout_work := Some DEFAULT_MICD_TIMEOUT)\<rparr>"
section \<open>Properties\<close>

text \<open>
  The equations of the functions defined by general recursion rewrite a call by its body,
  which holds the function again: they are used by hand.
\<close>

declare micd_read_loop.simps [simp del]
declare report_keys_released.simps [simp del]
declare probe_ranges_sorted.simps [simp del]
declare probe_find_level.simps [simp del]
declare probe_buttons.simps [simp del]
declare arizona_jds_set_state.simps [simp del]
declare jd_start.simps [simp del]
declare arizona_hpdet_acc_id_start.simps [simp del]
declare arizona_hpdet_acc_id_reading.simps [simp del]

subsection \<open>Words\<close>

lemma sint_of_small: "unat (w::u32) < 2147483648 \<Longrightarrow> sint w = uint w"
proof -
  assume a: "unat w < 2147483648"
  then have "int (unat w) < 2147483648" by linarith
  then have lt: "uint w < 2 ^ 31" by (simp only: uint_nat) simp
  have ge: "- (2 ^ 31) \<le> uint w" by (rule order_trans [of _ 0]) simp_all
  have "signed_take_bit 31 (uint w) = uint w"
    using ge lt by (rule signed_take_bit_int_eq_self)
  then show ?thesis by (simp add: sint_uint)
qed

lemma unat_half_small: "unat ((w::u32) div 2) < 2147483648"
proof -
  have "unat w < 4294967296" using unsigned_less [of w, where 'a = nat] by simp
  then show ?thesis by (simp add: unat_div)
qed

subsection \<open>External resistor compensation\<close>

lemma array_get_mem: "array_get xs i = Inr x \<Longrightarrow> x \<in> set xs"
  by (auto simp: array_get_def split: if_splits)

lemma c_ranges_min_small:
  "c \<in> set arizona_hpdet_c_ranges \<Longrightarrow> unat (range_min c) < 2147483648"
  by (auto simp: arizona_hpdet_c_ranges_def)

lemma b_ranges_quot_small:
  assumes "b \<in> set arizona_hpdet_b_ranges"
  shows "unat (factor_b b div d) < 2147483648"
proof -
  have "unat (factor_b b) < 2147483648"
    using assms by (auto simp: arizona_hpdet_b_ranges_def)
  moreover have "unat (factor_b b div d) \<le> unat (factor_b b)"
    by (simp add: unat_div div_le_dividend)
  ultimately show ?thesis by simp
qed

lemma ip1_small:
  assumes "hpdet_ip_1 H info v0 = Inr (Inr val, i1)"
  shows "unat val < 2147483648"
  using assms
  by (auto simp: hpdet_ip_1_def Let_def b_ranges_quot_small
      dest!: array_get_mem
      split: if_splits sum.splits prod.splits)

lemma ip2_small:
  assumes "hpdet_ip_2 H info v0 = Inr (Inr val, i1)"
  shows "unat val < 2147483648"
  using assms
  by (auto simp: hpdet_ip_2_def Let_def unat_half_small c_ranges_min_small
      dest!: array_get_mem
      split: if_splits sum.splits prod.splits)

lemma ip0_small:
  assumes "hpdet_ip_0 H info v0 = Inr (Inr val, i1)" and "ARIZONA_HP_LVL_MASK H \<le> 0x7FFFFFFF"
  shows "unat val < 2147483648"
proof -
  have "val \<le> ARIZONA_HP_LVL_MASK H"
    using assms(1) by (auto simp: hpdet_ip_0_def word_and_le1 split: if_splits)
  then have "val \<le> 0x7FFFFFFF" using assms(2) by simp
  then show ?thesis by (simp add: word_le_nat_alt)
qed

lemma hpdet_switch_small:
  assumes "hpdet_switch H info v0 = Inr (Inr val, i1)"
      and "hpdet_ip info \<noteq> 0 \<or> ARIZONA_HP_LVL_MASK H \<le> 0x7FFFFFFF"
  shows "unat val < 2147483648"
  using assms ip0_small ip1_small ip2_small
  by (auto simp: hpdet_switch_def split: if_splits)

lemma hpdet_switch_pdata:
  assumes "hpdet_switch H info v0 = Inr (r, i1)"
  shows "pdata (arizona i1) = pdata (arizona info)"
  using assms
  by (auto simp: hpdet_switch_def hpdet_ip_0_def hpdet_ip_1_def hpdet_ip_2_def Let_def emit_def
      hpdet_set_range_def update_bits_ignore_def update_bits_def regmap_update_bits_def
      regmap_update_bits_check_def
      split: if_splits sum.splits prod.splits)

text \<open>
  Claim C9. When \<^verbatim>\<open>arizona_hpdet_read\<close> reaches a final measurement \<open>val\<close> (the status
  register is read and the switch on the hardware revision yields a value), a
  configured external resistance is subtracted exactly when it is strictly below the
  measurement; when it is at or above it, an error is logged and the measurement is
  returned as it is. The result is never negative (on the legacy revision 0 this needs
  the level mask of the header to leave the sign bit clear).
\<close>

theorem hpdet_ext_res_compensation:
  assumes rd: "rd_ret (io (arizona info)) ARIZONA_HEADPHONE_DETECT_2 = 0"
      and sw: "hpdet_switch H info (regmap (arizona info) ARIZONA_HEADPHONE_DETECT_2)
                 = Inr (Inr val, i1)"
      and ip: "hpdet_ip info \<noteq> 0 \<or> ARIZONA_HP_LVL_MASK H \<le> 0x7FFFFFFF"
  shows "\<exists>ret i2. arizona_hpdet_read H info = Inr (ret, i2) \<and> 0 \<le> ret \<and>
           (let ext = hpdet_ext_res (pdata (arizona info)) in
              if ext \<noteq> 0 \<and> ext < val
              then ret = uint val - uint ext \<and> i2 = i1
              else ret = uint val \<and>
                   i2 = (if ext \<noteq> 0
                         then emit (dev_err ''External resistor >= measurement'') i1 else i1))"
proof -
  have small: "unat val < 2147483648" using hpdet_switch_small [OF sw ip] .
  have pd: "pdata (arizona i1) = pdata (arizona info)" using hpdet_switch_pdata [OF sw] .
  let ?ext = "hpdet_ext_res (pdata (arizona info))"
  show ?thesis
  proof (cases "?ext \<noteq> 0 \<and> ?ext < val")
    case True
    from True have le: "?ext \<le> val" by (simp add: order.strict_implies_order)
    have sub: "unat (val - ?ext) = unat val - unat ?ext" using le by (simp add: unat_sub)
    have lt: "unat ?ext < unat val" using True by (simp add: word_less_nat_alt)
    have "unat (val - ?ext) < 2147483648" using sub small by simp
    then have "sint (val - ?ext) = uint (val - ?ext)" by (rule sint_of_small)
    moreover have "uint (val - ?ext) = uint val - uint ?ext"
      using le by (simp add: uint_sub_if' word_le_def)
    moreover have "uint ?ext \<le> uint val" using le by (simp add: word_le_def)
    moreover have "\<not> val \<le> ?ext" using True by (simp add: not_le)
    ultimately show ?thesis
      using True rd sw pd
      by (simp add: arizona_hpdet_read_def regmap_read_def Let_def)
  next
    case False
    then show ?thesis
      using rd sw pd sint_of_small [OF small]
      by (auto simp: arizona_hpdet_read_def regmap_read_def Let_def not_less)
  qed
qed


lemmas fixture_defs = ext_res_info_def with_reg_def with_pdata_def example_info_def
  example_arizona_def example_pdata_def example_io_def example_hdr_def

theorem hpdet_ext_res_compensation_witness:
  "rd_ret (io (arizona ext_res_info)) ARIZONA_HEADPHONE_DETECT_2 = 0 \<and>
   hpdet_switch example_hdr ext_res_info
     (regmap (arizona ext_res_info) ARIZONA_HEADPHONE_DETECT_2) = Inr (Inr 16, ext_res_info) \<and>
   hpdet_ip ext_res_info \<noteq> 0 \<and>
   arizona_hpdet_read example_hdr ext_res_info = Inr (6, ext_res_info)"
proof -
  have rd: "rd_ret (io (arizona ext_res_info)) ARIZONA_HEADPHONE_DETECT_2 = 0"
    by (simp add: fixture_defs)
  have sw: "hpdet_switch example_hdr ext_res_info
     (regmap (arizona ext_res_info) ARIZONA_HEADPHONE_DETECT_2) = Inr (Inr 16, ext_res_info)"
    by (simp add: fixture_defs hpdet_switch_def hpdet_ip_2_def hpdet_range_def regmap_read_def arizona_hpdet_c_ranges_def
        Let_def)
  have ip: "hpdet_ip ext_res_info \<noteq> 0" by (simp add: fixture_defs)
  have ext: "hpdet_ext_res (pdata (arizona ext_res_info)) = 10" by (simp add: fixture_defs)
  from hpdet_ext_res_compensation [OF rd sw disjI1 [OF ip]]
  have "arizona_hpdet_read example_hdr ext_res_info = Inr (6, ext_res_info)"
    by (auto simp: ext Let_def)
  with rd sw ip show ?thesis by simp
qed

subsection \<open>Button readings\<close>

lemma report_keys_released_drop:
  "0 \<le> i \<Longrightarrow> num_micd_ranges info = int (length (micd_ranges info)) \<Longrightarrow>
   report_keys_released info i =
     Inr (info\<lparr>trace := trace info @
            map (\<lambda>r. input_report_key (key r) 0) (drop (nat i) (micd_ranges info))\<rparr>)"
proof (induction info i rule: report_keys_released.induct)
  case (1 info i)
  show ?case
  proof (cases "i < num_micd_ranges info")
    case True
    then have lt: "nat i < length (micd_ranges info)" using 1 by simp
    have get: "array_get (micd_ranges info) i = Inr (micd_ranges info ! nat i)"
      using True 1 by (simp add: array_get_def)
    have ih: "report_keys_released (emit (input_report_key (key (micd_ranges info ! nat i)) 0) info) (i + 1)
        = Inr ((emit (input_report_key (key (micd_ranges info ! nat i)) 0) info)
            \<lparr>trace := trace (emit (input_report_key (key (micd_ranges info ! nat i)) 0) info) @
              map (\<lambda>r. input_report_key (key r) 0) (drop (nat (i + 1)) (micd_ranges info))\<rparr>)"
      using "1.IH" [OF True get] 1 by (simp add: emit_def)
    have dr: "drop (nat i) (micd_ranges info) =
              micd_ranges info ! nat i # drop (nat (i + 1)) (micd_ranges info)"
      using lt 1 by (simp add: Cons_nth_drop_Suc nat_add_distrib)
    have "report_keys_released info i =
          report_keys_released (emit (input_report_key (key (micd_ranges info ! nat i)) 0) info) (i + 1)"
      by (subst report_keys_released.simps) (simp add: True get)
    then have "report_keys_released info i =
          Inr ((emit (input_report_key (key (micd_ranges info ! nat i)) 0) info)
            \<lparr>trace := trace (emit (input_report_key (key (micd_ranges info ! nat i)) 0) info) @
              map (\<lambda>r. input_report_key (key r) 0) (drop (nat (i + 1)) (micd_ranges info))\<rparr>)"
      by (simp only: ih)
    then show ?thesis
      by (simp add: dr emit_def)
  next
    case False
    then show ?thesis
      using 1 by (subst report_keys_released.simps) simp
  qed
qed

lemma report_keys_released_all:
  "num_micd_ranges info = int (length (micd_ranges info)) \<Longrightarrow>
   report_keys_released info 0 = Inr (info\<lparr>trace := trace info @ release_events info\<rparr>)"
  using report_keys_released_drop [of 0 info] by (simp add: release_events_def)

lemma ffs_bit0: "bit x 0 \<Longrightarrow> ffs x = 1"
  by (simp add: ffs_def upt_conv_Cons)

lemma ffs_pos: "x \<noteq> 0 \<Longrightarrow> 1 \<le> ffs x"
proof (cases "find (bit x) [0 ..< 32]")
  case None
  assume nz: "x \<noteq> 0"
  from None have "\<And>n. n < 32 \<Longrightarrow> \<not> bit x n" by (auto simp: find_None_iff)
  then have "x = 0" by (intro bit_word_eqI) simp
  with nz show ?thesis by simp
next
  case (Some n)
  then show ?thesis by (simp add: ffs_def)
qed

lemma key_state_append: "key_state (es @ fs) k b = key_state fs k (key_state es k b)"
  by (induction es k b rule: key_state.induct) simp_all

lemma key_state_release:
  "k \<in> key ` set rs \<Longrightarrow> key_state (map (\<lambda>r. input_report_key (key r) 0) rs) k b = False"
proof (induction rs arbitrary: b rule: rev_induct)
  case Nil
  then show ?case by simp
next
  case (snoc r rs)
  then show ?case by (cases "key r = k") (auto simp: key_state_append)
qed


lemma pulse_micbias_trace:
  assumes "micd_modes info \<noteq> []"
  shows "\<exists>es. arizona_extcon_pulse_micbias info = Inr (info\<lparr>trace := trace info @ es\<rparr>) \<and>
              (\<forall>k v. input_report_key k v \<notin> set es)"
proof -
  obtain w where w: "arizona_extcon_get_micbias info = Inr w"
    using assms by (auto simp: arizona_extcon_get_micbias_def array_get_def)
  show ?thesis
    unfolding arizona_extcon_pulse_micbias_def w
    by (auto simp: emit_def Let_def)
qed

lemma key_state_no_reports:
  "\<forall>k' v. input_report_key k' v \<notin> set es \<Longrightarrow> key_state es k b = b"
  by (induction es k b rule: key_state.induct) auto

lemma key_state_after_release:
  assumes "k \<in> key ` set (micd_ranges info)"
  shows "key_state (release_events info @ es) k b = key_state es k False"
  using key_state_release [OF assms] by (simp add: key_state_append release_events_def)

text \<open>The three ways a reading that is not an error code ends.\<close>

lemma button_reading_cases:
  assumes val: "0 \<le> val"
      and wf: "num_micd_ranges info = int (length (micd_ranges info))"
      and modes: "micd_modes info \<noteq> []"
  shows "\<exists>es. arizona_micd_button_reading H info val =
                Inr (0, info\<lparr>trace := trace info @ release_events info @ es\<rparr>) \<and>
           (if word_of_int val AND MICD_LVL_0_TO_7 H \<noteq> 0
            then (if micd_lvl H val \<noteq> 0 \<and> ffs (micd_lvl H val) - 1 < num_micd_ranges info
                  then 0 \<le> ffs (micd_lvl H val) - 1 \<and>
                       es = [input_report_key
                               (key (micd_ranges info ! nat (ffs (micd_lvl H val) - 1))) 1,
                             input_sync]
                  else es = [dev_warn ''Button level out of range''])
            else (\<forall>k v. input_report_key k v \<notin> set es))"
proof -
  let ?i1 = "info\<lparr>trace := trace info @ release_events info\<rparr>"
  have rel: "report_keys_released info 0 = Inr ?i1"
    using report_keys_released_all [OF wf] .
  have nval: "\<not> val < 0" using val by simp
  show ?thesis
  proof (cases "word_of_int val AND MICD_LVL_0_TO_7 H \<noteq> 0")
    case True
    show ?thesis
    proof (cases "micd_lvl H val \<noteq> 0 \<and> ffs (micd_lvl H val) - 1 < num_micd_ranges info")
      case press: True
      have "ffs (micd_lvl H val) \<ge> 1"
        using press ffs_pos by blast
      then have nn: "0 \<le> ffs (micd_lvl H val) - 1" by simp
      have lt: "ffs (micd_lvl H val) - 1 < int (length (micd_ranges info))"
        using press wf by simp
      have get: "array_get (micd_ranges ?i1) (ffs (micd_lvl H val) - 1) =
                 Inr (micd_ranges info ! nat (ffs (micd_lvl H val) - 1))"
        using nn lt by (simp add: array_get_def)
      have num: "num_micd_ranges ?i1 = num_micd_ranges info" by simp
      have "arizona_micd_button_reading H info val =
              Inr (0, info\<lparr>trace := trace info @ release_events info @
                [input_report_key (key (micd_ranges info ! nat (ffs (micd_lvl H val) - 1))) 1,
                 input_sync]\<rparr>)"
        unfolding arizona_micd_button_reading_def Let_def rel
        by (simp only: nval True press get num if_True if_False sum.case simp_thms)
           (simp add: emit_def)
      then show ?thesis
        using True press nn
        by (intro exI [of _ "[input_report_key
               (key (micd_ranges info ! nat (ffs (micd_lvl H val) - 1))) 1, input_sync]"]) simp
    next
      case False
      have num: "num_micd_ranges ?i1 = num_micd_ranges info" by simp
      have "arizona_micd_button_reading H info val =
              Inr (0, info\<lparr>trace := trace info @ release_events info @
                [dev_warn ''Button level out of range'']\<rparr>)"
        unfolding arizona_micd_button_reading_def Let_def rel
        by (simp only: nval True False num if_True if_False sum.case simp_thms)
           (simp add: emit_def)
      then show ?thesis
        using True False
        by (intro exI [of _ "[dev_warn ''Button level out of range'']"]) simp
    qed
  next
    case False
    obtain es where es: "arizona_extcon_pulse_micbias (emit input_sync ?i1) =
        Inr ((emit input_sync ?i1)\<lparr>trace := trace (emit input_sync ?i1) @ es\<rparr>)"
        and no: "\<forall>k v. input_report_key k v \<notin> set es"
    proof -
      have "micd_modes (emit input_sync ?i1) \<noteq> []" using modes by (simp add: emit_def)
      from pulse_micbias_trace [OF this] show ?thesis using that by blast
    qed
    have "arizona_micd_button_reading H info val =
              Inr (0, info\<lparr>trace := trace info @ release_events info @ (input_sync # es)\<rparr>)"
      unfolding arizona_micd_button_reading_def Let_def rel
      by (simp only: nval False es if_True if_False sum.case simp_thms)
         (simp add: emit_def)
    moreover have "\<forall>k v. input_report_key k v \<notin> set (input_sync # es)" using no by simp
    ultimately show ?thesis using False by (intro exI [of _ "input_sync # es"]) simp
  qed
qed

text \<open>
  Claim C10. A button reading that is not an error code (\<open>0 \<le> val\<close>), on a driver
  state whose range count is the length of its range table and whose mode table is not
  empty, first reports every configured key as released and then at most one key as
  pressed: whatever the keys' states were before, afterwards no two different
  configured keys are down, and after a release reading (no bit of
  \<^verbatim>\<open>MICD_LVL_0_TO_7\<close> set) no configured key is down.
\<close>

theorem button_reading_one_key:
  assumes val: "0 \<le> val"
      and wf: "num_micd_ranges info = int (length (micd_ranges info))"
      and modes: "micd_modes info \<noteq> []"
  shows "\<exists>i' es. arizona_micd_button_reading H info val = Inr (0, i') \<and>
           trace i' = trace info @ release_events info @ es \<and>
           (\<forall>k \<in> key ` set (micd_ranges info). \<forall>k' \<in> key ` set (micd_ranges info).
              \<forall>b b'. key_state (release_events info @ es) k b \<and>
                     key_state (release_events info @ es) k' b' \<longrightarrow> k = k') \<and>
           (word_of_int val AND MICD_LVL_0_TO_7 H = 0 \<longrightarrow>
              (\<forall>k \<in> key ` set (micd_ranges info). \<forall>b.
                 \<not> key_state (release_events info @ es) k b))"
proof -
  from button_reading_cases [OF assms, of H]
  obtain es where r: "arizona_micd_button_reading H info val =
        Inr (0, info\<lparr>trace := trace info @ release_events info @ es\<rparr>)"
    and es: "if word_of_int val AND MICD_LVL_0_TO_7 H \<noteq> 0
            then (if micd_lvl H val \<noteq> 0 \<and> ffs (micd_lvl H val) - 1 < num_micd_ranges info
                  then 0 \<le> ffs (micd_lvl H val) - 1 \<and>
                       es = [input_report_key
                               (key (micd_ranges info ! nat (ffs (micd_lvl H val) - 1))) 1,
                             input_sync]
                  else es = [dev_warn ''Button level out of range''])
            else (\<forall>k v. input_report_key k v \<notin> set es)"
    by blast
  have one: "k = k'" if "key_state es k False" "key_state es k' False" for k k'
    using es that by (auto simp: key_state_no_reports split: if_splits)
  have none: "\<not> key_state es k False" if "word_of_int val AND MICD_LVL_0_TO_7 H = 0" for k
    using es that by (auto simp: key_state_no_reports split: if_splits)
  let ?i = "info\<lparr>trace := trace info @ release_events info @ es\<rparr>"
  have tr: "trace ?i = trace info @ release_events info @ es" by simp
  have p1: "\<forall>k \<in> key ` set (micd_ranges info). \<forall>k' \<in> key ` set (micd_ranges info).
              \<forall>b b'. key_state (release_events info @ es) k b \<and>
                     key_state (release_events info @ es) k' b' \<longrightarrow> k = k'"
    using one by (simp add: key_state_after_release)
  have p2: "word_of_int val AND MICD_LVL_0_TO_7 H = 0 \<longrightarrow>
              (\<forall>k \<in> key ` set (micd_ranges info). \<forall>b.
                 \<not> key_state (release_events info @ es) k b)"
    using none by (simp add: key_state_after_release)
  show ?thesis
    using r tr p1 p2 by blast
qed

text \<open>
  Claim C8. The hardware sets bit \<open>i\<close> of the level field for an impedance in the
  \<open>i\<close>-th button bucket, so an impedance below the lowest threshold is a reading with
  bit 0 of the level field set, and one above the highest configured maximum is a
  reading whose lowest set level bit is not below the number of ranges (or that has no
  button level bit at all). For the first kind the key reported pressed is the key of
  the first range; for the second kind no key is reported pressed.
\<close>

theorem button_reading_first_key_or_none:
  assumes val: "0 \<le> val"
      and wf: "num_micd_ranges info = int (length (micd_ranges info))"
      and modes: "micd_modes info \<noteq> []"
  shows "(word_of_int val AND MICD_LVL_0_TO_7 H \<noteq> 0 \<and> bit (micd_lvl H val) 0 \<and>
          micd_ranges info \<noteq> [] \<longrightarrow>
            arizona_micd_button_reading H info val =
              Inr (0, info\<lparr>trace := trace info @ release_events info @
                     [input_report_key (key (hd (micd_ranges info))) 1, input_sync]\<rparr>)) \<and>
         (word_of_int val AND MICD_LVL_0_TO_7 H = 0 \<or> micd_lvl H val = 0 \<or>
          num_micd_ranges info \<le> ffs (micd_lvl H val) - 1 \<longrightarrow>
            (\<exists>i' es. arizona_micd_button_reading H info val = Inr (0, i') \<and>
               trace i' = trace info @ release_events info @ es \<and>
               (\<forall>k. input_report_key k 1 \<notin> set es)))"
proof -
  from button_reading_cases [OF assms, of H]
  obtain es where r: "arizona_micd_button_reading H info val =
        Inr (0, info\<lparr>trace := trace info @ release_events info @ es\<rparr>)"
    and es: "if word_of_int val AND MICD_LVL_0_TO_7 H \<noteq> 0
            then (if micd_lvl H val \<noteq> 0 \<and> ffs (micd_lvl H val) - 1 < num_micd_ranges info
                  then 0 \<le> ffs (micd_lvl H val) - 1 \<and>
                       es = [input_report_key
                               (key (micd_ranges info ! nat (ffs (micd_lvl H val) - 1))) 1,
                             input_sync]
                  else es = [dev_warn ''Button level out of range''])
            else (\<forall>k v. input_report_key k v \<notin> set es)"
    by blast
  let ?i = "info\<lparr>trace := trace info @ release_events info @ es\<rparr>"
  have tr: "trace ?i = trace info @ release_events info @ es" by simp
  have first: "arizona_micd_button_reading H info val =
              Inr (0, info\<lparr>trace := trace info @ release_events info @
                     [input_report_key (key (hd (micd_ranges info))) 1, input_sync]\<rparr>)"
    if a: "word_of_int val AND MICD_LVL_0_TO_7 H \<noteq> 0" and b: "bit (micd_lvl H val) 0"
      and c: "micd_ranges info \<noteq> []"
  proof -
    have f: "ffs (micd_lvl H val) = 1" using b by (rule ffs_bit0)
    have nz: "micd_lvl H val \<noteq> 0" using b by auto
    have "0 < num_micd_ranges info" using c wf by simp
    then have "es = [input_report_key (key (micd_ranges info ! 0)) 1, input_sync]"
      using es a f nz by simp
    then show ?thesis using r c by (simp add: hd_conv_nth)
  qed
  have none: "\<forall>k. input_report_key k 1 \<notin> set es"
    if "word_of_int val AND MICD_LVL_0_TO_7 H = 0 \<or> micd_lvl H val = 0 \<or>
          num_micd_ranges info \<le> ffs (micd_lvl H val) - 1"
    using that es by (auto split: if_splits)
  have second: "\<exists>i' es. arizona_micd_button_reading H info val = Inr (0, i') \<and>
               trace i' = trace info @ release_events info @ es \<and>
               (\<forall>k. input_report_key k 1 \<notin> set es)"
    if "word_of_int val AND MICD_LVL_0_TO_7 H = 0 \<or> micd_lvl H val = 0 \<or>
          num_micd_ranges info \<le> ffs (micd_lvl H val) - 1"
    using r tr none [OF that] by blast
  show ?thesis
    using first second by blast
qed

theorem button_reading_one_key_witness:
  "(0::int) \<le> 7 \<and>
   num_micd_ranges example_info = int (length (micd_ranges example_info)) \<and>
   micd_modes example_info \<noteq> [] \<and>
   (\<exists>i' es. arizona_micd_button_reading example_hdr example_info 7 = Inr (0, i') \<and>
      trace i' = trace example_info @ release_events example_info @ es \<and>
      (\<forall>k \<in> key ` set (micd_ranges example_info).
         \<forall>k' \<in> key ` set (micd_ranges example_info).
           \<forall>b b'. key_state (release_events example_info @ es) k b \<and>
                  key_state (release_events example_info @ es) k' b' \<longrightarrow> k = k'))"
proof -
  have a: "(0::int) \<le> 7" by simp
  have b: "num_micd_ranges example_info = int (length (micd_ranges example_info))"
    by (simp add: example_info_def micd_default_ranges_def)
  have c: "micd_modes example_info \<noteq> []"
    by (simp add: example_info_def micd_default_modes_def)
  from button_reading_one_key [OF a b c, of example_hdr] show ?thesis
    using a b c by blast
qed

theorem button_reading_first_key_or_none_witness:
  "(0::int) \<le> 7 \<and>
   num_micd_ranges example_info = int (length (micd_ranges example_info)) \<and>
   micd_modes example_info \<noteq> [] \<and>
   word_of_int 7 AND MICD_LVL_0_TO_7 example_hdr \<noteq> 0 \<and>
   bit (micd_lvl example_hdr 7) 0 \<and>
   arizona_micd_button_reading example_hdr example_info 7 =
     Inr (0, example_info\<lparr>trace := trace example_info @ release_events example_info @
            [input_report_key BTN_0 1, input_sync]\<rparr>)"
proof -
  have a: "(0::int) \<le> 7" by simp
  have b: "num_micd_ranges example_info = int (length (micd_ranges example_info))"
    by (simp add: example_info_def micd_default_ranges_def)
  have c: "micd_modes example_info \<noteq> []"
    by (simp add: example_info_def micd_default_modes_def)
  have d: "word_of_int 7 AND MICD_LVL_0_TO_7 example_hdr \<noteq> 0"
    by (simp add: example_hdr_def)
  have e: "bit (micd_lvl example_hdr 7) 0"
    by (simp add: micd_lvl_def example_hdr_def)
  have f: "micd_ranges example_info \<noteq> []"
    by (simp add: example_info_def micd_default_ranges_def)
  have g: "key (hd (micd_ranges example_info)) = BTN_0"
    by (simp add: example_info_def micd_default_ranges_def)
  from button_reading_first_key_or_none [OF a b c, of example_hdr] d e f
  have "arizona_micd_button_reading example_hdr example_info 7 =
     Inr (0, example_info\<lparr>trace := trace example_info @ release_events example_info @
            [input_report_key (key (hd (micd_ranges example_info))) 1, input_sync]\<rparr>)"
    by blast
  then show ?thesis using a b c d e by (simp only: g simp_thms)
qed

subsection \<open>The state controller and the callbacks\<close>

lemma jds_timeout_work_null_state:
  "state info = None \<Longrightarrow> arizona_jds_timeout_work H C info = Inl null_pointer"
  by (simp add: arizona_jds_timeout_work_def dequeue_work_def)

text \<open>
  Claim C2. The two reading handlers treat a missing state as a spurious interrupt
  (lemmas \<open>hpdet_handler_spurious\<close> and \<open>micd_handler_spurious\<close> below: a warning is
  logged and nothing else happens). The timeout work function does not: it calls
  \<^verbatim>\<open>info->state->timeout\<close> with no test of \<^verbatim>\<open>info->state\<close>. On the driver state after a
  successful probe, with the timeout work queued and no state active, it dereferences the
  null pointer.
\<close>

theorem timeout_work_without_state:
  "arizona_jds_timeout_work example_hdr example_custom
     (schedule_work example_info state_timeout_work 2000) = Inl null_pointer"
  by (simp add: arizona_jds_timeout_work_def dequeue_work_def schedule_work_def emit_def
      example_info_def)

lemma hpdet_handler_spurious:
  assumes "state info = None"
  shows "arizona_hpdet_handler H C info =
           Inr (IRQ_NONE,
                info\<lparr>pending := (pending info)(state_timeout_work := None),
                     trace := trace info @ [cancel_delayed_work_sync state_timeout_work,
                                            dev_warn ''Spurious HPDET IRQ'']\<rparr>)"
  using assms
  by (simp add: arizona_hpdet_handler_def arizona_jds_cancel_timeout_def cancel_work_def
      arizona_jds_get_mode_def arizona_jds_start_timeout_def emit_def Let_def
      ARIZONA_ACCDET_MODE_INVALID_def ARIZONA_ACCDET_MODE_HPL_def ARIZONA_ACCDET_MODE_HPR_def
      ARIZONA_ACCDET_MODE_HPM_def)

lemma micd_handler_spurious:
  assumes "state info = None"
  shows "arizona_micd_handler H C info =
           Inr (info\<lparr>pending := (pending info)(micd_detect_work := None,
                                                  state_timeout_work := None),
                     trace := trace info @ [cancel_delayed_work_sync state_timeout_work,
                                            dev_warn ''Spurious MICDET IRQ'']\<rparr>)"
  using assms
  by (simp add: arizona_micd_handler_def arizona_jds_cancel_timeout_def cancel_work_def
      dequeue_work_def
      arizona_jds_get_mode_def arizona_jds_start_timeout_def emit_def Let_def
      ARIZONA_ACCDET_MODE_INVALID_def ARIZONA_ACCDET_MODE_MIC_def ARIZONA_ACCDET_MODE_ADC_def)

text \<open>
  Claim C1. \<^verbatim>\<open>arizona_jds_set_state\<close> with the state that is active already returns 0 and
  leaves the driver state, the registers, the work queue and the trace as they are: no
  stop and no start runs. With another state it runs the stop operation of the active
  state (if there is one), stores the new state and runs the start operation of the new
  state (if it is not null) on the result; a negative return code of the start operation
  is returned with the active state reset to null. Whenever the function returns a
  negative code, no state is active.
\<close>

theorem set_state_contract:
  "(new_state = state info \<longrightarrow> arizona_jds_set_state H C info new_state = Inr (0, info)) \<and>
   (new_state \<noteq> state info \<longrightarrow>
      arizona_jds_set_state H C info new_state =
        (case (case state info of None \<Rightarrow> Inr info | Some old \<Rightarrow> jd_stop H C old info) of
           Inl f \<Rightarrow> Inl f
         | Inr i1 \<Rightarrow>
             (case new_state of
                None \<Rightarrow> Inr (0, i1\<lparr>state := None\<rparr>)
              | Some s \<Rightarrow>
                  (case jd_start H C s (i1\<lparr>state := Some s\<rparr>) of
                     Inl f \<Rightarrow> Inl f
                   | Inr (ret, i2) \<Rightarrow>
                       Inr (ret, if ret < 0 then i2\<lparr>state := None\<rparr> else i2))))) \<and>
   (\<forall>ret i'. arizona_jds_set_state H C info new_state = Inr (ret, i') \<and> ret < 0 \<longrightarrow>
      state i' = None)"
proof (intro conjI impI allI)
  assume "new_state = state info"
  then show "arizona_jds_set_state H C info new_state = Inr (0, info)"
    by (subst arizona_jds_set_state.simps) simp
next
  assume "new_state \<noteq> state info"
  then show "arizona_jds_set_state H C info new_state =
        (case (case state info of None \<Rightarrow> Inr info | Some old \<Rightarrow> jd_stop H C old info) of
           Inl f \<Rightarrow> Inl f
         | Inr i1 \<Rightarrow>
             (case new_state of
                None \<Rightarrow> Inr (0, i1\<lparr>state := None\<rparr>)
              | Some s \<Rightarrow>
                  (case jd_start H C s (i1\<lparr>state := Some s\<rparr>) of
                     Inl f \<Rightarrow> Inl f
                   | Inr (ret, i2) \<Rightarrow>
                       Inr (ret, if ret < 0 then i2\<lparr>state := None\<rparr> else i2))))"
    by (subst arizona_jds_set_state.simps) simp
next
  fix ret i'
  assume "arizona_jds_set_state H C info new_state = Inr (ret, i') \<and> ret < 0"
  then show "state i' = None"
    by (subst (asm) arizona_jds_set_state.simps)
       (auto split: if_splits sum.splits option.splits prod.splits)
qed

theorem set_state_contract_witness:
  "arizona_jds_set_state example_hdr example_custom
     (example_info\<lparr>state := Some arizona_micd_button\<rparr>) (Some arizona_micd_button) =
     Inr (0, example_info\<lparr>state := Some arizona_micd_button\<rparr>) \<and>
   Some arizona_hpdet_left \<noteq> state fixed_imp_info \<and>
   arizona_jds_set_state example_hdr example_custom fixed_imp_info (Some arizona_hpdet_left) =
     Inr (- EEXIST, fixed_imp_info\<lparr>arizona := (arizona fixed_imp_info)\<lparr>hp_impedance := 32\<rparr>\<rparr>)"
proof -
  have a: "arizona_jds_set_state example_hdr example_custom
     (example_info\<lparr>state := Some arizona_micd_button\<rparr>) (Some arizona_micd_button) =
     Inr (0, example_info\<lparr>state := Some arizona_micd_button\<rparr>)"
    using set_state_contract [of "Some arizona_micd_button"
        "example_info\<lparr>state := Some arizona_micd_button\<rparr>" example_hdr example_custom]
    by simp
  have b: "Some arizona_hpdet_left \<noteq> state fixed_imp_info"
    by (simp add: fixed_imp_info_def with_pdata_def example_info_def)
  have c: "arizona_jds_set_state example_hdr example_custom fixed_imp_info (Some arizona_hpdet_left) =
     Inr (- EEXIST, fixed_imp_info\<lparr>arizona := (arizona fixed_imp_info)\<lparr>hp_impedance := 32\<rparr>\<rparr>)"
    using set_state_contract [of "Some arizona_hpdet_left" fixed_imp_info example_hdr
        example_custom] b
    by (simp add: jd_start.simps arizona_hpdet_start_def arizona_wm5110_tune_headphone_def
        fixed_imp_info_def with_pdata_def example_info_def example_arizona_def example_pdata_def
        HP_LOW_IMPEDANCE_LIMIT_def HP_NORMAL_IMPEDANCE_def EEXIST_def Let_def)
  show ?thesis using a b c by simp
qed

text \<open>
  Claim C3. A table that is not sorted makes the probe fail (lemma
  \<open>probe_rejects_unsorted\<close> below), but a table with more than
  \<^verbatim>\<open>ARIZONA_MAX_MICD_RANGE\<close> ranges does not: the probe logs the error and goes on. With
  nine sorted ranges and every kernel call succeeding it returns 0, and the driver runs
  with the nine ranges.
\<close>

theorem probe_accepts_nine_ranges:
  "(case arizona_extcon_probe example_hdr example_env nine_ranges_arizona of
      Inl f \<Rightarrow> False
    | Inr (ret, info) \<Rightarrow>
        ret = 0 \<and> num_micd_ranges info = 9 \<and> micd_ranges info = nine_ranges \<and>
        dev_err ''Too many MICD ranges'' \<in> set (trace info))"
  by (simp add: arizona_extcon_probe_def probe_micd_ranges_def probe_irqs_def probe_codec_def
      kzalloc_info_def IS_ERR_def nine_ranges_arizona_def nine_ranges_def example_arizona_def
      example_pdata_def example_env_def example_io_def example_hdr_def
      probe_ranges_sorted.simps probe_buttons.simps probe_find_level.simps
      arizona_extcon_set_mode_def array_get_def micd_default_modes_def
      update_bits_ignore_def update_bits_def regmap_update_bits_def regmap_update_bits_check_def
      arizona_micd_levels_def ARIZONA_NUM_MICD_BUTTON_LEVELS_def ARIZONA_MAX_MICD_RANGE_def
      HP_LOW_IMPEDANCE_LIMIT_def emit_def Let_def)

subsection \<open>Validation of the button ranges at initialisation\<close>

lemma probe_ranges_sorted_sound:
  assumes "probe_ranges_sorted info i = Inr True" and "1 \<le> i"
      and "i \<le> j" and "j < num_micd_ranges info"
  shows "max_ohm (micd_ranges info ! nat (j - 1)) \<le> max_ohm (micd_ranges info ! nat j)"
  using assms
proof (induction info i rule: probe_ranges_sorted.induct)
  case (1 info i)
  from "1.prems" have lt: "i < num_micd_ranges info" by simp
  from "1.prems"(1) lt obtain a b where
    a: "array_get (micd_ranges info) (i - 1) = Inr a" and
    b: "array_get (micd_ranges info) i = Inr b" and
    le: "\<not> max_ohm a > max_ohm b" and
    rec: "probe_ranges_sorted info (i + 1) = Inr True"
    by (subst (asm) probe_ranges_sorted.simps) (auto split: sum.splits if_splits)
  show ?case
  proof (cases "j = i")
    case True
    have "a = micd_ranges info ! nat (i - 1)" using a by (auto simp: array_get_def split: if_splits)
    moreover have "b = micd_ranges info ! nat i" using b by (auto simp: array_get_def split: if_splits)
    ultimately show ?thesis using le True by simp
  next
    case False
    then have "i + 1 \<le> j" using "1.prems" by simp
    then show ?thesis
      using "1.IH" [OF lt a b le rec] "1.prems" by simp
  qed
qed

lemma probe_micd_ranges_unsorted:
  assumes num: "pdata_num_micd_ranges (pdata (arizona i0)) =
                  int (length (pdata_micd_ranges (pdata (arizona i0))))"
      and uns: "\<not> sorted (map max_ohm (pdata_micd_ranges (pdata (arizona i0))))"
  shows "probe_micd_ranges H E i0 \<noteq> Inr (0, info)"
proof
  assume ok: "probe_micd_ranges H E i0 = Inr (0, info)"
  let ?rs = "pdata_micd_ranges (pdata (arizona i0))"
  from uns obtain k where k: "Suc k < length ?rs" "\<not> max_ohm (?rs ! k) \<le> max_ohm (?rs ! Suc k)"
    by (auto simp: sorted_iff_nth_Suc)
  then have len: "1 < length ?rs" by simp
  then have nz: "pdata_num_micd_ranges (pdata (arizona i0)) \<noteq> 0" using num by auto
  define i1 where "i1 = i0\<lparr>micd_ranges := ?rs, num_micd_ranges := int (length ?rs)\<rparr>"
  define i2 where "i2 = (if pdata_num_micd_ranges (pdata (arizona i0)) > ARIZONA_MAX_MICD_RANGE
                then emit (dev_err ''Too many MICD ranges'') i1 else i1)"
  have r2: "micd_ranges i2 = ?rs" "num_micd_ranges i2 = int (length ?rs)"
    by (simp_all add: i2_def i1_def emit_def)
  have "probe_ranges_sorted i2 1 = Inr True"
    using ok nz len num
    by (auto simp: probe_micd_ranges_def Let_def i2_def i1_def EINVAL_def emit_def
        split: sum.splits bool.splits if_splits)
  from probe_ranges_sorted_sound [OF this, of "int (Suc k)"] k r2
  have "max_ohm (?rs ! nat (int (Suc k) - 1)) \<le> max_ohm (?rs ! nat (int (Suc k)))"
    by simp
  moreover have "nat (int (Suc k) - 1) = k" "nat (int (Suc k)) = Suc k" by simp_all
  ultimately show False using k by (simp only:)
qed

lemma arizona_probe_codec: "arizona (probe_codec i) = arizona i"
  by (simp add: probe_codec_def split: arizona_type.splits)

lemma arizona_kzalloc_info: "arizona (kzalloc_info az) = az"
  by (simp add: kzalloc_info_def)

lemma probe_rejects_unsorted:
  assumes num: "pdata_num_micd_ranges (pdata az) = int (length (pdata_micd_ranges (pdata az)))"
      and uns: "\<not> sorted (map max_ohm (pdata_micd_ranges (pdata az)))"
  shows "arizona_extcon_probe H E az \<noteq> Inr (0, info)"
proof
  assume ok: "arizona_extcon_probe H E az = Inr (0, info)"
  have "\<exists>i0. probe_micd_ranges H E i0 = Inr (0, info) \<and>
          pdata_micd_ranges (pdata (arizona i0)) = pdata_micd_ranges (pdata az) \<and>
          pdata_num_micd_ranges (pdata (arizona i0)) = pdata_num_micd_ranges (pdata az)"
    using ok unfolding arizona_extcon_probe_def Let_def
    by (simp add: EPROBE_DEFER_def ENOMEM_def IS_ERR_def split: if_splits sum.splits)
       (force simp: arizona_probe_codec arizona_kzalloc_info)+
  then obtain i0 where p: "probe_micd_ranges H E i0 = Inr (0, info)"
    and pd: "pdata_micd_ranges (pdata (arizona i0)) = pdata_micd_ranges (pdata az)"
            "pdata_num_micd_ranges (pdata (arizona i0)) = pdata_num_micd_ranges (pdata az)"
    by blast
  from probe_micd_ranges_unsorted [of i0 H E info] p pd num uns show False by simp
qed

section \<open>Headphone detection: stepping through the ranges\<close>


lemma le3_cases: "(x::u32) \<le> 3 \<Longrightarrow> x = 0 \<or> x = 1 \<or> x = 2 \<or> x = 3"
proof -
  assume "x \<le> 3"
  then have "unat x \<le> 3" by (simp add: word_le_nat_alt)
  then have "unat x = 0 \<or> unat x = 1 \<or> unat x = 2 \<or> unat x = 3" by arith
  then show ?thesis by (auto simp: word_unat_eq_iff)
qed

lemma lt4_cases: "(x::u32) < 4 \<Longrightarrow> x = 0 \<or> x = 1 \<or> x = 2 \<or> x = 3"
proof -
  assume "x < 4"
  then have "unat x < 4" by (simp add: word_less_nat_alt)
  then have "unat x = 0 \<or> unat x = 1 \<or> unat x = 2 \<or> unat x = 3" by arith
  then show ?thesis by (auto simp: word_unat_eq_iff)
qed

lemma le3_bits: "(x::u32) \<le> 3 \<Longrightarrow> x AND 3 = x"
  using le3_cases [of x] by auto

lemma three_mask: "(3::u32) = mask 2"
  by (simp add: mask_eq_exp_minus_1)

lemma range_field_roundtrip:
  assumes s: "s \<le> 30" and x: "x AND 3 = x"
  shows "drop_bit s (((old AND NOT (push_bit s 3)) OR (push_bit s x AND push_bit s 3))
           AND push_bit s 3) = (x::u32)"
proof (rule bit_word_eqI)
  fix n assume n: "n < LENGTH(32)"
  have b3: "bit x n \<Longrightarrow> bit (3::u32) n" using x by (metis bit_and_iff)
  have n2: "bit (3::u32) n \<Longrightarrow> n < 2" unfolding three_mask by (simp add: bit_mask_iff)
  show "bit (drop_bit s (((old AND NOT (push_bit s 3)) OR (push_bit s x AND push_bit s 3))
           AND push_bit s 3)) n = bit x n"
    using s n b3 n2 by (auto simp: bit_simps)
qed

lemma hpdet_range_field:
  "rd_ret (io (arizona info)) ARIZONA_HEADPHONE_DETECT_1 = 0 \<Longrightarrow>
   hpdet_range H info = range_field H info"
  by (simp add: hpdet_range_def range_field_def regmap_read_def)

lemma set_range_field:
  assumes "range_field_ok H" and "wr_ret (io (arizona info)) ARIZONA_HEADPHONE_DETECT_1 = 0"
      and "r \<le> 3"
  shows "range_field H (hpdet_set_range H info r) = r"
  using assms range_field_roundtrip [OF _ le3_bits, of "ARIZONA_HP_IMPEDANCE_RANGE_SHIFT H" r]
  by (simp add: range_field_def hpdet_set_range_def update_bits_ignore_def update_bits_def
      regmap_update_bits_def regmap_update_bits_check_def range_field_ok_def Let_def)

lemma set_range_frame:
  "io (arizona (hpdet_set_range H info r)) = io (arizona info)"
  "hpdet_ip (hpdet_set_range H info r) = hpdet_ip info"
  "pdata (arizona (hpdet_set_range H info r)) = pdata (arizona info)"
  by (simp_all add: hpdet_set_range_def update_bits_ignore_def update_bits_def
      regmap_update_bits_def regmap_update_bits_check_def Let_def)

lemma emit_frame [simp]:
  "arizona (emit e info) = arizona info"
  "hpdet_ip (emit e info) = hpdet_ip info"
  "range_field H (emit e info) = range_field H info"
  by (simp_all add: emit_def range_field_def)

lemma b_ranges_no_zero_divisor:
  assumes "b \<in> set arizona_hpdet_b_ranges" and "val < ARIZONA_HPDET_B_RANGE_MAX"
  shows "val * 100 - factor_a b \<noteq> 0"
proof -
  have v: "unat val < 1019"
    using assms(2) by (simp add: ARIZONA_HPDET_B_RANGE_MAX_def word_less_nat_alt)
  then have "unat val * unat (100::u32) < 2 ^ LENGTH(32)" by simp
  then have m: "unat (val * 100) = unat val * 100"
    by (simp add: unat_mult_lem [THEN iffD1])
  have "unat (factor_a b) mod 100 \<noteq> 0"
    using assms(1) by (auto simp: arizona_hpdet_b_ranges_def)
  moreover have "(unat val * 100) mod 100 = 0" by simp
  ultimately have "unat (val * 100) \<noteq> unat (factor_a b)" unfolding m by metis
  then show ?thesis by auto
qed


lemma array_get_nth: "0 \<le> i \<Longrightarrow> i < int (length xs) \<Longrightarrow> array_get xs i = Inr (xs ! nat i)"
  by (simp add: array_get_def)

text \<open>One read on the three-range revision.\<close>

lemma hpdet_ip_1_step:
  assumes ok: "range_field_ok H" and io: "range_io_ok (io (arizona i0))"
      and r: "range_field H i0 < 3"
  shows "\<exists>res i1. hpdet_ip_1 H i0 v0 = Inr (res, i1) \<and>
           io (arizona i1) = io (arizona i0) \<and> hpdet_ip i1 = hpdet_ip i0 \<and>
           pdata (arizona i1) = pdata (arizona i0) \<and>
           (if res = Inl (- EAGAIN) \<and> v0 AND ARIZONA_HP_DONE_B H \<noteq> 0 \<and>
               rd_ret (io (arizona i0)) ARIZONA_HP_DACVAL = 0
            then range_field H i1 = range_field H i0 + 1 \<and> range_field H i0 < 2
            else range_field H i1 = range_field H i0) \<and>
           (res = Inl (- EAGAIN) \<or> res = Inl ARIZONA_HPDET_MAX \<or> (\<exists>v. res = Inr v))"
proof -
  let ?r = "range_field H i0"
  have hr: "hpdet_range H i0 = ?r" using io by (simp add: hpdet_range_field range_io_ok_def)
  have wr: "wr_ret (io (arizona i0)) ARIZONA_HEADPHONE_DETECT_1 = 0"
    using io by (simp add: range_io_ok_def)
  have ur: "unat ?r < 3" using r by (simp add: word_less_nat_alt)
  have get: "array_get arizona_hpdet_b_ranges (uint ?r) = Inr (arizona_hpdet_b_ranges ! unat ?r)"
    using r by (simp add: array_get_def arizona_hpdet_b_ranges_def word_less_def)
  have mem: "arizona_hpdet_b_ranges ! unat ?r \<in> set arizona_hpdet_b_ranges"
    using ur by (intro nth_mem) (simp add: arizona_hpdet_b_ranges_def)
  show ?thesis
  proof (cases "v0 AND ARIZONA_HP_DONE_B H = 0")
    case True
    then show ?thesis by (simp add: hpdet_ip_1_def)
  next
    case dn: False
    obtain ret val where rd: "regmap_read (arizona i0) ARIZONA_HP_DACVAL v0 = (ret, val)"
      by (cases "regmap_read (arizona i0) ARIZONA_HP_DACVAL v0")
    show ?thesis
    proof (cases "ret \<noteq> 0")
      case True
      then have "rd_ret (io (arizona i0)) ARIZONA_HP_DACVAL \<noteq> 0"
        using rd by (auto simp: regmap_read_def split: if_splits)
      then show ?thesis using dn rd True by (simp add: hpdet_ip_1_def)
    next
      case False
      then have ret0: "ret = 0" by simp
      have rd0: "rd_ret (io (arizona i0)) ARIZONA_HP_DACVAL = 0"
        using rd ret0 by (auto simp: regmap_read_def split: if_splits)
      show ?thesis
      proof (cases "?r < 2 \<and> (val < threshold (arizona_hpdet_b_ranges ! unat ?r) \<or>
                       val \<ge> ARIZONA_HPDET_B_RANGE_MAX)")
        case True
        have "?r < 4" using r by (simp add: word_less_nat_alt)
        from lt4_cases [OF this] True have "?r + 1 \<le> 3" by auto
        then have "range_field H (hpdet_set_range H i0 (?r + 1)) = ?r + 1"
          using set_range_field [OF ok wr] by simp
        then show ?thesis
          using dn rd ret0 True rd0
          by (simp add: hpdet_ip_1_def hr Let_def set_range_frame)
      next
        case nostep: False
        show ?thesis
        proof (cases "val < threshold (arizona_hpdet_b_ranges ! unat ?r) \<or>
                       val \<ge> ARIZONA_HPDET_B_RANGE_MAX")
          case True
          then show ?thesis
            using dn rd ret0 nostep
            by (simp add: hpdet_ip_1_def hr Let_def get ARIZONA_HPDET_MAX_def EAGAIN_def)
        next
          case False
          then have "val < ARIZONA_HPDET_B_RANGE_MAX" by (simp add: not_le)
          from b_ranges_no_zero_divisor [OF mem this]
          show ?thesis
            using dn rd ret0 nostep False
            by (simp add: hpdet_ip_1_def hr Let_def get)
        qed
      qed
    qed
  qed
qed


text \<open>One read on the four-range revision.\<close>

lemma hpdet_ip_2_step:
  assumes ok: "range_field_ok H" and io: "range_io_ok (io (arizona i0))"
      and r: "range_field H i0 < 4"
  shows "\<exists>res. hpdet_ip_2 H i0 v0 =
             Inr (res, if res = Inl (- EAGAIN) \<and> v0 AND ARIZONA_HP_DONE_B H \<noteq> 0
                       then hpdet_set_range H i0 (range_field H i0 + 1)
                       else if v0 AND ARIZONA_HP_DONE_B H = 0
                       then emit (dev_err ''HPDET did not complete'') i0 else i0) \<and>
           (if res = Inl (- EAGAIN) \<and> v0 AND ARIZONA_HP_DONE_B H \<noteq> 0
            then range_field H i0 < 3
            else True) \<and>
           (res = Inl (- EAGAIN) \<or> (\<exists>v. res = Inr v)) \<and>
           (v0 AND ARIZONA_HP_DONE_B H \<noteq> 0 \<and> range_field H i0 = 3 \<longrightarrow>
              res = Inr (if (v0 AND ARIZONA_HP_LVL_B_MASK H) div 2 < 1000 then 1000
                         else (v0 AND ARIZONA_HP_LVL_B_MASK H) div 2))"
proof -
  let ?r = "range_field H i0"
  let ?val = "(v0 AND ARIZONA_HP_LVL_B_MASK H) div 2"
  have hr: "hpdet_range H i0 = ?r" using io by (simp add: hpdet_range_field range_io_ok_def)
  have get: "array_get arizona_hpdet_c_ranges (uint ?r) = Inr (arizona_hpdet_c_ranges ! unat ?r)"
    using r by (simp add: array_get_def arizona_hpdet_c_ranges_def word_less_def)
  show ?thesis
  proof (cases "v0 AND ARIZONA_HP_DONE_B H = 0")
    case True
    then show ?thesis by (simp add: hpdet_ip_2_def)
  next
    case dn: False
    show ?thesis
    proof (cases "?r < 3 \<and> ?val \<ge> range_max (arizona_hpdet_c_ranges ! unat ?r)")
      case True
      then show ?thesis
        using dn by (auto simp: hpdet_ip_2_def hr Let_def)
    next
      case nostep: False
      show ?thesis
      proof (cases "?r = 3")
        case True
        then show ?thesis
          using dn nostep
          by (simp add: hpdet_ip_2_def hr Let_def array_get_def arizona_hpdet_c_ranges_def
              EAGAIN_def)
      next
        case False
        then show ?thesis
          using dn nostep
          by (simp add: hpdet_ip_2_def hr Let_def get EAGAIN_def)
      qed
    qed
  qed
qed


lemma range_field_set_range_frame [simp]:
  "range_field H (emit e info) = range_field H info"
  by (simp add: range_field_def emit_def)

text \<open>The part of \<^verbatim>\<open>arizona_hpdet_read\<close> after the switch.\<close>

lemma hpdet_read_after_switch:
  assumes rd: "rd_ret (io (arizona i0)) ARIZONA_HEADPHONE_DETECT_2 = 0"
      and sw: "hpdet_switch H i0 (regmap (arizona i0) ARIZONA_HEADPHONE_DETECT_2) = Inr (res, i1)"
  shows "\<exists>ret i2. arizona_hpdet_read H i0 = Inr (ret, i2) \<and>
           io (arizona i2) = io (arizona i1) \<and> hpdet_ip i2 = hpdet_ip i1 \<and>
           range_field H i2 = range_field H i1 \<and>
           (case res of Inl c \<Rightarrow> ret = c \<and> i2 = i1
                      | Inr v \<Rightarrow> (unat v < 2147483648 \<longrightarrow> 0 \<le> ret))"
proof (cases res)
  case (Inl c)
  then show ?thesis using rd sw by (simp add: arizona_hpdet_read_def regmap_read_def)
next
  case (Inr v)
  let ?ext = "hpdet_ext_res (pdata (arizona i1))"
  show ?thesis
  proof (cases "?ext \<noteq> 0 \<and> \<not> ?ext \<ge> v")
    case True
    then have le: "?ext \<le> v" by (simp add: not_le order.strict_implies_order)
    have "unat (v - ?ext) \<le> unat v" using le by (simp add: unat_sub)
    then have "unat v < 2147483648 \<Longrightarrow> 0 \<le> sint (v - ?ext)"
      using sint_of_small [of "v - ?ext"] by simp
    then show ?thesis
      using rd sw Inr True by (simp add: arizona_hpdet_read_def regmap_read_def)
  next
    case False
    have "unat v < 2147483648 \<Longrightarrow> 0 \<le> sint v" using sint_of_small [of v] by simp
    then show ?thesis
      using rd sw Inr False by (auto simp: arizona_hpdet_read_def regmap_read_def)
  qed
qed

lemma hpdet_read_step:
  assumes ok: "range_field_ok H" and io: "range_io_ok (io (arizona i0))"
      and r: "unat (range_field H i0) < range_count i0"
  shows "\<exists>ret i1. arizona_hpdet_read H i0 = Inr (ret, i1) \<and>
           io (arizona i1) = io (arizona i0) \<and> hpdet_ip i1 = hpdet_ip i0 \<and>
           (if range_retry H i0 ret
            then range_field H i1 = range_field H i0 + 1 \<and>
                 unat (range_field H i0) + 1 < range_count i0
            else range_field H i1 = range_field H i0) \<and>
           (hpdet_ip i0 \<noteq> 0 \<and> hpdet_complete H i0 \<and> \<not> range_retry H i0 ret \<longrightarrow> 0 \<le> ret)"
proof (cases "rd_ret (io (arizona i0)) ARIZONA_HEADPHONE_DETECT_2 = 0")
  case False
  then show ?thesis
    by (simp add: arizona_hpdet_read_def regmap_read_def range_retry_def hpdet_complete_def)
next
  case rd: True
  let ?v0 = "regmap (arizona i0) ARIZONA_HEADPHONE_DETECT_2"
  let ?r = "range_field H i0"
  have wr: "wr_ret (io (arizona i0)) ARIZONA_HEADPHONE_DETECT_1 = 0"
    using io by (simp add: range_io_ok_def)
  consider (ip0) "hpdet_ip i0 = 0" | (ip1) "hpdet_ip i0 = 1"
    | (ip2) "hpdet_ip i0 \<noteq> 0" "hpdet_ip i0 \<noteq> 1" by blast
  then show ?thesis
  proof cases
    case ip0
    obtain res i1 where sw: "hpdet_switch H i0 ?v0 = Inr (res, i1)"
      and fr: "io (arizona i1) = io (arizona i0)" "hpdet_ip i1 = hpdet_ip i0"
              "range_field H i1 = range_field H i0"
      using ip0 by (cases "?v0 AND ARIZONA_HP_DONE H = 0")
        (simp_all add: hpdet_switch_def hpdet_ip_0_def)
    from hpdet_read_after_switch [OF rd sw] fr ip0 show ?thesis
      by (auto simp: range_retry_def hpdet_complete_def)
  next
    case ip1
    have r3: "?r < 3"
      using r ip1 by (simp add: range_count_def arizona_hpdet_b_ranges_def word_less_nat_alt)
    from hpdet_ip_1_step [OF ok io r3, of ?v0]
    obtain res i1 where sw1: "hpdet_ip_1 H i0 ?v0 = Inr (res, i1)"
      and fr: "io (arizona i1) = io (arizona i0)" "hpdet_ip i1 = hpdet_ip i0"
      and st: "if res = Inl (- EAGAIN) \<and> ?v0 AND ARIZONA_HP_DONE_B H \<noteq> 0 \<and>
                  rd_ret (io (arizona i0)) ARIZONA_HP_DACVAL = 0
               then range_field H i1 = ?r + 1 \<and> ?r < 2
               else range_field H i1 = ?r"
      and cs: "res = Inl (- EAGAIN) \<or> res = Inl ARIZONA_HPDET_MAX \<or> (\<exists>v. res = Inr v)"
      by blast
    have sw: "hpdet_switch H i0 ?v0 = Inr (res, i1)"
      using sw1 ip1 by (simp add: hpdet_switch_def)
    have small: "\<And>v. res = Inr v \<Longrightarrow> unat v < 2147483648"
      using ip1_small sw1 by blast
    from hpdet_read_after_switch [OF rd sw]
    obtain ret i2 where rd2: "arizona_hpdet_read H i0 = Inr (ret, i2)"
      and fr2: "io (arizona i2) = io (arizona i1)" "hpdet_ip i2 = hpdet_ip i1"
               "range_field H i2 = range_field H i1"
      and rt: "case res of Inl c \<Rightarrow> ret = c \<and> i2 = i1
                      | Inr v \<Rightarrow> (unat v < 2147483648 \<longrightarrow> 0 \<le> ret)"
      by blast
    have iff: "range_retry H i0 ret \<longleftrightarrow>
               (res = Inl (- EAGAIN) \<and> ?v0 AND ARIZONA_HP_DONE_B H \<noteq> 0 \<and>
                rd_ret (io (arizona i0)) ARIZONA_HP_DACVAL = 0)"
      using cs rt small rd ip1
      by (auto simp: range_retry_def hpdet_complete_def EAGAIN_def ARIZONA_HPDET_MAX_def)
    have adv: "?r < 2 \<Longrightarrow> unat ?r + 1 < range_count i0"
      using ip1 by (simp add: range_count_def arizona_hpdet_b_ranges_def word_less_nat_alt)
    have nn: "hpdet_complete H i0 \<and> \<not> range_retry H i0 ret \<longrightarrow> 0 \<le> ret"
      using cs rt small rd ip1
      by (auto simp: range_retry_def hpdet_complete_def EAGAIN_def ARIZONA_HPDET_MAX_def)
    show ?thesis
      using rd2 fr fr2 st adv nn by (auto simp: iff split: if_splits)
  next
    case ip2
    define w where "w = (if hpdet_ip i0 = 2 then i0
                         else emit (dev_warn ''Unknown HPDET IP revision'') i0)"
    have wf: "io (arizona w) = io (arizona i0)" "hpdet_ip w = hpdet_ip i0"
             "range_field H w = ?r"
      by (simp_all add: w_def)
    have r4: "range_field H w < 4"
      using r ip2 wf by (simp add: range_count_def arizona_hpdet_c_ranges_def word_less_nat_alt)
    have io': "range_io_ok (io (arizona w))" using io wf by simp
    have wr': "wr_ret (io (arizona w)) ARIZONA_HEADPHONE_DETECT_1 = 0" using wr wf by simp
    from hpdet_ip_2_step [OF ok io' r4, of ?v0]
    obtain res where sw2: "hpdet_ip_2 H w ?v0 =
             Inr (res, if res = Inl (- EAGAIN) \<and> ?v0 AND ARIZONA_HP_DONE_B H \<noteq> 0
                       then hpdet_set_range H w (range_field H w + 1)
                       else if ?v0 AND ARIZONA_HP_DONE_B H = 0
                       then emit (dev_err ''HPDET did not complete'') w else w)"
      and st: "if res = Inl (- EAGAIN) \<and> ?v0 AND ARIZONA_HP_DONE_B H \<noteq> 0
               then range_field H w < 3 else True"
      and cs: "res = Inl (- EAGAIN) \<or> (\<exists>v. res = Inr v)"
      by blast
    define i1 where "i1 = (if res = Inl (- EAGAIN) \<and> ?v0 AND ARIZONA_HP_DONE_B H \<noteq> 0
                       then hpdet_set_range H w (range_field H w + 1)
                       else if ?v0 AND ARIZONA_HP_DONE_B H = 0
                       then emit (dev_err ''HPDET did not complete'') w else w)"
    have sw0: "hpdet_switch H i0 ?v0 = hpdet_ip_2 H w ?v0"
      using ip2 by (simp add: hpdet_switch_def w_def)
    have sw: "hpdet_switch H i0 ?v0 = Inr (res, i1)"
      unfolding sw0 i1_def by (rule sw2)
    have fr: "io (arizona i1) = io (arizona i0)" "hpdet_ip i1 = hpdet_ip i0"
      using wf by (simp_all add: i1_def set_range_frame)
    have rf: "range_field H i1 =
              (if res = Inl (- EAGAIN) \<and> ?v0 AND ARIZONA_HP_DONE_B H \<noteq> 0 then ?r + 1 else ?r)"
    proof (cases "res = Inl (- EAGAIN) \<and> ?v0 AND ARIZONA_HP_DONE_B H \<noteq> 0")
      case True
      then have "range_field H w < 3" using st by simp
      then have "range_field H w < 4" by (simp add: word_less_nat_alt)
      from lt4_cases [OF this] \<open>range_field H w < 3\<close> have "range_field H w + 1 \<le> 3" by auto
      from set_range_field [OF ok wr' this] True wf show ?thesis by (simp add: i1_def)
    next
      case False
      then show ?thesis using wf by (auto simp: i1_def)
    qed
    have small: "\<And>v. res = Inr v \<Longrightarrow> unat v < 2147483648"
      using ip2_small sw2 by blast
    from hpdet_read_after_switch [OF rd sw]
    obtain ret i2 where rd2: "arizona_hpdet_read H i0 = Inr (ret, i2)"
      and fr2: "io (arizona i2) = io (arizona i1)" "hpdet_ip i2 = hpdet_ip i1"
               "range_field H i2 = range_field H i1"
      and rt: "case res of Inl c \<Rightarrow> ret = c \<and> i2 = i1
                      | Inr v \<Rightarrow> (unat v < 2147483648 \<longrightarrow> 0 \<le> ret)"
      by blast
    have iff: "range_retry H i0 ret \<longleftrightarrow>
               (res = Inl (- EAGAIN) \<and> ?v0 AND ARIZONA_HP_DONE_B H \<noteq> 0)"
      using cs rt small rd ip2
      by (auto simp: range_retry_def hpdet_complete_def EAGAIN_def)
    have adv: "?r < 3 \<Longrightarrow> unat ?r + 1 < range_count i0"
      using ip2 by (simp add: range_count_def arizona_hpdet_c_ranges_def word_less_nat_alt)
    have nn: "hpdet_complete H i0 \<and> \<not> range_retry H i0 ret \<longrightarrow> 0 \<le> ret"
      using cs rt small rd ip2
      by (auto simp: range_retry_def hpdet_complete_def EAGAIN_def)
    show ?thesis
      using rd2 fr fr2 rf st adv wf nn by (auto simp: iff split: if_splits)
  qed
qed


lemma present_sample_frame [simp]:
  "range_field H (present_sample x info) = range_field H info"
  "hpdet_ip (present_sample x info) = hpdet_ip info"
  "io (arizona (present_sample x info)) = sample_io x"
  by (simp_all add: present_sample_def range_field_def)

lemma range_count_cong: "hpdet_ip i1 = hpdet_ip i0 \<Longrightarrow> range_count i1 = range_count i0"
  by (simp add: range_count_def)

lemma range_count_le: "range_count info \<le> 4"
  by (simp add: range_count_def arizona_hpdet_b_ranges_def arizona_hpdet_c_ranges_def)

lemma word_le_succ: "unat (r::u32) + 1 < 5 \<Longrightarrow> r \<le> r + 1"
proof -
  assume "unat r + 1 < 5"
  then have "unat (r + 1) = unat r + 1" by (simp add: unat_word_ariths)
  then show ?thesis by (simp add: word_le_nat_alt)
qed

lemma hpdet_session_props:
  assumes ok: "range_field_ok H" and ios: "\<forall>x \<in> set xs. range_io_ok (sample_io x)"
      and r: "unat (range_field H info) < range_count info"
  shows "length (hpdet_session H info xs) = length xs \<and>
         sorted (range_field H info # map (\<lambda>s. snd (snd s)) (hpdet_session H info xs)) \<and>
         unat (range_field H info) + length (filter fst (hpdet_session H info xs))
           < range_count info"
  using ios r
proof (induction xs arbitrary: info)
  case Nil
  then show ?case by simp
next
  case (Cons x xs)
  let ?i0 = "present_sample x info"
  have io: "range_io_ok (io (arizona ?i0))" using Cons.prems(1) by simp
  have r0: "unat (range_field H ?i0) < range_count ?i0"
    using Cons.prems(2) by (simp add: range_count_cong [of ?i0 info])
  from hpdet_read_step [OF ok io r0]
  obtain ret i1 where rd: "arizona_hpdet_read H ?i0 = Inr (ret, i1)"
    and ip: "hpdet_ip i1 = hpdet_ip ?i0"
    and st: "if range_retry H ?i0 ret
            then range_field H i1 = range_field H ?i0 + 1 \<and>
                 unat (range_field H ?i0) + 1 < range_count ?i0
            else range_field H i1 = range_field H ?i0"
    by blast
  have rc: "range_count i1 = range_count info" "range_count ?i0 = range_count info"
    using ip by (simp_all add: range_count_cong [of i1 info] range_count_cong [of ?i0 info])
  have le: "range_field H info \<le> range_field H i1"
  proof (cases "range_retry H ?i0 ret")
    case True
    then have "unat (range_field H info) + 1 < 5"
      using st rc range_count_le [of info] by simp
    from word_le_succ [OF this] True st show ?thesis by simp
  next
    case False
    then show ?thesis using st by simp
  qed
  have u1: "unat (range_field H i1) =
            unat (range_field H info) + (if range_retry H ?i0 ret then 1 else 0)"
  proof (cases "range_retry H ?i0 ret")
    case True
    then have "unat (range_field H info) + 1 < 5"
      using st rc range_count_le [of info] by simp
    then have "unat (range_field H info + 1) = unat (range_field H info) + 1"
      by (simp add: unat_word_ariths)
    then show ?thesis using True st by simp
  next
    case False
    then show ?thesis using st by simp
  qed
  have r1: "unat (range_field H i1) < range_count i1"
    using st rc u1 Cons.prems(2) by (auto split: if_splits)
  have ios': "\<forall>x \<in> set xs. range_io_ok (sample_io x)" using Cons.prems(1) by simp
  from Cons.IH [OF ios' r1]
  have ih: "length (hpdet_session H i1 xs) = length xs"
    "sorted (range_field H i1 # map (\<lambda>s. snd (snd s)) (hpdet_session H i1 xs))"
    "unat (range_field H i1) + length (filter fst (hpdet_session H i1 xs)) < range_count i1"
    by simp_all
  have tr: "\<forall>y \<in> set (hpdet_session H i1 xs). range_field H info \<le> snd (snd y)"
    using ih(2) le by (auto intro: order_trans)
  show ?case
    using ih tr le u1 rc by (auto simp: rd split: if_splits)
qed


lemma hpdet_ip_1_top_of_range:
  assumes io: "rd_ret (io (arizona i0)) ARIZONA_HEADPHONE_DETECT_1 = 0"
      and ip: "hpdet_ip i0 = 1" and r: "range_field H i0 = 2" and c: "hpdet_complete H i0"
      and oob: "regmap (arizona i0) ARIZONA_HP_DACVAL < 169 \<or>
                ARIZONA_HPDET_B_RANGE_MAX \<le> regmap (arizona i0) ARIZONA_HP_DACVAL"
  shows "arizona_hpdet_read H i0 = Inr (ARIZONA_HPDET_MAX, i0)"
proof -
  have hr: "hpdet_range H i0 = 2" using io r by (simp add: hpdet_range_field)
  have sw: "hpdet_switch H i0 (regmap (arizona i0) ARIZONA_HEADPHONE_DETECT_2) =
            Inr (Inl ARIZONA_HPDET_MAX, i0)"
    using ip c oob
    by (auto simp: hpdet_switch_def hpdet_ip_1_def hpdet_complete_def regmap_read_def hr
        array_get_def arizona_hpdet_b_ranges_def Let_def)
  show ?thesis
    using c sw by (simp add: arizona_hpdet_read_def regmap_read_def hpdet_complete_def)
qed

lemma hpdet_ip_2_last_range:
  assumes ok: "range_field_ok H" and io: "range_io_ok (io (arizona i0))"
      and ip: "hpdet_ip i0 \<noteq> 0" "hpdet_ip i0 \<noteq> 1"
      and r: "range_field H i0 = 3" and c: "hpdet_complete H i0"
      and ext: "hpdet_ext_res (pdata (arizona i0)) = 0"
  shows "\<exists>i1. arizona_hpdet_read H i0 =
           Inr (uint (if (regmap (arizona i0) ARIZONA_HEADPHONE_DETECT_2 AND
                          ARIZONA_HP_LVL_B_MASK H) div 2 < 1000
                      then 1000
                      else (regmap (arizona i0) ARIZONA_HEADPHONE_DETECT_2 AND
                            ARIZONA_HP_LVL_B_MASK H) div 2), i1)"
proof -
  let ?v0 = "regmap (arizona i0) ARIZONA_HEADPHONE_DETECT_2"
  let ?val = "if (?v0 AND ARIZONA_HP_LVL_B_MASK H) div 2 < 1000 then 1000
              else (?v0 AND ARIZONA_HP_LVL_B_MASK H) div 2"
  define w where "w = (if hpdet_ip i0 = 2 then i0
                       else emit (dev_warn ''Unknown HPDET IP revision'') i0)"
  have wf: "io (arizona w) = io (arizona i0)" "range_field H w = 3"
           "pdata (arizona w) = pdata (arizona i0)"
    using r by (simp_all add: w_def)
  have io': "range_io_ok (io (arizona w))" using io wf by simp
  have r4: "range_field H w < 4" using wf by simp
  have dn: "?v0 AND ARIZONA_HP_DONE_B H \<noteq> 0" using c by (simp add: hpdet_complete_def)
  from hpdet_ip_2_step [OF ok io' r4, of ?v0] dn wf
  have sw2: "hpdet_ip_2 H w ?v0 = Inr (Inr ?val, w)"
    by (auto simp: EAGAIN_def split: if_splits)
  have sw0: "hpdet_switch H i0 ?v0 = hpdet_ip_2 H w ?v0"
    using ip by (simp add: hpdet_switch_def w_def)
  have sw: "hpdet_switch H i0 ?v0 = Inr (Inr ?val, w)"
    unfolding sw0 by (rule sw2)
  have "unat ?val < 2147483648" using ip2_small [OF sw2] .
  then have "sint ?val = uint ?val" by (rule sint_of_small)
  then have "arizona_hpdet_read H i0 = Inr (uint ?val, w)"
    using c sw ext wf
    by (simp add: arizona_hpdet_read_def regmap_read_def hpdet_complete_def)
  then show ?thesis by blast
qed


text \<open>
  Claim C4, as the code has it. While the accesses to the range register succeed, every
  read of a detection session returns, the range index in the register never decreases
  from one read to the next, and the retries for an out-of-bounds value are fewer than
  the ranges of the revision. At the last range a complete measurement is final: the
  read returns a value that is not negative and leaves the range where it is. There the
  three-range revision reports an out-of-bounds DAC value as \<^verbatim>\<open>ARIZONA_HPDET_MAX\<close>; the
  four-range revision raises a value below the minimum of the range to the minimum and
  returns any larger value as measured.
\<close>

theorem hpdet_range_stepping:
  assumes ok: "range_field_ok H"
  shows "((\<forall>x \<in> set xs. range_io_ok (sample_io x)) \<and>
          unat (range_field H info) < range_count info \<longrightarrow>
            length (hpdet_session H info xs) = length xs \<and>
            sorted (range_field H info # map (\<lambda>s. snd (snd s)) (hpdet_session H info xs)) \<and>
            length (filter fst (hpdet_session H info xs)) \<le> range_count info - 1) \<and>
         (range_io_ok (io (arizona i)) \<and> hpdet_ip i \<noteq> 0 \<and> hpdet_complete H i \<and>
          unat (range_field H i) + 1 = range_count i \<longrightarrow>
            (\<exists>ret i1. arizona_hpdet_read H i = Inr (ret, i1) \<and> 0 \<le> ret \<and>
                       range_field H i1 = range_field H i)) \<and>
         (range_io_ok (io (arizona b)) \<and> hpdet_ip b = 1 \<and> hpdet_complete H b \<and>
          range_field H b = 2 \<and>
          (regmap (arizona b) ARIZONA_HP_DACVAL < 169 \<or>
           ARIZONA_HPDET_B_RANGE_MAX \<le> regmap (arizona b) ARIZONA_HP_DACVAL) \<longrightarrow>
            arizona_hpdet_read H b = Inr (ARIZONA_HPDET_MAX, b)) \<and>
         (range_io_ok (io (arizona c)) \<and> hpdet_ip c \<noteq> 0 \<and> hpdet_ip c \<noteq> 1 \<and>
          hpdet_complete H c \<and> range_field H c = 3 \<and>
          hpdet_ext_res (pdata (arizona c)) = 0 \<longrightarrow>
            (\<exists>c1. arizona_hpdet_read H c =
               Inr (uint (if (regmap (arizona c) ARIZONA_HEADPHONE_DETECT_2 AND
                              ARIZONA_HP_LVL_B_MASK H) div 2 < 1000
                          then 1000
                          else (regmap (arizona c) ARIZONA_HEADPHONE_DETECT_2 AND
                                ARIZONA_HP_LVL_B_MASK H) div 2), c1)))"
proof (intro conjI impI)
  assume h: "(\<forall>x \<in> set xs. range_io_ok (sample_io x)) \<and>
             unat (range_field H info) < range_count info"
  from hpdet_session_props [OF ok, of xs info] h
  have p: "length (hpdet_session H info xs) = length xs"
          "sorted (range_field H info # map (\<lambda>s. snd (snd s)) (hpdet_session H info xs))"
          "unat (range_field H info) + length (filter fst (hpdet_session H info xs))
             < range_count info"
    by blast+
  show "length (hpdet_session H info xs) = length xs" by (rule p(1))
  show "sorted (range_field H info # map (\<lambda>s. snd (snd s)) (hpdet_session H info xs))"
    by (rule p(2))
  show "length (filter fst (hpdet_session H info xs)) \<le> range_count info - 1"
    using p(3) by linarith
next
  assume h: "range_io_ok (io (arizona i)) \<and> hpdet_ip i \<noteq> 0 \<and> hpdet_complete H i \<and>
             unat (range_field H i) + 1 = range_count i"
  then have lt: "unat (range_field H i) < range_count i" by linarith
  from hpdet_read_step [OF ok _ lt] h
  obtain ret i1 where st: "arizona_hpdet_read H i = Inr (ret, i1)"
      "if range_retry H i ret
       then range_field H i1 = range_field H i + 1 \<and> unat (range_field H i) + 1 < range_count i
       else range_field H i1 = range_field H i"
      "hpdet_ip i \<noteq> 0 \<and> hpdet_complete H i \<and> \<not> range_retry H i ret \<longrightarrow> 0 \<le> ret"
    by blast
  have nr: "\<not> range_retry H i ret"
  proof
    assume "range_retry H i ret"
    with st(2) have "unat (range_field H i) + 1 < range_count i" by simp
    with h show False by simp
  qed
  from st nr h have "arizona_hpdet_read H i = Inr (ret, i1) \<and> 0 \<le> ret \<and>
      range_field H i1 = range_field H i" by simp
  then show "\<exists>ret i1. arizona_hpdet_read H i = Inr (ret, i1) \<and> 0 \<le> ret \<and>
                       range_field H i1 = range_field H i"
    by blast
next
  assume h: "range_io_ok (io (arizona b)) \<and> hpdet_ip b = 1 \<and> hpdet_complete H b \<and>
          range_field H b = 2 \<and>
          (regmap (arizona b) ARIZONA_HP_DACVAL < 169 \<or>
           ARIZONA_HPDET_B_RANGE_MAX \<le> regmap (arizona b) ARIZONA_HP_DACVAL)"
  then have io: "rd_ret (io (arizona b)) ARIZONA_HEADPHONE_DETECT_1 = 0"
    by (simp add: range_io_ok_def)
  from h show "arizona_hpdet_read H b = Inr (ARIZONA_HPDET_MAX, b)"
    by (intro hpdet_ip_1_top_of_range [OF io]) simp_all
next
  assume h: "range_io_ok (io (arizona c)) \<and> hpdet_ip c \<noteq> 0 \<and> hpdet_ip c \<noteq> 1 \<and>
          hpdet_complete H c \<and> range_field H c = 3 \<and>
          hpdet_ext_res (pdata (arizona c)) = 0"
  from h show "\<exists>c1. arizona_hpdet_read H c =
               Inr (uint (if (regmap (arizona c) ARIZONA_HEADPHONE_DETECT_2 AND
                              ARIZONA_HP_LVL_B_MASK H) div 2 < 1000
                          then 1000
                          else (regmap (arizona c) ARIZONA_HEADPHONE_DETECT_2 AND
                                ARIZONA_HP_LVL_B_MASK H) div 2), c1)"
    by (intro hpdet_ip_2_last_range [OF ok]) simp_all
qed

lemmas stepping_defs = last_range_info_def top_b_range_info_def stepping_samples_def
  with_reg_def example_info_def example_arizona_def example_pdata_def example_io_def
  example_hdr_def

lemma example_range_field_ok: "range_field_ok example_hdr"
  by (simp add: range_field_ok_def example_hdr_def)

lemma last_range_read:
  "arizona_hpdet_read example_hdr last_range_info = Inr (16383, last_range_info)"
  by (simp add: stepping_defs arizona_hpdet_read_def hpdet_switch_def hpdet_ip_2_def
      hpdet_range_def regmap_read_def arizona_hpdet_c_ranges_def array_get_def Let_def)

theorem hpdet_range_stepping_witness:
  "range_field_ok example_hdr \<and>
   list_all (\<lambda>x. range_io_ok (sample_io x)) stepping_samples \<and>
   unat (range_field example_hdr example_info) < range_count example_info \<and>
   length (hpdet_session example_hdr example_info stepping_samples) = 4 \<and>
   sorted (range_field example_hdr example_info #
           map (\<lambda>s. snd (snd s)) (hpdet_session example_hdr example_info stepping_samples)) \<and>
   length (filter fst (hpdet_session example_hdr example_info stepping_samples)) \<le> 3 \<and>
   range_io_ok (io (arizona last_range_info)) \<and> hpdet_ip last_range_info \<noteq> 0 \<and>
   hpdet_ip last_range_info \<noteq> 1 \<and>
   hpdet_complete example_hdr last_range_info \<and>
   unat (range_field example_hdr last_range_info) + 1 = range_count last_range_info \<and>
   hpdet_ext_res (pdata (arizona last_range_info)) = 0 \<and>
   (\<exists>ret i1. arizona_hpdet_read example_hdr last_range_info = Inr (ret, i1) \<and> 0 \<le> ret \<and>
      range_field example_hdr i1 = range_field example_hdr last_range_info) \<and>
   (\<exists>c1. arizona_hpdet_read example_hdr last_range_info = Inr (16383, c1)) \<and>
   range_io_ok (io (arizona top_b_range_info)) \<and> hpdet_ip top_b_range_info = 1 \<and>
   hpdet_complete example_hdr top_b_range_info \<and>
   range_field example_hdr top_b_range_info = 2 \<and>
   ARIZONA_HPDET_B_RANGE_MAX \<le> regmap (arizona top_b_range_info) ARIZONA_HP_DACVAL \<and>
   arizona_hpdet_read example_hdr top_b_range_info = Inr (ARIZONA_HPDET_MAX, top_b_range_info)"
proof -
  have a1: "\<forall>x \<in> set stepping_samples. range_io_ok (sample_io x)"
    by (simp add: stepping_defs range_io_ok_def)
  have a2: "unat (range_field example_hdr example_info) < range_count example_info"
    by (simp add: stepping_defs range_field_def range_count_def arizona_hpdet_c_ranges_def)
  have rc: "range_count example_info = 4" "range_count last_range_info = 4"
    by (simp_all add: stepping_defs range_count_def arizona_hpdet_c_ranges_def)
  have b1: "range_io_ok (io (arizona last_range_info))" "hpdet_ip last_range_info \<noteq> 0"
      "hpdet_ip last_range_info \<noteq> 1"
      "hpdet_ext_res (pdata (arizona last_range_info)) = 0"
    by (simp_all add: stepping_defs range_io_ok_def)
  have b2: "hpdet_complete example_hdr last_range_info"
    by (simp add: stepping_defs hpdet_complete_def)
  have b3: "range_field example_hdr last_range_info = 3"
    by (simp add: stepping_defs range_field_def)
  have b4: "(regmap (arizona last_range_info) ARIZONA_HEADPHONE_DETECT_2 AND
             ARIZONA_HP_LVL_B_MASK example_hdr) div 2 = 16383"
    by (simp add: stepping_defs)
  have c1: "range_io_ok (io (arizona top_b_range_info))" "hpdet_ip top_b_range_info = 1"
      "ARIZONA_HPDET_B_RANGE_MAX \<le> regmap (arizona top_b_range_info) ARIZONA_HP_DACVAL"
    by (simp_all add: stepping_defs range_io_ok_def ARIZONA_HPDET_B_RANGE_MAX_def)
  have c2: "hpdet_complete example_hdr top_b_range_info"
    by (simp add: stepping_defs hpdet_complete_def)
  have c3: "range_field example_hdr top_b_range_info = 2"
    by (simp add: stepping_defs range_field_def)
  note t = hpdet_range_stepping [OF example_range_field_ok, of stepping_samples example_info
      last_range_info top_b_range_info last_range_info]
  have len: "length stepping_samples = 4" by (simp add: stepping_samples_def)
  from t a1 a2 have s: "length (hpdet_session example_hdr example_info stepping_samples) = 4"
    "sorted (range_field example_hdr example_info #
           map (\<lambda>s. snd (snd s)) (hpdet_session example_hdr example_info stepping_samples))"
    "length (filter fst (hpdet_session example_hdr example_info stepping_samples)) \<le> 3"
    unfolding rc len by simp_all
  from t b1 b2 b3 rc
  have l: "\<exists>ret i1. arizona_hpdet_read example_hdr last_range_info = Inr (ret, i1) \<and> 0 \<le> ret \<and>
      range_field example_hdr i1 = range_field example_hdr last_range_info"
    by simp
  from t b1 b2 b3
  have "\<exists>c1. arizona_hpdet_read example_hdr last_range_info =
               Inr (uint (if (regmap (arizona last_range_info) ARIZONA_HEADPHONE_DETECT_2 AND
                              ARIZONA_HP_LVL_B_MASK example_hdr) div 2 < 1000
                          then 1000
                          else (regmap (arizona last_range_info) ARIZONA_HEADPHONE_DETECT_2 AND
                                ARIZONA_HP_LVL_B_MASK example_hdr) div 2), c1)"
    by blast
  then have m: "\<exists>c1. arizona_hpdet_read example_hdr last_range_info = Inr (16383, c1)"
    unfolding b4 by simp
  from t c1 c2 c3
  have n: "arizona_hpdet_read example_hdr top_b_range_info =
           Inr (ARIZONA_HPDET_MAX, top_b_range_info)"
    by blast
  show ?thesis
    using example_range_field_ok a1 a2 s b1 b2 b3 rc l m c1 c2 c3 n
    by (simp add: list_all_iff)
qed

text \<open>
  The sentence of the specification says that the value is clamped at the last range.
  On the four-range revision a value above the maximum of the last range is returned
  as it was measured.
\<close>

theorem hpdet_last_range_not_clamped:
  "hpdet_ip last_range_info = 2 \<and>
   range_io_ok (io (arizona last_range_info)) \<and>
   hpdet_complete example_hdr last_range_info \<and>
   unat (range_field example_hdr last_range_info) + 1 = range_count last_range_info \<and>
   arizona_hpdet_read example_hdr last_range_info = Inr (16383, last_range_info) \<and>
   uint (range_max (last arizona_hpdet_c_ranges)) = 10000 \<and>
   ARIZONA_HPDET_MAX = 10000"
  using last_range_read
  by (simp add: stepping_defs range_io_ok_def hpdet_complete_def range_field_def
      range_count_def arizona_hpdet_c_ranges_def ARIZONA_HPDET_MAX_def)

section \<open>What the operations leave unchanged\<close>

lemma soft_fields:
  assumes eq: "soft_state a = soft_state b"
  shows "state a = state b"
    "edev a = edev b"
    "hp_imp_level a = hp_imp_level b"
    "num_hpdet_res a = num_hpdet_res b"
    "hpdet_res a = hpdet_res b"
    "hpdet_retried a = hpdet_retried b"
    "mic a = mic b"
    "hp_impedance (arizona a) = hp_impedance (arizona b)"
    "pdata (arizona a) = pdata (arizona b)"
    "codec (arizona a) = codec (arizona b)"
    "io (arizona a) = io (arizona b)"
    "micd_ranges a = micd_ranges b"
    "num_micd_ranges a = num_micd_ranges b"
    "micd_modes a = micd_modes b"
    "micd_num_modes a = micd_num_modes b"
    "micd_mode a = micd_mode b"
    "jack_flips a = jack_flips b"
    "last_jackdet a = last_jackdet b"
    "pending a = pending b"
    "micd_reva a = micd_reva b"
    "hpdet_ip a = hpdet_ip b"
proof -
  have "state (soft_state a) = state (soft_state b)" by (simp only: eq)
  then show "state a = state b" by (simp add: soft_state_def)
  have "edev (soft_state a) = edev (soft_state b)" by (simp only: eq)
  then show "edev a = edev b" by (simp add: soft_state_def)
  have "hp_imp_level (soft_state a) = hp_imp_level (soft_state b)" by (simp only: eq)
  then show "hp_imp_level a = hp_imp_level b" by (simp add: soft_state_def)
  have "num_hpdet_res (soft_state a) = num_hpdet_res (soft_state b)" by (simp only: eq)
  then show "num_hpdet_res a = num_hpdet_res b" by (simp add: soft_state_def)
  have "hpdet_res (soft_state a) = hpdet_res (soft_state b)" by (simp only: eq)
  then show "hpdet_res a = hpdet_res b" by (simp add: soft_state_def)
  have "hpdet_retried (soft_state a) = hpdet_retried (soft_state b)" by (simp only: eq)
  then show "hpdet_retried a = hpdet_retried b" by (simp add: soft_state_def)
  have "mic (soft_state a) = mic (soft_state b)" by (simp only: eq)
  then show "mic a = mic b" by (simp add: soft_state_def)
  have "hp_impedance (arizona (soft_state a)) = hp_impedance (arizona (soft_state b))" by (simp only: eq)
  then show "hp_impedance (arizona a) = hp_impedance (arizona b)" by (simp add: soft_state_def)
  have "pdata (arizona (soft_state a)) = pdata (arizona (soft_state b))" by (simp only: eq)
  then show "pdata (arizona a) = pdata (arizona b)" by (simp add: soft_state_def)
  have "codec (arizona (soft_state a)) = codec (arizona (soft_state b))" by (simp only: eq)
  then show "codec (arizona a) = codec (arizona b)" by (simp add: soft_state_def)
  have "io (arizona (soft_state a)) = io (arizona (soft_state b))" by (simp only: eq)
  then show "io (arizona a) = io (arizona b)" by (simp add: soft_state_def)
  have "micd_ranges (soft_state a) = micd_ranges (soft_state b)" by (simp only: eq)
  then show "micd_ranges a = micd_ranges b" by (simp add: soft_state_def)
  have "num_micd_ranges (soft_state a) = num_micd_ranges (soft_state b)" by (simp only: eq)
  then show "num_micd_ranges a = num_micd_ranges b" by (simp add: soft_state_def)
  have "micd_modes (soft_state a) = micd_modes (soft_state b)" by (simp only: eq)
  then show "micd_modes a = micd_modes b" by (simp add: soft_state_def)
  have "micd_num_modes (soft_state a) = micd_num_modes (soft_state b)" by (simp only: eq)
  then show "micd_num_modes a = micd_num_modes b" by (simp add: soft_state_def)
  have "micd_mode (soft_state a) = micd_mode (soft_state b)" by (simp only: eq)
  then show "micd_mode a = micd_mode b" by (simp add: soft_state_def)
  have "jack_flips (soft_state a) = jack_flips (soft_state b)" by (simp only: eq)
  then show "jack_flips a = jack_flips b" by (simp add: soft_state_def)
  have "last_jackdet (soft_state a) = last_jackdet (soft_state b)" by (simp only: eq)
  then show "last_jackdet a = last_jackdet b" by (simp add: soft_state_def)
  have "pending (soft_state a) = pending (soft_state b)" by (simp only: eq)
  then show "pending a = pending b" by (simp add: soft_state_def)
  have "micd_reva (soft_state a) = micd_reva (soft_state b)" by (simp only: eq)
  then show "micd_reva a = micd_reva b" by (simp add: soft_state_def)
  have "hpdet_ip (soft_state a) = hpdet_ip (soft_state b)" by (simp only: eq)
  then show "hpdet_ip a = hpdet_ip b" by (simp add: soft_state_def)
qed

lemma stable_fields:
  assumes eq: "stable_state a = stable_state b"
  shows "mic a = mic b"
    "pdata (arizona a) = pdata (arizona b)"
    "codec (arizona a) = codec (arizona b)"
    "io (arizona a) = io (arizona b)"
    "micd_ranges a = micd_ranges b"
    "num_micd_ranges a = num_micd_ranges b"
    "micd_modes a = micd_modes b"
    "micd_num_modes a = micd_num_modes b"
    "micd_mode a = micd_mode b"
    "jack_flips a = jack_flips b"
    "last_jackdet a = last_jackdet b"
    "pending a = pending b"
    "micd_reva a = micd_reva b"
    "hpdet_ip a = hpdet_ip b"
proof -
  have "mic (stable_state a) = mic (stable_state b)" by (simp only: eq)
  then show "mic a = mic b" by (simp add: stable_state_def soft_state_def)
  have "pdata (arizona (stable_state a)) = pdata (arizona (stable_state b))" by (simp only: eq)
  then show "pdata (arizona a) = pdata (arizona b)" by (simp add: stable_state_def soft_state_def)
  have "codec (arizona (stable_state a)) = codec (arizona (stable_state b))" by (simp only: eq)
  then show "codec (arizona a) = codec (arizona b)" by (simp add: stable_state_def soft_state_def)
  have "io (arizona (stable_state a)) = io (arizona (stable_state b))" by (simp only: eq)
  then show "io (arizona a) = io (arizona b)" by (simp add: stable_state_def soft_state_def)
  have "micd_ranges (stable_state a) = micd_ranges (stable_state b)" by (simp only: eq)
  then show "micd_ranges a = micd_ranges b" by (simp add: stable_state_def soft_state_def)
  have "num_micd_ranges (stable_state a) = num_micd_ranges (stable_state b)" by (simp only: eq)
  then show "num_micd_ranges a = num_micd_ranges b" by (simp add: stable_state_def soft_state_def)
  have "micd_modes (stable_state a) = micd_modes (stable_state b)" by (simp only: eq)
  then show "micd_modes a = micd_modes b" by (simp add: stable_state_def soft_state_def)
  have "micd_num_modes (stable_state a) = micd_num_modes (stable_state b)" by (simp only: eq)
  then show "micd_num_modes a = micd_num_modes b" by (simp add: stable_state_def soft_state_def)
  have "micd_mode (stable_state a) = micd_mode (stable_state b)" by (simp only: eq)
  then show "micd_mode a = micd_mode b" by (simp add: stable_state_def soft_state_def)
  have "jack_flips (stable_state a) = jack_flips (stable_state b)" by (simp only: eq)
  then show "jack_flips a = jack_flips b" by (simp add: stable_state_def soft_state_def)
  have "last_jackdet (stable_state a) = last_jackdet (stable_state b)" by (simp only: eq)
  then show "last_jackdet a = last_jackdet b" by (simp add: stable_state_def soft_state_def)
  have "pending (stable_state a) = pending (stable_state b)" by (simp only: eq)
  then show "pending a = pending b" by (simp add: stable_state_def soft_state_def)
  have "micd_reva (stable_state a) = micd_reva (stable_state b)" by (simp only: eq)
  then show "micd_reva a = micd_reva b" by (simp add: stable_state_def soft_state_def)
  have "hpdet_ip (stable_state a) = hpdet_ip (stable_state b)" by (simp only: eq)
  then show "hpdet_ip a = hpdet_ip b" by (simp add: stable_state_def soft_state_def)
qed

lemma soft_stable: "soft_state a = soft_state b \<Longrightarrow> stable_state a = stable_state b"
  by (simp add: stable_state_def)

lemma soft_emit [simp]: "soft_state (emit e i) = soft_state i"
  by (simp add: soft_state_def emit_def)

lemma soft_update_bits [simp]: "soft_state (snd (update_bits i r m v)) = soft_state i"
  by (simp add: soft_state_def update_bits_def regmap_update_bits_def
      regmap_update_bits_check_def Let_def)

lemma soft_update_bits_ignore [simp]: "soft_state (update_bits_ignore i r m v) = soft_state i"
  by (simp add: update_bits_ignore_def)

lemma soft_update_bits_warn [simp]: "soft_state (update_bits_warn i r m v msg) = soft_state i"
  using soft_update_bits [of i r m v]
  by (cases "update_bits i r m v") (simp add: update_bits_warn_def)

lemma soft_write_reg [simp]: "soft_state (snd (write_reg i r v)) = soft_state i"
  by (simp add: soft_state_def write_reg_def regmap_write_def)

lemma soft_write_reg_ignore [simp]: "soft_state (write_reg_ignore i r v) = soft_state i"
  by (simp add: write_reg_ignore_def)

lemma soft_detecting [simp]: "soft_state (i\<lparr>detecting := d\<rparr>) = soft_state i"
  by (simp add: soft_state_def)

lemma soft_hpdet_clamp [simp]:
  "soft_state (i\<lparr>arizona := (arizona i)\<lparr>hpdet_clamp := c\<rparr>\<rparr>) = soft_state i"
  by (simp add: soft_state_def)

lemma soft_hp_clamp [simp]: "soft_state (arizona_extcon_hp_clamp H i c) = soft_state i"
proof -
  obtain msk val where mv:
    "(case codec (arizona i) of
        WM1814 \<Rightarrow> (0, 0)
      | WM8998 \<Rightarrow> (0, 0)
      | WM8280 \<Rightarrow>
          (ARIZONA_HP1L_SHRTO H OR ARIZONA_HP1L_FLWR H OR ARIZONA_HP1L_SHRTI H,
           if c then ARIZONA_HP1L_SHRTO H
           else ARIZONA_HP1L_FLWR H OR ARIZONA_HP1L_SHRTI H)
      | WM5110 \<Rightarrow>
          (ARIZONA_HP1L_SHRTO H OR ARIZONA_HP1L_FLWR H OR ARIZONA_HP1L_SHRTI H,
           if c then ARIZONA_HP1L_SHRTO H
           else ARIZONA_HP1L_FLWR H OR ARIZONA_HP1L_SHRTI H)
      | _ \<Rightarrow> (ARIZONA_RMV_SHRT_HP1L H, if c then ARIZONA_RMV_SHRT_HP1L H else 0)) = (msk, val)"
    by (metis surj_pair)
  show ?thesis
    unfolding arizona_extcon_hp_clamp_def mv Let_def
    by simp
qed

lemma soft_micd_reva_writes [simp]: "soft_state (micd_reva_writes i v) = soft_state i"
  by (simp add: micd_reva_writes_def)

lemma soft_write_patch [simp]: "soft_state (write_patch i p) = soft_state i"
proof (induction i p rule: write_patch.induct)
  case (1 info)
  then show ?case by simp
next
  case (2 info r d patch)
  obtain ret i1 where w: "write_reg info (reg_addr r) d = (ret, i1)" by (cases "write_reg info (reg_addr r) d")
  have s1: "soft_state i1 = soft_state info"
    using soft_write_reg [of info "reg_addr r" d] w by simp
  show ?case using 2 [OF w [symmetric]] w s1 by simp
qed

lemma stable_emit [simp]: "stable_state (emit e i) = stable_state i"
  by (rule soft_stable) simp

lemma stable_update_bits [simp]: "stable_state (snd (update_bits i r m v)) = stable_state i"
  by (rule soft_stable) simp

lemma stable_update_bits_ignore [simp]: "stable_state (update_bits_ignore i r m v) = stable_state i"
  by (rule soft_stable) simp

lemma stable_update_bits_warn [simp]: "stable_state (update_bits_warn i r m v msg) = stable_state i"
  by (rule soft_stable) simp

lemma stable_write_reg [simp]: "stable_state (snd (write_reg i r v)) = stable_state i"
  by (rule soft_stable) simp

lemma stable_write_reg_ignore [simp]: "stable_state (write_reg_ignore i r v) = stable_state i"
  by (rule soft_stable) simp

lemma stable_hp_clamp [simp]: "stable_state (arizona_extcon_hp_clamp H i c) = stable_state i"
  by (rule soft_stable) simp

lemma stable_micd_reva_writes [simp]: "stable_state (micd_reva_writes i v) = stable_state i"
  by (rule soft_stable) simp

lemma stable_write_patch [simp]: "stable_state (write_patch i p) = stable_state i"
  by (rule soft_stable) simp

lemma stable_upd_state [simp]: "stable_state (i\<lparr>state := x\<rparr>) = stable_state i"
  by (simp add: stable_state_def soft_state_def)

lemma stable_upd_edev [simp]: "stable_state (i\<lparr>edev := x\<rparr>) = stable_state i"
  by (simp add: stable_state_def soft_state_def)

lemma stable_upd_hp_imp_level [simp]: "stable_state (i\<lparr>hp_imp_level := x\<rparr>) = stable_state i"
  by (simp add: stable_state_def soft_state_def)

lemma stable_upd_num_hpdet_res [simp]: "stable_state (i\<lparr>num_hpdet_res := x\<rparr>) = stable_state i"
  by (simp add: stable_state_def soft_state_def)

lemma stable_upd_hpdet_res [simp]: "stable_state (i\<lparr>hpdet_res := x\<rparr>) = stable_state i"
  by (simp add: stable_state_def soft_state_def)

lemma stable_upd_hpdet_retried [simp]: "stable_state (i\<lparr>hpdet_retried := x\<rparr>) = stable_state i"
  by (simp add: stable_state_def soft_state_def)

lemma stable_upd_detecting [simp]: "stable_state (i\<lparr>detecting := x\<rparr>) = stable_state i"
  by (simp add: stable_state_def soft_state_def)

lemma stable_upd_hp_impedance [simp]:
  "stable_state (i\<lparr>arizona := (arizona i)\<lparr>hp_impedance := x\<rparr>\<rparr>) = stable_state i"
  by (simp add: stable_state_def soft_state_def)

lemma soft_hpdet_stop [simp]: "soft_state (arizona_hpdet_stop H i) = soft_state i"
  by (simp add: arizona_hpdet_stop_def Let_def)

lemma get_micbias_total: "micd_modes i \<noteq> [] \<Longrightarrow> \<exists>w. arizona_extcon_get_micbias i = Inr w"
  by (simp add: arizona_extcon_get_micbias_def array_get_def)

lemma soft_pulse_micbias:
  "arizona_extcon_pulse_micbias i = Inr i' \<Longrightarrow> soft_state i' = soft_state i"
  by (auto simp: arizona_extcon_pulse_micbias_def Let_def split: sum.splits if_splits)

lemma soft_micd_stop: "arizona_micd_stop H i = Inr i' \<Longrightarrow> soft_state i' = soft_state i"
  by (auto simp: arizona_micd_stop_def Let_def split: sum.splits if_splits)

lemma micd_stop_total: "micd_modes i \<noteq> [] \<Longrightarrow> \<exists>i'. arizona_micd_stop H i = Inr i'"
  using get_micbias_total [of i] by (auto simp: arizona_micd_stop_def Let_def)

lemma soft_micd_mic_stop: "arizona_micd_mic_stop H i = Inr i' \<Longrightarrow> soft_state i' = soft_state i"
  using soft_micd_stop [of H i]
  by (auto simp: arizona_micd_mic_stop_def Let_def split: sum.splits if_splits)

lemma micd_mic_stop_total: "micd_modes i \<noteq> [] \<Longrightarrow> \<exists>i'. arizona_micd_mic_stop H i = Inr i'"
  using micd_stop_total [of i H] by (auto simp: arizona_micd_mic_stop_def Let_def)

lemma soft_acc_id_stop:
  "arizona_hpdet_acc_id_stop H i = Inr i' \<Longrightarrow> soft_state i' = soft_state i"
  by (auto simp: arizona_hpdet_acc_id_stop_def Let_def split: sum.splits if_splits)

lemma acc_id_stop_total: "micd_modes i \<noteq> [] \<Longrightarrow> \<exists>i'. arizona_hpdet_acc_id_stop H i = Inr i'"
  by (simp add: arizona_hpdet_acc_id_stop_def array_get_def Let_def)

lemma soft_jd_stop:
  assumes "custom_keeps C" and "jd_stop H C s i = Inr i'"
  shows "soft_state i' = soft_state i"
proof (cases s)
  case custom_jd
  from assms(1) obtain j where "custom_stop C i = Inr j" "soft_state j = soft_state i"
    unfolding custom_keeps_def by blast
  with assms(2) custom_jd show ?thesis by (simp add: jd_stop_def)
qed (use assms(2) soft_micd_stop soft_micd_mic_stop soft_acc_id_stop in
      \<open>auto simp: jd_stop_def\<close>)

lemma jd_stop_total:
  assumes "custom_keeps C" and "micd_modes i \<noteq> []"
  shows "\<exists>i'. jd_stop H C s i = Inr i'"
proof (cases s)
  case custom_jd
  from assms(1) obtain j where "custom_stop C i = Inr j"
    unfolding custom_keeps_def by blast
  with custom_jd show ?thesis by (simp add: jd_stop_def)
qed (use assms(2) micd_stop_total micd_mic_stop_total acc_id_stop_total in
      \<open>auto simp: jd_stop_def\<close>)

section \<open>Jack removal\<close>

lemma last_report_snoc:
  "last_report (es @ [e]) b = (case e of switch_set_state v \<Rightarrow> Some v | _ \<Rightarrow> last_report es b)"
  by (induction es b rule: last_report.induct) (auto split: event.splits)

lemma reported_emit:
  "reported (emit e i) = (case e of switch_set_state v \<Rightarrow> Some v | _ \<Rightarrow> reported i)"
  by (simp add: reported_def emit_def last_report_snoc split: event.splits)

lemma trace_update_bits [simp]: "trace (snd (update_bits i r m v)) = trace i"
  by (simp add: update_bits_def regmap_update_bits_def regmap_update_bits_check_def Let_def)

lemma trace_update_bits_ignore [simp]: "trace (update_bits_ignore i r m v) = trace i"
  by (simp add: update_bits_ignore_def)

lemma trace_write_reg [simp]: "trace (snd (write_reg i r v)) = trace i"
  by (simp add: write_reg_def regmap_write_def)

lemma trace_write_reg_ignore [simp]: "trace (write_reg_ignore i r v) = trace i"
  by (simp add: write_reg_ignore_def)

lemma reported_cong: "trace a = trace b \<Longrightarrow> reported a = reported b"
  by (simp add: reported_def)

lemma reported_write_patch [simp]: "reported (write_patch i p) = reported i"
proof (induction i p rule: write_patch.induct)
  case (1 info)
  then show ?case by simp
next
  case (2 info r d patch)
  obtain ret i1 where w: "write_reg info (reg_addr r) d = (ret, i1)"
    by (cases "write_reg info (reg_addr r) d")
  have t1: "reported i1 = reported info"
    using trace_write_reg [of info "reg_addr r" d] w by (simp add: reported_def)
  show ?case using 2 [OF w [symmetric]] w t1 by (simp add: reported_emit)
qed

lemma reported_upd_hp_imp_level [simp]: "reported (i\<lparr>hp_imp_level := x\<rparr>) = reported i"
  by (simp add: reported_def)

lemma reported_update_bits_ignore [simp]: "reported (update_bits_ignore i r m v) = reported i"
  by (simp add: reported_def)

lemma reported_write_reg_ignore [simp]: "reported (write_reg_ignore i r v) = reported i"
  by (simp add: reported_def)

lemma reported_tune_headphone [simp]: "reported (tune_headphone H i z) = reported i"
  by (simp add: tune_headphone_def arizona_wm5110_tune_headphone_def
      arizona_wm1814_tune_headphone_def reported_emit split: arizona_type.splits)

lemma stable_wm5110_tune [simp]:
  "stable_state (arizona_wm5110_tune_headphone H i z) = stable_state i"
  by (simp add: arizona_wm5110_tune_headphone_def)

lemma stable_wm1814_tune [simp]:
  "stable_state (arizona_wm1814_tune_headphone i z) = stable_state i"
  by (simp add: arizona_wm1814_tune_headphone_def)

lemma stable_tune_headphone [simp]: "stable_state (tune_headphone H i z) = stable_state i"
  by (simp add: tune_headphone_def split: arizona_type.splits)

lemmas write_patch_fields = soft_fields [OF soft_write_patch]
lemmas update_bits_ignore_fields = soft_fields [OF soft_update_bits_ignore]
lemmas emit_fields = soft_fields [OF soft_emit]

text \<open>What the tuning leaves of the state, and the level it selects for an open circuit.\<close>

lemma tune_headphone_fields:
  "state (tune_headphone H i z) = state i"
  "edev (tune_headphone H i z) = edev i"
  "num_hpdet_res (tune_headphone H i z) = num_hpdet_res i"
  "hpdet_res (tune_headphone H i z) = hpdet_res i"
  "hpdet_retried (tune_headphone H i z) = hpdet_retried i"
  "mic (tune_headphone H i z) = mic i"
  "hp_impedance (arizona (tune_headphone H i z)) = hp_impedance (arizona i)"
  by (simp_all add: tune_headphone_def arizona_wm5110_tune_headphone_def
      arizona_wm1814_tune_headphone_def write_patch_fields update_bits_ignore_fields
      emit_fields split: arizona_type.splits)

lemma tune_headphone_open_circuit:
  assumes "codec (arizona i) = WM5110 \<or> codec (arizona i) = WM1814"
      and "hpdet_short_circuit_imp (pdata (arizona i)) < z" and "15 \<le> z"
  shows "hp_imp_level (tune_headphone H i z) = HP_NORMAL_IMPEDANCE"
  using assms
  by (auto simp: tune_headphone_def arizona_wm5110_tune_headphone_def
      arizona_wm1814_tune_headphone_def write_patch_fields update_bits_ignore_fields
      HP_LOW_IMPEDANCE_LIMIT_def)

lemma last_report_append: "last_report (es @ fs) b = last_report fs (last_report es b)"
  by (induction es b rule: last_report.induct) simp_all

lemma set_state_none:
  assumes ck: "custom_keeps C" and modes: "micd_modes i \<noteq> []"
  shows "\<exists>i'. arizona_jds_set_state H C i None = Inr (0, i') \<and>
              soft_state i' = soft_state (i\<lparr>state := None\<rparr>)"
proof (cases "state i")
  case None
  then have "arizona_jds_set_state H C i None = Inr (0, i)"
    by (subst arizona_jds_set_state.simps) simp
  moreover have "i\<lparr>state := None\<rparr> = i" using None by simp
  ultimately show ?thesis by simp
next
  case (Some old)
  from jd_stop_total [OF ck modes] obtain j where j: "jd_stop H C old i = Inr j" by blast
  have sj: "soft_state j = soft_state i" using soft_jd_stop [OF ck j] .
  have "arizona_jds_set_state H C i None = Inr (0, j\<lparr>state := None\<rparr>)"
    by (subst arizona_jds_set_state.simps) (simp add: Some j)
  moreover have "soft_state (j\<lparr>state := None\<rparr>) = soft_state (i\<lparr>state := None\<rparr>)"
  proof -
    have u: "soft_state (a\<lparr>state := None\<rparr>) = (soft_state a)\<lparr>state := None\<rparr>" for a
      by (simp add: soft_state_def)
    show ?thesis unfolding u sj ..
  qed
  ultimately show ?thesis by blast
qed

subsection \<open>The registers of a headphone patch\<close>

lemma regmap_write_reg:
  "regmap (arizona (snd (write_reg i r v))) r' =
     (if r' = r \<and> wr_ret (io (arizona i)) r = 0 then v else regmap (arizona i) r')"
  by (simp add: write_reg_def regmap_write_def)

lemma regmap_write_patch_other:
  "(\<And>a. r = reg_addr a \<Longrightarrow> a \<notin> fst ` set p) \<Longrightarrow>
   regmap (arizona (write_patch i p)) r = regmap (arizona i) r"
proof (induction i p rule: write_patch.induct)
  case (1 info)
  then show ?case by simp
next
  case (2 info a d patch)
  obtain ret i1 where w: "write_reg info (reg_addr a) d = (ret, i1)"
    by (cases "write_reg info (reg_addr a) d")
  have ne: "r \<noteq> reg_addr a" using "2.prems" [of a] by auto
  have r1: "regmap (arizona i1) r = regmap (arizona info) r"
    using regmap_write_reg [of info "reg_addr a" d r] w ne by simp
  define i2 where "i2 = (if ret \<noteq> 0
      then emit (dev_warn ''Failed to write headphone patch'') i1 else i1)"
  have r2: "regmap (arizona i2) r = regmap (arizona info) r"
    using r1 by (simp add: i2_def emit_def)
  have "regmap (arizona (write_patch i2 patch)) r = regmap (arizona i2) r"
    using "2.IH" [OF w [symmetric]] "2.prems" unfolding i2_def by auto
  then show ?case using w r2 by (simp add: i2_def)
qed

lemma regmap_write_patch:
  assumes "distinct (map fst p)" and "patch_writable p i"
  shows "patch_written p (write_patch i p)"
  using assms
proof (induction i p rule: write_patch.induct)
  case (1 info)
  then show ?case by (simp add: patch_written_def)
next
  case (2 info a d patch)
  obtain ret i1 where w: "write_reg info (reg_addr a) d = (ret, i1)"
    by (cases "write_reg info (reg_addr a) d")
  from "2.prems" have ok: "wr_ret (io (arizona info)) (reg_addr a) = 0"
    and rest: "patch_writable patch info" and na: "a \<notin> fst ` set patch"
    and dist: "distinct (map fst patch)"
    by (simp_all add: patch_writable_def)
  have ret0: "ret = 0" using w ok by (simp add: write_reg_def regmap_write_def)
  have r1: "regmap (arizona i1) (reg_addr a) = d"
    using regmap_write_reg [of info "reg_addr a" d "reg_addr a"] w ok by simp
  have io1: "io (arizona i1) = io (arizona info)"
    using soft_fields(11) [OF soft_write_reg [of info "reg_addr a" d]] w by simp
  have rest1: "patch_writable patch i1" using rest io1 by (simp add: patch_writable_def)
  have eq: "write_patch info ((a, d) # patch) = write_patch i1 patch"
    using w ret0 by simp
  from "2.IH" [OF w [symmetric]] dist rest1 ret0
  have ih: "patch_written patch (write_patch i1 patch)" by simp
  have "regmap (arizona (write_patch i1 patch)) (reg_addr a) = d"
    using regmap_write_patch_other [of "reg_addr a" patch i1] na r1 by auto
  with ih show ?case unfolding eq by (simp add: patch_written_def)
qed

lemma patch_written_cong:
  "(\<And>a. regmap (arizona j) (reg_addr a) = regmap (arizona i) (reg_addr a)) \<Longrightarrow>
   patch_written p j = patch_written p i"
  by (simp add: patch_written_def)

lemma patch_writable_cong:
  "io (arizona j) = io (arizona i) \<Longrightarrow> patch_writable p j = patch_writable p i"
  by (simp add: patch_writable_def)

text \<open>The tuning for an open circuit writes the patch for a normal impedance.\<close>

lemma tune_headphone_wm5110_regs:
  assumes "codec (arizona i) = WM5110" and "hp_imp_level i \<noteq> HP_NORMAL_IMPEDANCE"
      and "hpdet_short_circuit_imp (pdata (arizona i)) < z" and "15 \<le> z"
      and "patch_writable wm5110_normal_impedance_patch i"
      and "wr_ret (io (arizona i)) ARIZONA_HP1_SHORT_CIRCUIT_CTRL = 0"
  shows "patch_written wm5110_normal_impedance_patch (tune_headphone H i z) \<and>
         regmap (arizona (tune_headphone H i z)) ARIZONA_HP1_SHORT_CIRCUIT_CTRL AND
           ARIZONA_HP1_SC_ENA_MASK H = ARIZONA_HP1_SC_ENA_MASK H"
proof -
  define j where "j = update_bits_ignore (i\<lparr>hp_imp_level := HP_NORMAL_IMPEDANCE\<rparr>)
                   ARIZONA_HP1_SHORT_CIRCUIT_CTRL (ARIZONA_HP1_SC_ENA_MASK H)
                   (ARIZONA_HP1_SC_ENA_MASK H)"
  have eq: "tune_headphone H i z = write_patch j wm5110_normal_impedance_patch"
    using assms(1-4)
    by (simp add: tune_headphone_def arizona_wm5110_tune_headphone_def j_def
        HP_LOW_IMPEDANCE_LIMIT_def)
  have ioj: "io (arizona j) = io (arizona i)"
    by (simp add: j_def update_bits_ignore_fields)
  have wj: "patch_writable wm5110_normal_impedance_patch j"
    using assms(5) patch_writable_cong [OF ioj] by simp
  have d: "distinct (map fst wm5110_normal_impedance_patch)"
    by (simp add: wm5110_normal_impedance_patch_def)
  have sc: "regmap (arizona j) ARIZONA_HP1_SHORT_CIRCUIT_CTRL AND ARIZONA_HP1_SC_ENA_MASK H =
            ARIZONA_HP1_SC_ENA_MASK H"
    using assms(6)
    by (simp add: j_def update_bits_ignore_def update_bits_def regmap_update_bits_def
        regmap_update_bits_check_def Let_def)
  have "regmap (arizona (write_patch j wm5110_normal_impedance_patch))
          ARIZONA_HP1_SHORT_CIRCUIT_CTRL = regmap (arizona j) ARIZONA_HP1_SHORT_CIRCUIT_CTRL"
    by (rule regmap_write_patch_other) simp
  with regmap_write_patch [OF d wj] sc show ?thesis unfolding eq by simp
qed

lemma tune_headphone_wm1814_regs:
  assumes "codec (arizona i) = WM1814" and "hp_imp_level i \<noteq> HP_NORMAL_IMPEDANCE"
      and "hpdet_short_circuit_imp (pdata (arizona i)) < z" and "15 \<le> z"
      and "patch_writable wm1814_normal_impedance_patch i"
  shows "patch_written wm1814_normal_impedance_patch (tune_headphone H i z)"
proof -
  define j where "j = i\<lparr>hp_imp_level := HP_NORMAL_IMPEDANCE\<rparr>"
  have eq: "tune_headphone H i z = write_patch j wm1814_normal_impedance_patch"
    using assms(1-4)
    by (simp add: tune_headphone_def arizona_wm1814_tune_headphone_def j_def)
  have wj: "patch_writable wm1814_normal_impedance_patch j"
    using assms(5) by (simp add: j_def patch_writable_def)
  have d: "distinct (map fst wm1814_normal_impedance_patch)"
    by (simp add: wm1814_normal_impedance_patch_def)
  from regmap_write_patch [OF d wj] show ?thesis unfolding eq .
qed


subsection \<open>The removal branch\<close>

lemma jackdet_removal_clears:
  assumes ck: "custom_keeps C" and modes: "micd_modes info \<noteq> []"
      and wf: "num_micd_ranges info = int (length (micd_ranges info))"
  shows "\<exists>i'. jackdet_removal H C info = Inr i' \<and>
           num_hpdet_res i' = 0 \<and> hpdet_res i' = (0, 0, 0) \<and> \<not> mic i' \<and>
           \<not> hpdet_retried i' \<and> hp_impedance (arizona i') = 0 \<and> state i' = None \<and>
           edev i' = BIT_NO_HEADSET \<and> reported i' = Some BIT_NO_HEADSET \<and>
           last_jackdet i' = last_jackdet info \<and>
           ((codec (arizona info) = WM5110 \<or> codec (arizona info) = WM1814) \<and>
            hpdet_short_circuit_imp (pdata (arizona info)) < ARIZONA_HP_Z_OPEN H \<and>
            15 \<le> ARIZONA_HP_Z_OPEN H \<longrightarrow> hp_imp_level i' = HP_NORMAL_IMPEDANCE) \<and>
           (codec (arizona info) = WM5110 \<and> hp_imp_level info \<noteq> HP_NORMAL_IMPEDANCE \<and>
            hpdet_short_circuit_imp (pdata (arizona info)) < ARIZONA_HP_Z_OPEN H \<and>
            15 \<le> ARIZONA_HP_Z_OPEN H \<and>
            patch_writable wm5110_normal_impedance_patch info \<and>
            wr_ret (io (arizona info)) ARIZONA_HP1_SHORT_CIRCUIT_CTRL = 0 \<longrightarrow>
              patch_written wm5110_normal_impedance_patch i' \<and>
              regmap (arizona i') ARIZONA_HP1_SHORT_CIRCUIT_CTRL AND
                ARIZONA_HP1_SC_ENA_MASK H = ARIZONA_HP1_SC_ENA_MASK H) \<and>
           (codec (arizona info) = WM1814 \<and> hp_imp_level info \<noteq> HP_NORMAL_IMPEDANCE \<and>
            hpdet_short_circuit_imp (pdata (arizona info)) < ARIZONA_HP_Z_OPEN H \<and>
            15 \<le> ARIZONA_HP_Z_OPEN H \<and>
            patch_writable wm1814_normal_impedance_patch info \<longrightarrow>
              patch_written wm1814_normal_impedance_patch i')"
proof -
  define i2 where "i2 = (emit (dev_info ''Detected jack removal'') info)
      \<lparr>num_hpdet_res := 0, hpdet_res := (0, 0, 0), mic := False, hpdet_retried := False,
       arizona := (arizona (emit (dev_info ''Detected jack removal'') info))\<lparr>hp_impedance := 0\<rparr>\<rparr>"
  have m2: "micd_modes i2 \<noteq> []" using modes by (simp add: i2_def emit_def)
  from set_state_none [OF ck m2] obtain i3 where
    s3: "arizona_jds_set_state H C i2 None = Inr (0, i3)" and
    e3: "soft_state i3 = soft_state (i2\<lparr>state := None\<rparr>)" by blast
  note f3 = soft_fields [OF e3]
  have wf3: "num_micd_ranges i3 = int (length (micd_ranges i3))"
    using wf f3(12,13) by (simp add: i2_def emit_def)
  define i4 where "i4 = i3\<lparr>trace := trace i3 @ release_events i3\<rparr>"
  have r4: "report_keys_released i3 0 = Inr i4"
    unfolding i4_def by (rule report_keys_released_all [OF wf3])
  define i5 where "i5 = arizona_extcon_report (emit input_sync i4) BIT_NO_HEADSET"
  define i6 where "i6 = update_bits_ignore i5 ARIZONA_JACK_DETECT_DEBOUNCE
                             (ARIZONA_MICD_CLAMP_DB H OR ARIZONA_JD1_DB H)
                             (ARIZONA_MICD_CLAMP_DB H OR ARIZONA_JD1_DB H)"
  define i7 where "i7 = tune_headphone H i6 (ARIZONA_HP_Z_OPEN H)"
  define i8 where "i8 = (if has_hpdet_cb (pdata (arizona i7))
                            then emit (hpdet_cb (ARIZONA_HP_Z_OPEN H)) i7 else i7)"
  define i9 where "i9 = (if has_micd_cb (pdata (arizona i8)) then emit (micd_cb False) i8 else i8)"
  have res: "jackdet_removal H C info = Inr i9"
    unfolding jackdet_removal_def Let_def i2_def [symmetric] s3
    by (simp add: r4 i9_def i8_def i7_def i6_def i5_def)
  have p5: "num_hpdet_res i5 = 0" "hpdet_res i5 = (0, 0, 0)" "\<not> mic i5" "\<not> hpdet_retried i5"
      "hp_impedance (arizona i5) = 0" "state i5 = None" "edev i5 = BIT_NO_HEADSET"
      "reported i5 = Some BIT_NO_HEADSET" "last_jackdet i5 = last_jackdet info"
      "codec (arizona i5) = codec (arizona info)" "pdata (arizona i5) = pdata (arizona info)"
    using f3
    by (simp_all add: i5_def i4_def arizona_extcon_report_def emit_def i2_def reported_def
        last_report_append)
  have p6: "num_hpdet_res i6 = 0" "hpdet_res i6 = (0, 0, 0)" "\<not> mic i6" "\<not> hpdet_retried i6"
      "hp_impedance (arizona i6) = 0" "state i6 = None" "edev i6 = BIT_NO_HEADSET"
      "reported i6 = Some BIT_NO_HEADSET" "last_jackdet i6 = last_jackdet info"
      "codec (arizona i6) = codec (arizona info)" "pdata (arizona i6) = pdata (arizona info)"
    using p5 by (simp_all add: i6_def update_bits_ignore_fields)
  have q6: "hp_imp_level i6 = hp_imp_level info" "io (arizona i6) = io (arizona info)"
    using f3(3,11)
    by (simp_all add: i6_def update_bits_ignore_fields i5_def i4_def arizona_extcon_report_def
        emit_def i2_def)
  have w6: "patch_writable p i6 = patch_writable p info" for p
    using q6(2) by (rule patch_writable_cong)
  have g7: "codec (arizona info) = WM5110 \<and> hp_imp_level info \<noteq> HP_NORMAL_IMPEDANCE \<and>
            hpdet_short_circuit_imp (pdata (arizona info)) < ARIZONA_HP_Z_OPEN H \<and>
            15 \<le> ARIZONA_HP_Z_OPEN H \<and>
            patch_writable wm5110_normal_impedance_patch info \<and>
            wr_ret (io (arizona info)) ARIZONA_HP1_SHORT_CIRCUIT_CTRL = 0 \<longrightarrow>
              patch_written wm5110_normal_impedance_patch i7 \<and>
              regmap (arizona i7) ARIZONA_HP1_SHORT_CIRCUIT_CTRL AND
                ARIZONA_HP1_SC_ENA_MASK H = ARIZONA_HP1_SC_ENA_MASK H"
    using tune_headphone_wm5110_regs [of i6 "ARIZONA_HP_Z_OPEN H" H] p6(10,11) q6 w6
    by (simp add: i7_def)
  have h7: "codec (arizona info) = WM1814 \<and> hp_imp_level info \<noteq> HP_NORMAL_IMPEDANCE \<and>
            hpdet_short_circuit_imp (pdata (arizona info)) < ARIZONA_HP_Z_OPEN H \<and>
            15 \<le> ARIZONA_HP_Z_OPEN H \<and>
            patch_writable wm1814_normal_impedance_patch info \<longrightarrow>
              patch_written wm1814_normal_impedance_patch i7"
    using tune_headphone_wm1814_regs [of i6 "ARIZONA_HP_Z_OPEN H" H] p6(10,11) q6 w6
    by (simp add: i7_def)
  have r9: "regmap (arizona i9) = regmap (arizona i7)"
    by (simp add: i9_def i8_def emit_def)
  have pw9: "patch_written p i9 = patch_written p i7" for p
    by (rule patch_written_cong) (simp add: r9)
  have s7: "stable_state i7 = stable_state i6" by (simp add: i7_def)
  have p7: "num_hpdet_res i7 = 0" "hpdet_res i7 = (0, 0, 0)" "\<not> mic i7" "\<not> hpdet_retried i7"
      "hp_impedance (arizona i7) = 0" "state i7 = None" "edev i7 = BIT_NO_HEADSET"
      "reported i7 = Some BIT_NO_HEADSET" "last_jackdet i7 = last_jackdet info"
    using p6 stable_fields(11) [OF s7] by (simp_all add: i7_def tune_headphone_fields)
  have t7: "(codec (arizona info) = WM5110 \<or> codec (arizona info) = WM1814) \<and>
            hpdet_short_circuit_imp (pdata (arizona info)) < ARIZONA_HP_Z_OPEN H \<and>
            15 \<le> ARIZONA_HP_Z_OPEN H \<longrightarrow> hp_imp_level i7 = HP_NORMAL_IMPEDANCE"
    using tune_headphone_open_circuit [of i6 "ARIZONA_HP_Z_OPEN H" H] p6(10,11)
    by (simp add: i7_def)
  have p9: "num_hpdet_res i9 = 0" "hpdet_res i9 = (0, 0, 0)" "\<not> mic i9" "\<not> hpdet_retried i9"
      "hp_impedance (arizona i9) = 0" "state i9 = None" "edev i9 = BIT_NO_HEADSET"
      "reported i9 = Some BIT_NO_HEADSET" "last_jackdet i9 = last_jackdet info"
      "hp_imp_level i9 = hp_imp_level i7"
    using p7 by (simp_all add: i9_def i8_def emit_fields reported_emit)
  show ?thesis using res p9 t7 g7 h7 pw9 r9 by simp
qed

lemma jackdet_read_ok:
  assumes rd: "rd_ret (io (arizona info)) ARIZONA_AOD_IRQ_RAW_STATUS = 0"
  shows "arizona_jackdet H C info =
     (if jackdet_raw H info = ucast (last_jackdet info) then
        Inr (jackdet_out H
               (let i1 = (if pending info hpdet_work \<noteq> None
                          then schedule_work (jackdet_entry info) hpdet_work HPDET_DEBOUNCE
                          else jackdet_entry info)
                in if pending info state_timeout_work \<noteq> None
                   then arizona_jds_start_timeout H C i1 else i1))
      else
        (case (if ucast (ucast (jackdet_raw H info) :: u16) = jackdet_present H info
               then jackdet_insert H C
                      ((jackdet_entry info)\<lparr>last_jackdet := ucast (jackdet_raw H info)\<rparr>)
               else jackdet_removal H C
                      ((jackdet_entry info)\<lparr>last_jackdet := ucast (jackdet_raw H info)\<rparr>)) of
           Inl f \<Rightarrow> Inl f
         | Inr i2 \<Rightarrow> Inr (jackdet_out H i2)))"
  using rd
  by (simp add: arizona_jackdet_def cancel_work_def arizona_jds_cancel_timeout_def
      jackdet_entry_def jackdet_raw_def jackdet_mask_def jackdet_present_def regmap_read_def
      emit_def Let_def)

lemma jackdet_out_fields:
  "fst (jackdet_out H i) = IRQ_HANDLED"
  "soft_state (snd (jackdet_out H i)) = soft_state i"
  "reported (snd (jackdet_out H i)) = reported i"
  by (simp_all add: jackdet_out_def reported_emit)

lemma regmap_jackdet_out:
  "r \<noteq> ARIZONA_AOD_WKUP_AND_TRIG \<Longrightarrow>
   regmap (arizona (snd (jackdet_out H i))) r = regmap (arizona i) r"
  by (simp add: jackdet_out_def emit_def write_reg_ignore_def regmap_write_reg)

lemma jackdet_entry_fields:
  "micd_modes (jackdet_entry i) = micd_modes i"
  "micd_ranges (jackdet_entry i) = micd_ranges i"
  "num_micd_ranges (jackdet_entry i) = num_micd_ranges i"
  "codec (arizona (jackdet_entry i)) = codec (arizona i)"
  "pdata (arizona (jackdet_entry i)) = pdata (arizona i)"
  "io (arizona (jackdet_entry i)) = io (arizona i)"
  "state (jackdet_entry i) = state i"
  "edev (jackdet_entry i) = edev i"
  "hp_imp_level (jackdet_entry i) = hp_imp_level i"
  by (simp_all add: jackdet_entry_def cancel_work_def arizona_jds_cancel_timeout_def emit_def)

text \<open>
  Claim C7. A run of \<^verbatim>\<open>arizona_jackdet\<close> that reads a new pattern which is not the one of
  a present jack returns with the accumulators of the session cleared (the count and
  the readings of the accessory identification, the microphone flag, the retried flag,
  the stored impedance), with no active detection state, and with "no headset" as the
  state of the switch device and as the last classification reported to it. On the
  codecs that have a tuning (WM5110 and WM1814, with \<^verbatim>\<open>ARIZONA_HP_Z_OPEN\<close> above the short
  circuit threshold and the low impedance limit) the tuning level is the one for a
  normal impedance, which is the one of an open circuit; and when the level was another
  before and the writes succeed, every register of the patch for a normal impedance
  holds the value of the patch, and on the WM5110 the short circuit protection is
  enabled.
\<close>

theorem jack_removal_clears_session:
  assumes ck: "custom_keeps C" and modes: "micd_modes info \<noteq> []"
      and wf: "num_micd_ranges info = int (length (micd_ranges info))"
      and rd: "rd_ret (io (arizona info)) ARIZONA_AOD_IRQ_RAW_STATUS = 0"
      and new: "jackdet_raw H info \<noteq> ucast (last_jackdet info)"
      and gone: "(ucast (ucast (jackdet_raw H info) :: u16) :: u32) \<noteq> jackdet_present H info"
  shows "\<exists>i'. arizona_jackdet H C info = Inr (IRQ_HANDLED, i') \<and>
           num_hpdet_res i' = 0 \<and> hpdet_res i' = (0, 0, 0) \<and> \<not> mic i' \<and>
           \<not> hpdet_retried i' \<and> hp_impedance (arizona i') = 0 \<and> state i' = None \<and>
           edev i' = BIT_NO_HEADSET \<and> reported i' = Some BIT_NO_HEADSET \<and>
           ((codec (arizona info) = WM5110 \<or> codec (arizona info) = WM1814) \<and>
            hpdet_short_circuit_imp (pdata (arizona info)) < ARIZONA_HP_Z_OPEN H \<and>
            15 \<le> ARIZONA_HP_Z_OPEN H \<longrightarrow> hp_imp_level i' = HP_NORMAL_IMPEDANCE) \<and>
           (codec (arizona info) = WM5110 \<and> hp_imp_level info \<noteq> HP_NORMAL_IMPEDANCE \<and>
            hpdet_short_circuit_imp (pdata (arizona info)) < ARIZONA_HP_Z_OPEN H \<and>
            15 \<le> ARIZONA_HP_Z_OPEN H \<and>
            patch_writable wm5110_normal_impedance_patch info \<and>
            wr_ret (io (arizona info)) ARIZONA_HP1_SHORT_CIRCUIT_CTRL = 0 \<longrightarrow>
              patch_written wm5110_normal_impedance_patch i' \<and>
              regmap (arizona i') ARIZONA_HP1_SHORT_CIRCUIT_CTRL AND
                ARIZONA_HP1_SC_ENA_MASK H = ARIZONA_HP1_SC_ENA_MASK H) \<and>
           (codec (arizona info) = WM1814 \<and> hp_imp_level info \<noteq> HP_NORMAL_IMPEDANCE \<and>
            hpdet_short_circuit_imp (pdata (arizona info)) < ARIZONA_HP_Z_OPEN H \<and>
            15 \<le> ARIZONA_HP_Z_OPEN H \<and>
            patch_writable wm1814_normal_impedance_patch info \<longrightarrow>
              patch_written wm1814_normal_impedance_patch i')"
proof -
  define i1 where "i1 = (jackdet_entry info)\<lparr>last_jackdet := ucast (jackdet_raw H info)\<rparr>"
  have m1: "micd_modes i1 \<noteq> []" using modes by (simp add: i1_def jackdet_entry_fields)
  have w1: "num_micd_ranges i1 = int (length (micd_ranges i1))"
    using wf by (simp add: i1_def jackdet_entry_fields)
  have c1: "codec (arizona i1) = codec (arizona info)" "pdata (arizona i1) = pdata (arizona info)"
      "hp_imp_level i1 = hp_imp_level info" "io (arizona i1) = io (arizona info)"
    by (simp_all add: i1_def jackdet_entry_fields)
  have pw1: "patch_writable p i1 = patch_writable p info" for p
    using c1(4) by (rule patch_writable_cong)
  from jackdet_removal_clears [OF ck m1 w1, of H] obtain i2 where
    r0: "jackdet_removal H C i1 = Inr i2 \<and>
       num_hpdet_res i2 = 0 \<and> hpdet_res i2 = (0, 0, 0) \<and> \<not> mic i2 \<and> \<not> hpdet_retried i2 \<and>
       hp_impedance (arizona i2) = 0 \<and> state i2 = None \<and> edev i2 = BIT_NO_HEADSET \<and>
       reported i2 = Some BIT_NO_HEADSET \<and> last_jackdet i2 = last_jackdet i1 \<and>
       ((codec (arizona info) = WM5110 \<or> codec (arizona info) = WM1814) \<and>
          hpdet_short_circuit_imp (pdata (arizona info)) < ARIZONA_HP_Z_OPEN H \<and>
          15 \<le> ARIZONA_HP_Z_OPEN H \<longrightarrow> hp_imp_level i2 = HP_NORMAL_IMPEDANCE) \<and>
       (codec (arizona info) = WM5110 \<and> hp_imp_level info \<noteq> HP_NORMAL_IMPEDANCE \<and>
            hpdet_short_circuit_imp (pdata (arizona info)) < ARIZONA_HP_Z_OPEN H \<and>
            15 \<le> ARIZONA_HP_Z_OPEN H \<and>
            patch_writable wm5110_normal_impedance_patch info \<and>
            wr_ret (io (arizona info)) ARIZONA_HP1_SHORT_CIRCUIT_CTRL = 0 \<longrightarrow>
              patch_written wm5110_normal_impedance_patch i2 \<and>
              regmap (arizona i2) ARIZONA_HP1_SHORT_CIRCUIT_CTRL AND
                ARIZONA_HP1_SC_ENA_MASK H = ARIZONA_HP1_SC_ENA_MASK H) \<and>
       (codec (arizona info) = WM1814 \<and> hp_imp_level info \<noteq> HP_NORMAL_IMPEDANCE \<and>
            hpdet_short_circuit_imp (pdata (arizona info)) < ARIZONA_HP_Z_OPEN H \<and>
            15 \<le> ARIZONA_HP_Z_OPEN H \<and>
            patch_writable wm1814_normal_impedance_patch info \<longrightarrow>
              patch_written wm1814_normal_impedance_patch i2)"
    unfolding c1 pw1 ..
  then have r: "jackdet_removal H C i1 = Inr i2" by simp
  obtain i3 where o: "jackdet_out H i2 = (IRQ_HANDLED, i3)"
    using jackdet_out_fields(1) [of H i2] by (cases "jackdet_out H i2") simp
  have s3: "soft_state i3 = soft_state i2" "reported i3 = reported i2"
    using jackdet_out_fields(2,3) [of H i2] o by simp_all
  note f = soft_fields [OF s3(1)]
  have rg: "r \<noteq> ARIZONA_AOD_WKUP_AND_TRIG \<Longrightarrow>
            regmap (arizona i3) r = regmap (arizona i2) r" for r
    using regmap_jackdet_out [of r H i2] o by simp
  have pw3: "patch_written p i3 = patch_written p i2" for p
    by (rule patch_written_cong) (simp add: rg)
  have sc3: "regmap (arizona i3) ARIZONA_HP1_SHORT_CIRCUIT_CTRL =
             regmap (arizona i2) ARIZONA_HP1_SHORT_CIRCUIT_CTRL"
    by (simp add: rg)
  have res: "arizona_jackdet H C info = Inr (IRQ_HANDLED, i3)"
    using new gone by (simp add: jackdet_read_ok [OF rd] i1_def [symmetric] r o)
  show ?thesis
    using res r0 f(1-8) s3(2) pw3 sc3
    by (intro exI [of _ i3]) simp
qed

lemma example_custom_keeps: "custom_keeps example_custom"
  by (simp add: custom_keeps_def example_custom_def)

lemmas removal_defs = removal_info_def example_info_def example_arizona_def example_pdata_def
  example_io_def example_hdr_def

theorem jack_removal_clears_session_witness:
  "custom_keeps example_custom \<and> micd_modes removal_info \<noteq> [] \<and>
   num_micd_ranges removal_info = int (length (micd_ranges removal_info)) \<and>
   rd_ret (io (arizona removal_info)) ARIZONA_AOD_IRQ_RAW_STATUS = 0 \<and>
   jackdet_raw example_hdr removal_info \<noteq> ucast (last_jackdet removal_info) \<and>
   (ucast (ucast (jackdet_raw example_hdr removal_info) :: u16) :: u32) \<noteq>
     jackdet_present example_hdr removal_info \<and>
   num_hpdet_res removal_info = 2 \<and> mic removal_info \<and> hpdet_retried removal_info \<and>
   hp_impedance (arizona removal_info) = 32 \<and> hp_imp_level removal_info = HP_LOW_IMPEDANCE \<and>
   codec (arizona removal_info) = WM5110 \<and>
   patch_writable wm5110_normal_impedance_patch removal_info \<and>
   wr_ret (io (arizona removal_info)) ARIZONA_HP1_SHORT_CIRCUIT_CTRL = 0 \<and>
   regmap (arizona removal_info) (reg_addr 0x460) = 0 \<and>
   (\<exists>i'. arizona_jackdet example_hdr example_custom removal_info = Inr (IRQ_HANDLED, i') \<and>
      num_hpdet_res i' = 0 \<and> hpdet_res i' = (0, 0, 0) \<and> \<not> mic i' \<and>
      \<not> hpdet_retried i' \<and> hp_impedance (arizona i') = 0 \<and> state i' = None \<and>
      edev i' = BIT_NO_HEADSET \<and> reported i' = Some BIT_NO_HEADSET \<and>
      hp_imp_level i' = HP_NORMAL_IMPEDANCE \<and>
      patch_written wm5110_normal_impedance_patch i' \<and>
      regmap (arizona i') (reg_addr 0x460) = 0x0C40 \<and>
      regmap (arizona i') (reg_addr 0x464) = 0x0842 \<and>
      regmap (arizona i') (reg_addr 0x483) = 0x0021 \<and>
      regmap (arizona i') ARIZONA_HP1_SHORT_CIRCUIT_CTRL AND 0x1000 = 0x1000)"
proof -
  have a: "micd_modes removal_info \<noteq> []"
    by (simp add: removal_defs micd_default_modes_def)
  have b: "num_micd_ranges removal_info = int (length (micd_ranges removal_info))"
    by (simp add: removal_defs micd_default_ranges_def)
  have c: "rd_ret (io (arizona removal_info)) ARIZONA_AOD_IRQ_RAW_STATUS = 0"
    by (simp add: removal_defs)
  have d: "jackdet_raw example_hdr removal_info \<noteq> ucast (last_jackdet removal_info)"
    by (simp add: removal_defs jackdet_raw_def jackdet_mask_def)
  have e: "(ucast (ucast (jackdet_raw example_hdr removal_info) :: u16) :: u32) \<noteq>
     jackdet_present example_hdr removal_info"
    by (simp add: removal_defs jackdet_raw_def jackdet_mask_def jackdet_present_def)
  have f: "num_hpdet_res removal_info = 2" "mic removal_info" "hpdet_retried removal_info"
    "hp_impedance (arizona removal_info) = 32" "hp_imp_level removal_info = HP_LOW_IMPEDANCE"
    "codec (arizona removal_info) = WM5110"
    "wr_ret (io (arizona removal_info)) ARIZONA_HP1_SHORT_CIRCUIT_CTRL = 0"
    "regmap (arizona removal_info) (reg_addr 0x460) = 0"
    by (simp_all add: removal_defs)
  have pw: "patch_writable wm5110_normal_impedance_patch removal_info"
    by (simp add: patch_writable_def list_all_iff removal_defs)
  have g: "hpdet_short_circuit_imp (pdata (arizona removal_info)) < ARIZONA_HP_Z_OPEN example_hdr"
      "15 \<le> ARIZONA_HP_Z_OPEN example_hdr"
      "hp_imp_level removal_info \<noteq> HP_NORMAL_IMPEDANCE"
      "ARIZONA_HP1_SC_ENA_MASK example_hdr = 0x1000"
    by (simp_all add: removal_defs HP_LOW_IMPEDANCE_def HP_NORMAL_IMPEDANCE_def)
  from jack_removal_clears_session [OF example_custom_keeps a b c d e]
  obtain i' where r: "arizona_jackdet example_hdr example_custom removal_info =
        Inr (IRQ_HANDLED, i') \<and>
      num_hpdet_res i' = 0 \<and> hpdet_res i' = (0, 0, 0) \<and> \<not> mic i' \<and>
      \<not> hpdet_retried i' \<and> hp_impedance (arizona i') = 0 \<and> state i' = None \<and>
      edev i' = BIT_NO_HEADSET \<and> reported i' = Some BIT_NO_HEADSET \<and>
      hp_imp_level i' = HP_NORMAL_IMPEDANCE \<and>
      patch_written wm5110_normal_impedance_patch i' \<and>
      regmap (arizona i') ARIZONA_HP1_SHORT_CIRCUIT_CTRL AND 0x1000 = 0x1000"
    using f(6,7) pw g by auto
  then have w: "patch_written wm5110_normal_impedance_patch i'" by simp
  have v: "regmap (arizona i') (reg_addr 0x460) = 0x0C40"
      "regmap (arizona i') (reg_addr 0x464) = 0x0842"
      "regmap (arizona i') (reg_addr 0x483) = 0x0021"
    using w by (simp_all add: patch_written_def wm5110_normal_impedance_patch_def)
  have "arizona_jackdet example_hdr example_custom removal_info = Inr (IRQ_HANDLED, i') \<and>
      num_hpdet_res i' = 0 \<and> hpdet_res i' = (0, 0, 0) \<and> \<not> mic i' \<and>
      \<not> hpdet_retried i' \<and> hp_impedance (arizona i') = 0 \<and> state i' = None \<and>
      edev i' = BIT_NO_HEADSET \<and> reported i' = Some BIT_NO_HEADSET \<and>
      hp_imp_level i' = HP_NORMAL_IMPEDANCE \<and>
      patch_written wm5110_normal_impedance_patch i' \<and>
      regmap (arizona i') (reg_addr 0x460) = 0x0C40 \<and>
      regmap (arizona i') (reg_addr 0x464) = 0x0842 \<and>
      regmap (arizona i') (reg_addr 0x483) = 0x0021 \<and>
      regmap (arizona i') ARIZONA_HP1_SHORT_CIRCUIT_CTRL AND 0x1000 = 0x1000"
    using r v by simp
  then have x: "\<exists>i'. arizona_jackdet example_hdr example_custom removal_info =
        Inr (IRQ_HANDLED, i') \<and>
      num_hpdet_res i' = 0 \<and> hpdet_res i' = (0, 0, 0) \<and> \<not> mic i' \<and>
      \<not> hpdet_retried i' \<and> hp_impedance (arizona i') = 0 \<and> state i' = None \<and>
      edev i' = BIT_NO_HEADSET \<and> reported i' = Some BIT_NO_HEADSET \<and>
      hp_imp_level i' = HP_NORMAL_IMPEDANCE \<and>
      patch_written wm5110_normal_impedance_patch i' \<and>
      regmap (arizona i') (reg_addr 0x460) = 0x0C40 \<and>
      regmap (arizona i') (reg_addr 0x464) = 0x0842 \<and>
      regmap (arizona i') (reg_addr 0x483) = 0x0021 \<and>
      regmap (arizona i') ARIZONA_HP1_SHORT_CIRCUIT_CTRL AND 0x1000 = 0x1000"
    by (rule exI)
  from example_custom_keeps a b c d e f pw x show ?thesis by (intro conjI)
qed

section \<open>What a change of the detection state leaves unchanged\<close>

lemma stable_report [simp]: "stable_state (arizona_extcon_report i st) = stable_state i"
  by (simp add: arizona_extcon_report_def)

lemma stable_hpdet_start:
  assumes "arizona_hpdet_start H C i = Inr (r, i')"
  shows "stable_state i' = stable_state i"
proof (cases "fixed_hpdet_imp (pdata (arizona i)) \<noteq> 0")
  case True
  have c: "codec (arizona (emit e i)) = codec (arizona i)" for e
    by (simp add: emit_def)
  from True assms show ?thesis
    by (auto simp: arizona_hpdet_start_def Let_def c split: arizona_type.splits if_splits)
next
  case False
  define i1 where "i1 = arizona_extcon_hp_clamp H (emit pm_runtime_get_sync i) True"
  have s1: "stable_state i1 = stable_state i" by (simp add: i1_def)
  show ?thesis
  proof (cases "state i1")
    case None
    with False assms show ?thesis
      by (simp add: arizona_hpdet_start_def Let_def i1_def [symmetric])
  next
    case (Some s)
    obtain ret2 i2 where u2: "update_bits i1 ARIZONA_ACCESSORY_DETECT_MODE_1
        (ARIZONA_ACCDET_MODE_MASK H) (word_of_int (jd_mode C s)) = (ret2, i2)"
      by (cases "update_bits i1 ARIZONA_ACCESSORY_DETECT_MODE_1
        (ARIZONA_ACCDET_MODE_MASK H) (word_of_int (jd_mode C s))")
    have s2: "stable_state i2 = stable_state i"
      using stable_update_bits [of i1 ARIZONA_ACCESSORY_DETECT_MODE_1
          "ARIZONA_ACCDET_MODE_MASK H" "word_of_int (jd_mode C s)"] u2 s1 by simp
    obtain ret3 i3 where u3: "update_bits i2 ARIZONA_HEADPHONE_DETECT_1 (ARIZONA_HP_POLL H)
        (ARIZONA_HP_POLL H) = (ret3, i3)"
      by (cases "update_bits i2 ARIZONA_HEADPHONE_DETECT_1 (ARIZONA_HP_POLL H)
        (ARIZONA_HP_POLL H)")
    have s3: "stable_state i3 = stable_state i"
      using stable_update_bits [of i2 ARIZONA_HEADPHONE_DETECT_1 "ARIZONA_HP_POLL H"
          "ARIZONA_HP_POLL H"] u3 s2 by simp
    from False assms Some s2 s3 show ?thesis
      by (auto simp: arizona_hpdet_start_def Let_def i1_def [symmetric] u2 u3
          hpdet_start_err_def split: if_splits)
  qed
qed

lemma stable_moisture_start:
  "arizona_hpdet_moisture_start H C i = Inr (r, i') \<Longrightarrow> stable_state i' = stable_state i"
  using stable_hpdet_start [of H C i]
  by (auto simp: arizona_hpdet_moisture_start_def split: sum.splits)

lemma stable_micd_start:
  assumes "arizona_micd_start H C i = Inr (r, i')"
  shows "stable_state i' = stable_state i"
proof -
  define i3 where "i3 =
    (let i1 = emit regulator_enable (emit pm_runtime_get_sync i);
         i2 = (if regulator_enable_ret (io (arizona i1)) \<noteq> 0
               then emit (dev_err ''Failed to enable MICVDD'') i1 else i1)
     in if micd_reva i2 then micd_reva_writes i2 0 else i2)"
  have s3: "stable_state i3 = stable_state i" by (simp add: i3_def Let_def)
  from assms obtain s where st: "state i3 = Some s"
    by (cases "state i3") (simp_all add: arizona_micd_start_def Let_def i3_def)
  define i4 where "i4 = update_bits_ignore i3 ARIZONA_ACCESSORY_DETECT_MODE_1
      (ARIZONA_ACCDET_MODE_MASK H)
      (word_of_int (if detecting i3 \<and> micd_software_compare (pdata (arizona i3))
                    then ARIZONA_ACCDET_MODE_ADC else jd_mode C s))"
  have s4: "stable_state i4 = stable_state i" using s3 by (simp add: i4_def)
  have eq: "arizona_micd_start H C i =
      (case arizona_extcon_pulse_micbias i4 of
         Inl f \<Rightarrow> Inl f
       | Inr i5 \<Rightarrow> Inr (0, update_bits_ignore i5 ARIZONA_MIC_DETECT_1 (ARIZONA_MICD_ENA H)
                           (ARIZONA_MICD_ENA H)))"
    using st by (simp add: arizona_micd_start_def Let_def i3_def i4_def)
  from assms obtain i5 where p: "arizona_extcon_pulse_micbias i4 = Inr i5"
      and r: "i' = update_bits_ignore i5 ARIZONA_MIC_DETECT_1 (ARIZONA_MICD_ENA H)
                           (ARIZONA_MICD_ENA H)"
    unfolding eq by (auto split: sum.splits)
  have "stable_state i5 = stable_state i4"
    using soft_pulse_micbias [OF p] by (rule soft_stable)
  then show ?thesis using r s4 by simp
qed

lemma stable_micd_mic_start:
  "arizona_micd_mic_start H C i = Inr (r, i') \<Longrightarrow> stable_state i' = stable_state i"
  using stable_micd_start [of H C _ r i']
  by (auto simp: arizona_micd_mic_start_def Let_def split: if_splits)


lemma stable_resultI:
  "(\<And>r i'. res = Inr (r, i') \<Longrightarrow> stable_state i' = stable_state i) \<Longrightarrow> stable_result res i"
  by (auto simp: stable_result_def split: sum.splits)

lemma stable_resultD:
  "stable_result res i \<Longrightarrow> res = Inr (r, i') \<Longrightarrow> stable_state i' = stable_state i"
  by (simp add: stable_result_def)

lemma stable_result_cong:
  "stable_result res j \<Longrightarrow> stable_state j = stable_state i \<Longrightarrow> stable_result res i"
  by (auto simp: stable_result_def split: sum.splits)

lemma custom_start_stable: "custom_keeps C \<Longrightarrow> stable_result (custom_start C i) i"
  by (simp add: custom_keeps_def stable_result_def)

lemma set_state_stable_all:
  "custom_keeps C \<longrightarrow> stable_result (arizona_jds_set_state H C info ns) info"
  "custom_keeps C \<longrightarrow> stable_result (jd_start H C s info1) info1"
  "custom_keeps C \<longrightarrow> stable_result (arizona_hpdet_acc_id_start H C info2) info2"
  "custom_keeps C \<longrightarrow> stable_result (arizona_hpdet_acc_id_reading H C info3 rd) info3"
proof (induction H C info ns and H C s info1 and H C info2 and H C info3 rd
    rule: arizona_jds_set_state_jd_start_arizona_hpdet_acc_id_start_arizona_hpdet_acc_id_reading.induct)
  case (1 H C info new_state)
  show ?case
  proof (intro impI stable_resultI)
    fix r i'
    assume ck: "custom_keeps C"
       and res: "arizona_jds_set_state H C info new_state = Inr (r, i')"
    show "stable_state i' = stable_state info"
    proof (cases "new_state = state info")
      case True
      with res show ?thesis by (subst (asm) arizona_jds_set_state.simps) simp
    next
      case False
      from res False obtain i1 where
        st: "(case state info of None \<Rightarrow> Inr info | Some old \<Rightarrow> jd_stop H C old info) = Inr i1"
        by (subst (asm) arizona_jds_set_state.simps) (auto split: sum.splits)
      have s1: "stable_state i1 = stable_state info"
      proof (cases "state info")
        case None
        with st show ?thesis by simp
      next
        case (Some old)
        with st have "jd_stop H C old info = Inr i1" by simp
        from soft_jd_stop [OF ck this] show ?thesis by (rule soft_stable)
      qed
      show ?thesis
      proof (cases new_state)
        case None
        with res False st have "i' = i1\<lparr>state := None\<rparr>"
          by (subst (asm) arizona_jds_set_state.simps) simp
        then show ?thesis using s1 by simp
      next
        case (Some s)
        from res False st Some obtain ret i2 where
          js: "jd_start H C s (i1\<lparr>state := Some s\<rparr>) = Inr (ret, i2)" and
          i': "i' = (if ret < 0 then i2\<lparr>state := None\<rparr> else i2)"
          by (subst (asm) arizona_jds_set_state.simps) (auto split: sum.splits)
        from "1.IH" [OF False [THEN not_sym, THEN not_sym] st Some] ck
        have "stable_result (jd_start H C s (i1\<lparr>state := Some s\<rparr>)) (i1\<lparr>state := Some s\<rparr>)"
          by simp
        from stable_resultD [OF this js] have "stable_state i2 = stable_state i1" by simp
        then show ?thesis using i' s1 by simp
      qed
    qed
  qed
next
  case (2 H C s info)
  show ?case
  proof (intro impI)
    assume ck: "custom_keeps C"
    show "stable_result (jd_start H C s info) info"
    proof (cases s)
      case arizona_hpdet_moisture
      then show ?thesis
        by (subst jd_start.simps) (auto intro!: stable_resultI dest: stable_moisture_start)
    next
      case arizona_hpdet_left
      then show ?thesis
        by (subst jd_start.simps) (auto intro!: stable_resultI dest: stable_hpdet_start)
    next
      case arizona_hpdet_right
      then show ?thesis
        by (subst jd_start.simps) (auto intro!: stable_resultI dest: stable_hpdet_start)
    next
      case arizona_micd_button
      then show ?thesis
        by (subst jd_start.simps) (auto intro!: stable_resultI dest: stable_micd_start)
    next
      case arizona_micd_microphone
      then show ?thesis
        by (subst jd_start.simps) (auto intro!: stable_resultI dest: stable_micd_mic_start)
    next
      case arizona_hpdet_acc_id
      with "2.IH" ck show ?thesis by (subst jd_start.simps) simp
    next
      case custom_jd
      with custom_start_stable [OF ck] show ?thesis by (subst jd_start.simps) simp
    qed
  qed
next
  case (3 H C info)
  show ?case
  proof (intro impI stable_resultI)
    fix r i'
    assume ck: "custom_keeps C"
       and res: "arizona_hpdet_acc_id_start H C info = Inr (r, i')"
    define i1 where "i1 = arizona_extcon_hp_clamp H (emit pm_runtime_get_sync info) True"
    have s1: "stable_state i1 = stable_state info" by (simp add: i1_def)
    from res obtain m where m: "array_get (micd_modes i1) 0 = Inr m"
      by (subst (asm) arizona_hpdet_acc_id_start.simps)
         (auto simp: Let_def i1_def split: sum.splits)
    obtain ret2 i2 where u2: "update_bits i1 ARIZONA_ACCESSORY_DETECT_MODE_1
        (ARIZONA_ACCDET_SRC H OR ARIZONA_ACCDET_MODE_MASK H)
        (src m OR word_of_int ARIZONA_ACCDET_MODE_HPL) = (ret2, i2)"
      by (cases "update_bits i1 ARIZONA_ACCESSORY_DETECT_MODE_1
        (ARIZONA_ACCDET_SRC H OR ARIZONA_ACCDET_MODE_MASK H)
        (src m OR word_of_int ARIZONA_ACCDET_MODE_HPL)")
    have s2: "stable_state i2 = stable_state info"
      using stable_update_bits [of i1 ARIZONA_ACCESSORY_DETECT_MODE_1
          "ARIZONA_ACCDET_SRC H OR ARIZONA_ACCDET_MODE_MASK H"
          "src m OR word_of_int ARIZONA_ACCDET_MODE_HPL"] u2 s1 by simp
    obtain ret3 i3 where u3: "update_bits i2 ARIZONA_HEADPHONE_DETECT_1 (ARIZONA_HP_POLL H)
        (ARIZONA_HP_POLL H) = (ret3, i3)"
      by (cases "update_bits i2 ARIZONA_HEADPHONE_DETECT_1 (ARIZONA_HP_POLL H)
        (ARIZONA_HP_POLL H)")
    have s3: "stable_state i3 = stable_state info"
      using stable_update_bits [of i2 ARIZONA_HEADPHONE_DETECT_1 "ARIZONA_HP_POLL H"
          "ARIZONA_HP_POLL H"] u3 s2 by simp
    have eq: "arizona_hpdet_acc_id_start H C info =
        (if ret2 \<noteq> 0
         then Inr (ret2, arizona_extcon_report
                           (emit pm_runtime_put_autosuspend
                              (arizona_extcon_hp_clamp H
                                 (emit (dev_err ''Failed to set HPDETL mode'') i2) False))
                           BIT_HEADSET_NO_MIC)
         else if hpdet_acc_id_line (pdata (arizona i2)) then
           (if ret3 \<noteq> 0
            then Inr (ret3, arizona_extcon_report
                              (emit pm_runtime_put_autosuspend
                                 (arizona_extcon_hp_clamp H
                                    (emit (dev_err ''Can't start HPDETL measurement'') i3)
                                    False))
                              BIT_HEADSET_NO_MIC)
            else Inr (0, i3))
         else
           (case arizona_hpdet_acc_id_reading H C i2 32 of
              Inl f \<Rightarrow> Inl f
            | Inr (_, i3) \<Rightarrow> Inr (0, i3)))"
      by (subst arizona_hpdet_acc_id_start.simps)
         (simp add: Let_def i1_def [symmetric] m u2 u3)
    show "stable_state i' = stable_state info"
    proof (cases "ret2 = 0 \<and> \<not> hpdet_acc_id_line (pdata (arizona i2))")
      case True
      then have a: "\<not> ret2 \<noteq> 0" and b: "\<not> hpdet_acc_id_line (pdata (arizona i2))" by simp_all
      from "3.IH" [OF i1_def m u2 [symmetric] a b] ck
      have sr: "stable_result (arizona_hpdet_acc_id_reading H C i2 32) i2" by simp
      from res True obtain r4 where "arizona_hpdet_acc_id_reading H C i2 32 = Inr (r4, i')"
        unfolding eq by (auto split: sum.splits)
      from stable_resultD [OF sr this] s2 show ?thesis by simp
    next
      case False
      with res s2 s3 show ?thesis
        unfolding eq by (auto split: if_splits)
    qed
  qed
next
  case (4 H C info reading)
  show ?case
  proof (intro impI stable_resultI)
    fix r i'
    assume ck: "custom_keeps C"
       and res: "arizona_hpdet_acc_id_reading H C info reading = Inr (r, i')"
    show "stable_state i' = stable_state info"
    proof (cases "reading < 0")
      case True
      with res show ?thesis
        by (subst (asm) arizona_hpdet_acc_id_reading.simps) (simp add: Let_def)
    next
      case False
      define g where "g = hpdet_id_gpio (pdata (arizona info))"
      from res False obtain b where
        b: "res3_set (hpdet_res info) (num_hpdet_res info) (word_of_int reading) = Inr b"
        by (subst (asm) arizona_hpdet_acc_id_reading.simps)
           (auto simp: Let_def split: sum.splits)
      define i1 where "i1 = info\<lparr>hpdet_res := b, num_hpdet_res := num_hpdet_res info + 1\<rparr>"
      have s1: "stable_state i1 = stable_state info" by (simp add: i1_def)
      have eq: "arizona_hpdet_acc_id_reading H C info reading =
          (if g \<noteq> 0 \<and> num_hpdet_res i1 = 1 then
              (case array_get (micd_modes i1) 0 of
                 Inl f \<Rightarrow> Inl f
               | Inr m \<Rightarrow>
                   Inr (- EAGAIN,
                        emit (gpio_set_value_cansleep g 1)
                          (update_bits_ignore i1 ARIZONA_ACCESSORY_DETECT_MODE_1
                             (ARIZONA_ACCDET_SRC H OR ARIZONA_ACCDET_MODE_MASK H)
                             (src m OR word_of_int ARIZONA_ACCDET_MODE_HPR))))
            else if sint (fst (hpdet_res i1)) \<ge> ARIZONA_HPDET_MAX \<and> \<not> hpdet_retried i1 then
              (case array_get (micd_modes i1) 0 of
                 Inl f \<Rightarrow> Inl f
               | Inr m \<Rightarrow>
                   Inr (- EAGAIN,
                        update_bits_ignore (i1\<lparr>num_hpdet_res := 0, hpdet_retried := True\<rparr>)
                          ARIZONA_ACCESSORY_DETECT_MODE_1
                          (ARIZONA_ACCDET_SRC H OR ARIZONA_ACCDET_MODE_MASK H)
                          (src m OR word_of_int ARIZONA_ACCDET_MODE_HPL)))
            else if g = 0 \<or> fst (snd (hpdet_res i1)) > 50 then
              (case arizona_jds_set_state H C i1 (Some arizona_micd_microphone) of
                 Inl f \<Rightarrow> Inl f
               | Inr (_, i2) \<Rightarrow> Inr (0, i2))
            else
              (case arizona_jds_set_state H C
                      (arizona_extcon_report i1 BIT_HEADSET_NO_MIC) None of
                 Inl f \<Rightarrow> Inl f
               | Inr (_, i2) \<Rightarrow> Inr (0, i2)))"
        using False
        by (subst arizona_hpdet_acc_id_reading.simps)
           (simp add: Let_def b i1_def [symmetric] g_def [symmetric])
      consider (gpio) "g \<noteq> 0 \<and> num_hpdet_res i1 = 1"
        | (retry) "\<not> (g \<noteq> 0 \<and> num_hpdet_res i1 = 1)"
                  "sint (fst (hpdet_res i1)) \<ge> ARIZONA_HPDET_MAX \<and> \<not> hpdet_retried i1"
        | (mic) "\<not> (g \<noteq> 0 \<and> num_hpdet_res i1 = 1)"
                "\<not> (sint (fst (hpdet_res i1)) \<ge> ARIZONA_HPDET_MAX \<and> \<not> hpdet_retried i1)"
                "g = 0 \<or> fst (snd (hpdet_res i1)) > 50"
        | (none) "\<not> (g \<noteq> 0 \<and> num_hpdet_res i1 = 1)"
                "\<not> (sint (fst (hpdet_res i1)) \<ge> ARIZONA_HPDET_MAX \<and> \<not> hpdet_retried i1)"
                "\<not> (g = 0 \<or> fst (snd (hpdet_res i1)) > 50)"
        by blast
      then show ?thesis
      proof cases
        case gpio
        with res s1 show ?thesis unfolding eq by (auto split: sum.splits)
      next
        case retry
        with res s1 show ?thesis unfolding eq by (auto split: sum.splits)
      next
        case mic
        from "4.IH"(1) [OF g_def False b i1_def mic] ck
        have sr: "stable_result (arizona_jds_set_state H C i1 (Some arizona_micd_microphone)) i1"
          by simp
        from res mic obtain r2 where
          "arizona_jds_set_state H C i1 (Some arizona_micd_microphone) = Inr (r2, i')"
          unfolding eq by (auto split: sum.splits)
        from stable_resultD [OF sr this] s1 show ?thesis by simp
      next
        case none
        from "4.IH"(2) [OF g_def False b i1_def none] ck
        have sr: "stable_result (arizona_jds_set_state H C
                      (arizona_extcon_report i1 BIT_HEADSET_NO_MIC) None)
                    (arizona_extcon_report i1 BIT_HEADSET_NO_MIC)"
          by simp
        from res none obtain r2 where
          "arizona_jds_set_state H C (arizona_extcon_report i1 BIT_HEADSET_NO_MIC) None =
             Inr (r2, i')"
          unfolding eq by (auto split: sum.splits)
        from stable_resultD [OF sr this] s1 show ?thesis by simp
      qed
    qed
  qed
qed

lemma set_state_stable:
  "custom_keeps C \<Longrightarrow> arizona_jds_set_state H C info ns = Inr (r, i') \<Longrightarrow>
   stable_state i' = stable_state info"
  using set_state_stable_all(1) [of C H info ns] by (auto dest: stable_resultD)

section \<open>Duplicate jack detection interrupts\<close>

lemma config_of_stable:
  "stable_state a = stable_state b \<Longrightarrow> jackdet_config a = jackdet_config b"
  using stable_fields(2,4,11) [of a b] by (simp add: jackdet_config_def)

lemma config_of_soft:
  "soft_state a = soft_state b \<Longrightarrow> jackdet_config a = jackdet_config b"
  by (rule config_of_stable) (rule soft_stable)

lemma config_emit [simp]: "jackdet_config (emit e i) = jackdet_config i"
  by (rule config_of_soft) simp

lemma config_update_bits_ignore [simp]:
  "jackdet_config (update_bits_ignore i r m v) = jackdet_config i"
  by (rule config_of_soft) simp

lemma config_write_reg_ignore [simp]:
  "jackdet_config (write_reg_ignore i r v) = jackdet_config i"
  by (rule config_of_soft) simp

lemma config_schedule_work [simp]: "jackdet_config (schedule_work i w ms) = jackdet_config i"
  by (simp add: schedule_work_def jackdet_config_def emit_def)

lemma start_timeout_cases:
  "arizona_jds_start_timeout H C i = i \<or>
   (\<exists>ms. has_state_timeout H C i \<and>
         arizona_jds_start_timeout H C i = schedule_work i state_timeout_work ms)"
  by (auto simp: arizona_jds_start_timeout_def has_state_timeout_def
      split: option.splits)

lemma start_timeout_armed:
  "has_state_timeout H C i \<Longrightarrow>
   \<exists>ms. arizona_jds_start_timeout H C i = schedule_work i state_timeout_work ms"
  by (auto simp: arizona_jds_start_timeout_def has_state_timeout_def
      split: option.splits)

lemma config_start_timeout [simp]:
  "jackdet_config (arizona_jds_start_timeout H C i) = jackdet_config i"
  using start_timeout_cases [of H C i] by auto

lemma config_report [simp]: "jackdet_config (arizona_extcon_report i st) = jackdet_config i"
  by (rule config_of_stable) simp

lemma config_tune [simp]: "jackdet_config (tune_headphone H i z) = jackdet_config i"
  by (rule config_of_stable) simp

lemma config_out [simp]: "jackdet_config (snd (jackdet_out H i)) = jackdet_config i"
  by (simp add: jackdet_out_def)

lemma soft_report_keys_released:
  "report_keys_released i k = Inr i' \<Longrightarrow> soft_state i' = soft_state i"
proof (induction i k rule: report_keys_released.induct)
  case (1 info i)
  show ?case
  proof (cases "i < num_micd_ranges info")
    case True
    from "1.prems" True obtain r where g: "array_get (micd_ranges info) i = Inr r"
      and rec: "report_keys_released (emit (input_report_key (key r) 0) info) (i + 1) = Inr i'"
      by (subst (asm) report_keys_released.simps) (auto split: sum.splits)
    from "1.IH" [OF True g rec] show ?thesis by simp
  next
    case False
    with "1.prems" show ?thesis by (subst (asm) report_keys_released.simps) simp
  qed
qed

lemma config_removal:
  assumes ck: "custom_keeps C" and res: "jackdet_removal H C i = Inr i'"
  shows "jackdet_config i' = jackdet_config i"
proof -
  define i2 where "i2 = (emit (dev_info ''Detected jack removal'') i)
      \<lparr>num_hpdet_res := 0, hpdet_res := (0, 0, 0), mic := False, hpdet_retried := False,
       arizona := (arizona (emit (dev_info ''Detected jack removal'') i))\<lparr>hp_impedance := 0\<rparr>\<rparr>"
  have c2: "jackdet_config i2 = jackdet_config i"
    by (simp add: i2_def jackdet_config_def emit_def)
  from res obtain r3 i3 where s3: "arizona_jds_set_state H C i2 None = Inr (r3, i3)"
    unfolding jackdet_removal_def Let_def i2_def [symmetric] by (auto split: sum.splits)
  have c3: "jackdet_config i3 = jackdet_config i"
    using config_of_stable [OF set_state_stable [OF ck s3]] c2 by simp
  from res obtain i4 where r4: "report_keys_released i3 0 = Inr i4"
    unfolding jackdet_removal_def Let_def i2_def [symmetric] s3 by (auto split: sum.splits)
  have c4: "jackdet_config i4 = jackdet_config i"
    using config_of_soft [OF soft_report_keys_released [OF r4]] c3 by simp
  from res show ?thesis
    unfolding jackdet_removal_def Let_def i2_def [symmetric] s3
    by (auto simp: r4 c4)
qed

lemma config_insert:
  assumes ck: "custom_keeps C" and res: "jackdet_insert H C i = Inr i'"
  shows "jackdet_config i' = jackdet_config i"
proof -
  define i2 where "i2 =
    (let i1 = emit (dev_info ''Detected jack'') i
     in if jd_wake_time (pdata (arizona i1)) \<noteq> 0
        then emit (pm_wakeup_event (jd_wake_time (pdata (arizona i1)))) i1 else i1)"
  have c2: "jackdet_config i2 = jackdet_config i" by (simp add: i2_def Let_def)
  show ?thesis
  proof (cases "hpdet_acc_id (pdata (arizona i2))")
    case True
    with res have "i' = update_bits_ignore (schedule_work i2 hpdet_work HPDET_DEBOUNCE)
        ARIZONA_JACK_DETECT_DEBOUNCE (ARIZONA_MICD_CLAMP_DB H OR ARIZONA_JD1_DB H) 0"
      by (simp add: jackdet_insert_def Let_def i2_def)
    then show ?thesis using c2 by simp
  next
    case False
    define i4 where "i4 =
      (let i3 = i2\<lparr>mic := False, jack_flips := 0\<rparr>
       in if init_mic_delay (pdata (arizona i3)) \<noteq> 0
          then emit (msleep (init_mic_delay (pdata (arizona i3)))) i3 else i3)"
    have c4: "jackdet_config i4 = jackdet_config i"
      using c2 by (simp add: i4_def Let_def) (simp add: jackdet_config_def)
    define ns where "ns = (if has_custom_jd (pdata (arizona i4)) then Some custom_jd
                            else if hpdet_moisture_imp (pdata (arizona i4)) \<noteq> 0
                            then Some arizona_hpdet_moisture
                            else Some arizona_micd_microphone)"
    have eq: "jackdet_insert H C i =
        (case (case arizona_jds_set_state H C i4 ns of
                 Inl f \<Rightarrow> Inl f
               | Inr (_, i5) \<Rightarrow> Inr (arizona_jds_start_timeout H C i5)) of
           Inl f \<Rightarrow> Inl f
         | Inr i6 \<Rightarrow>
             Inr (update_bits_ignore i6 ARIZONA_JACK_DETECT_DEBOUNCE
                    (ARIZONA_MICD_CLAMP_DB H OR ARIZONA_JD1_DB H) 0))"
      using False by (simp add: jackdet_insert_def Let_def i2_def i4_def ns_def)
    from res obtain r5 i5 where s5: "arizona_jds_set_state H C i4 ns = Inr (r5, i5)"
      unfolding eq by (auto split: sum.splits)
    have c5: "jackdet_config i5 = jackdet_config i"
      using config_of_stable [OF set_state_stable [OF ck s5]] c4 by simp
    from res show ?thesis unfolding eq s5 by (auto simp: c5)
  qed
qed

lemma ucast16_id:
  assumes "(w::u32) \<le> 0xFFFF"
  shows "(ucast (ucast w :: u16) :: u32) = w"
proof -
  have lt: "unat w < 65536" using assms by (simp add: word_le_nat_alt)
  then have tb: "take_bit 16 (unat w) = unat w" by (simp add: take_bit_nat_eq_self)
  have "unat (ucast (ucast w :: u16) :: u32) = take_bit 32 (take_bit 16 (unat w))"
    by (simp add: unsigned_ucast_eq unsigned_take_bit_eq)
  also have "\<dots> = unat w" using lt by (simp add: tb take_bit_nat_eq_self)
  finally show ?thesis by (simp add: word_unat_eq_iff)
qed

lemma jackdet_raw_fits:
  assumes "ARIZONA_JD1_STS H \<le> 0xFFFF" and "ARIZONA_MICD_CLAMP_STS H \<le> 0xFFFF"
  shows "jackdet_raw H i \<le> 0xFFFF"
proof -
  have "jackdet_raw H i \<le> jackdet_mask H i"
    unfolding jackdet_raw_def by (rule word_and_le1)
  moreover have "jackdet_mask H i \<le> 0xFFFF" using assms by (simp add: jackdet_mask_def)
  ultimately show ?thesis by (rule order_trans)
qed

lemma config_entry [simp]: "jackdet_config (jackdet_entry i) = jackdet_config i"
  by (simp add: jackdet_entry_def cancel_work_def arizona_jds_cancel_timeout_def
      jackdet_config_def emit_def)

lemma config_last_jackdet:
  "jackdet_config (i\<lparr>last_jackdet := v\<rparr>) =
     (v, snd (jackdet_config i))"
  by (simp add: jackdet_config_def)

text \<open>A run of the handler that reads the status leaves the pattern it read in \<open>last_jackdet\<close>.\<close>

lemma jackdet_stores:
  assumes ck: "custom_keeps C"
      and fit: "ARIZONA_JD1_STS H \<le> 0xFFFF" "ARIZONA_MICD_CLAMP_STS H \<le> 0xFFFF"
      and rd: "rd_ret (io (arizona info)) ARIZONA_AOD_IRQ_RAW_STATUS = 0"
      and res: "arizona_jackdet H C info = Inr (r, i')"
  shows "(ucast (last_jackdet i') :: u32) = jackdet_raw H info \<and>
         snd (jackdet_config i') = snd (jackdet_config info)"
proof (cases "jackdet_raw H info = ucast (last_jackdet info)")
  case True
  define j where "j =
    (let i1 = (if pending info hpdet_work \<noteq> None
               then schedule_work (jackdet_entry info) hpdet_work HPDET_DEBOUNCE
               else jackdet_entry info)
     in if pending info state_timeout_work \<noteq> None
        then arizona_jds_start_timeout H C i1 else i1)"
  have cj: "jackdet_config j = jackdet_config info" by (simp add: j_def Let_def)
  from res True have "i' = snd (jackdet_out H j)"
    by (simp add: jackdet_read_ok [OF rd] j_def)
  then have "jackdet_config i' = jackdet_config info" using cj by simp
  then show ?thesis using True by (simp add: jackdet_config_def)
next
  case False
  define i1 where "i1 = (jackdet_entry info)\<lparr>last_jackdet := ucast (jackdet_raw H info)\<rparr>"
  have c1: "jackdet_config i1 = (ucast (jackdet_raw H info), snd (jackdet_config info))"
    by (simp add: i1_def config_last_jackdet)
  from res False have "(case (if (ucast (ucast (jackdet_raw H info) :: u16) :: u32) =
                                jackdet_present H info
          then jackdet_insert H C i1 else jackdet_removal H C i1) of
        Inl f \<Rightarrow> Inl f | Inr i2 \<Rightarrow> Inr (jackdet_out H i2)) = Inr (r, i')"
    unfolding jackdet_read_ok [OF rd] i1_def by (auto split: if_splits)
  then obtain i2 where
    br: "(if (ucast (ucast (jackdet_raw H info) :: u16) :: u32) = jackdet_present H info
          then jackdet_insert H C i1 else jackdet_removal H C i1) = Inr i2"
    and o: "jackdet_out H i2 = (r, i')"
    by (auto split: sum.splits)
  have out: "i' = snd (jackdet_out H i2)" using o by simp
  have "jackdet_config i2 = jackdet_config i1"
    using br config_insert [OF ck] config_removal [OF ck] by (auto split: if_splits)
  then have "jackdet_config i' = (ucast (jackdet_raw H info), snd (jackdet_config info))"
    using out c1 by simp
  then have "last_jackdet i' = ucast (jackdet_raw H info)"
       and "snd (jackdet_config i') = snd (jackdet_config info)"
    by (simp_all add: jackdet_config_def)
  then show ?thesis using ucast16_id [OF jackdet_raw_fits [OF fit]] by simp
qed

lemma is_report_start_timeout:
  "filter is_report (trace (arizona_jds_start_timeout H C i)) = filter is_report (trace i)"
  using start_timeout_cases [of H C i] by (auto simp: schedule_work_def emit_def)

lemma start_timeout_fields:
  "state (arizona_jds_start_timeout H C i) = state i"
  "edev (arizona_jds_start_timeout H C i) = edev i"
  "pending (arizona_jds_start_timeout H C i) hpdet_work = pending i hpdet_work"
  using start_timeout_cases [of H C i] by (auto simp: schedule_work_def emit_def)

text \<open>The branch of the handler for a pattern that is the one read last.\<close>

lemma jackdet_duplicate:
  assumes rd: "rd_ret (io (arizona info)) ARIZONA_AOD_IRQ_RAW_STATUS = 0"
      and dup: "jackdet_raw H info = ucast (last_jackdet info)"
  shows "\<exists>i'. arizona_jackdet H C info = Inr (IRQ_HANDLED, i') \<and>
           filter is_report (trace i') = filter is_report (trace info) \<and>
           edev i' = edev info \<and> state i' = state info \<and>
           last_jackdet i' = last_jackdet info \<and>
           pending i' hpdet_work =
             (if pending info hpdet_work \<noteq> None then Some HPDET_DEBOUNCE else None) \<and>
           (pending i' state_timeout_work \<noteq> None) =
             (pending info state_timeout_work \<noteq> None \<and> has_state_timeout H C info)"
proof -
  define e where "e = jackdet_entry info"
  have e: "trace e = trace info @ [cancel_delayed_work_sync hpdet_work,
                       cancel_delayed_work_sync state_timeout_work, pm_runtime_get_sync]"
      "edev e = edev info" "state e = state info" "last_jackdet e = last_jackdet info"
      "pending e hpdet_work = None" "pending e state_timeout_work = None"
    by (simp_all add: e_def jackdet_entry_def cancel_work_def arizona_jds_cancel_timeout_def
        emit_def)
  define i1 where "i1 = (if pending info hpdet_work \<noteq> None
               then schedule_work e hpdet_work HPDET_DEBOUNCE else e)"
  have p1: "filter is_report (trace i1) = filter is_report (trace info)"
      "edev i1 = edev info" "state i1 = state info" "last_jackdet i1 = last_jackdet info"
      "pending info hpdet_work \<noteq> None \<longrightarrow> pending i1 hpdet_work = Some HPDET_DEBOUNCE"
      "pending i1 state_timeout_work = None"
    using e by (simp_all add: i1_def schedule_work_def emit_def)
  define i2 where "i2 = (if pending info state_timeout_work \<noteq> None
        then arizona_jds_start_timeout H C i1 else i1)"
  have h1: "has_state_timeout H C i1 = has_state_timeout H C info"
    using p1(3) by (simp add: has_state_timeout_def)
  have pe1: "pending i1 hpdet_work =
      (if pending info hpdet_work \<noteq> None then Some HPDET_DEBOUNCE else None)"
    using e(5) by (simp add: i1_def schedule_work_def emit_def)
  have arm: "(pending i2 state_timeout_work \<noteq> None) =
      (pending info state_timeout_work \<noteq> None \<and> has_state_timeout H C info)"
  proof (cases "pending info state_timeout_work \<noteq> None \<and> has_state_timeout H C info")
    case True
    then have "has_state_timeout H C i1" using h1 by simp
    from start_timeout_armed [OF this] obtain ms where
      "arizona_jds_start_timeout H C i1 = schedule_work i1 state_timeout_work ms" by blast
    then show ?thesis
      using True p1(6) by (simp add: i2_def schedule_work_def emit_def)
  next
    case False
    have "pending i2 state_timeout_work = None"
    proof (cases "pending info state_timeout_work \<noteq> None")
      case True
      with False have "\<not> has_state_timeout H C i1" using h1 by simp
      with start_timeout_cases [of H C i1] have "arizona_jds_start_timeout H C i1 = i1"
        by auto
      then show ?thesis using p1(6) by (simp add: i2_def)
    next
      case False
      then show ?thesis using p1(6) by (simp add: i2_def)
    qed
    with False show ?thesis by simp
  qed
  have lj: "last_jackdet (arizona_jds_start_timeout H C i1) = last_jackdet i1"
    using config_start_timeout [of H C i1] by (simp add: jackdet_config_def)
  have p2: "filter is_report (trace i2) = filter is_report (trace info)"
      "edev i2 = edev info" "state i2 = state info" "last_jackdet i2 = last_jackdet info"
      "pending i2 hpdet_work =
         (if pending info hpdet_work \<noteq> None then Some HPDET_DEBOUNCE else None)"
    using p1 pe1 lj by (simp_all add: i2_def is_report_start_timeout start_timeout_fields)
  obtain i3 where o: "jackdet_out H i2 = (IRQ_HANDLED, i3)"
    using jackdet_out_fields(1) [of H i2] by (cases "jackdet_out H i2") simp
  have i3: "i3 = emit pm_runtime_put_autosuspend
        (emit pm_runtime_mark_last_busy
           (write_reg_ignore i2 ARIZONA_AOD_WKUP_AND_TRIG
              (ARIZONA_MICD_CLAMP_FALL_TRIG_STS H OR ARIZONA_MICD_CLAMP_RISE_TRIG_STS H OR
               ARIZONA_JD1_FALL_TRIG_STS H OR ARIZONA_JD1_RISE_TRIG_STS H)))"
    using o by (simp add: jackdet_out_def)
  note f3 = soft_fields [OF jackdet_out_fields(2) [of H i2, unfolded o snd_conv]]
  have t3: "filter is_report (trace i3) = filter is_report (trace i2)"
    unfolding i3 by (simp add: emit_def)
  have "arizona_jackdet H C info = Inr (jackdet_out H i2)"
    using dup unfolding jackdet_read_ok [OF rd] Let_def i2_def i1_def e_def by simp
  then have res: "arizona_jackdet H C info = Inr (IRQ_HANDLED, i3)"
    by (simp add: o)
  have "filter is_report (trace i3) = filter is_report (trace info)"
      "edev i3 = edev info" "state i3 = state info" "last_jackdet i3 = last_jackdet info"
      "pending i3 hpdet_work =
         (if pending info hpdet_work \<noteq> None then Some HPDET_DEBOUNCE else None)"
      "(pending i3 state_timeout_work \<noteq> None) =
         (pending info state_timeout_work \<noteq> None \<and> has_state_timeout H C info)"
    using p2 arm f3(1,2,18,19) t3 by simp_all
  with res show ?thesis by (intro exI [of _ i3] conjI)
qed


text \<open>
  Claim C6, as the code has it. Take a run of \<^verbatim>\<open>arizona_jackdet\<close> that reads the status and
  returns, and a later run before which neither \<open>last_jackdet\<close> nor the platform data
  nor the environment of the accesses has changed. If the later run reads the same
  masked pattern, it returns \<^verbatim>\<open>IRQ_HANDLED\<close> without any report of an insertion or a
  removal (the events of \<open>is_report\<close>, the state of the switch device and the active
  detection state are as before). The headphone detection work is queued afterwards
  exactly when it was queued on entry, with the delay \<^verbatim>\<open>HPDET_DEBOUNCE\<close>. The state
  timeout is queued afterwards exactly when it was queued on entry and the active
  state has a timeout: a timeout that was queued while no state is active, or
  while the active state has none, is cancelled and stays cancelled. The status masks
  fit the 16 bits of \<open>last_jackdet\<close>.
\<close>

theorem duplicate_jackdet_suppressed:
  assumes ck: "custom_keeps C"
      and fit: "ARIZONA_JD1_STS H \<le> 0xFFFF" "ARIZONA_MICD_CLAMP_STS H \<le> 0xFFFF"
      and rd: "rd_ret (io (arizona info0)) ARIZONA_AOD_IRQ_RAW_STATUS = 0"
      and first: "arizona_jackdet H C info0 = Inr (r1, info1)"
      and between: "jackdet_config info2 = jackdet_config info1"
      and same: "jackdet_raw H info2 = jackdet_raw H info0"
  shows "\<exists>i'. arizona_jackdet H C info2 = Inr (IRQ_HANDLED, i') \<and>
           filter is_report (trace i') = filter is_report (trace info2) \<and>
           edev i' = edev info2 \<and> state i' = state info2 \<and>
           pending i' hpdet_work =
             (if pending info2 hpdet_work \<noteq> None then Some HPDET_DEBOUNCE else None) \<and>
           (pending i' state_timeout_work \<noteq> None) =
             (pending info2 state_timeout_work \<noteq> None \<and> has_state_timeout H C info2)"
proof -
  from jackdet_stores [OF ck fit rd first]
  have st: "(ucast (last_jackdet info1) :: u32) = jackdet_raw H info0"
    and cf: "snd (jackdet_config info1) = snd (jackdet_config info0)" by simp_all
  have lj: "last_jackdet info2 = last_jackdet info1"
    and io2: "io (arizona info2) = io (arizona info0)"
    using between cf by (simp_all add: jackdet_config_def)
  have rd2: "rd_ret (io (arizona info2)) ARIZONA_AOD_IRQ_RAW_STATUS = 0"
    using rd io2 by simp
  have dup: "jackdet_raw H info2 = ucast (last_jackdet info2)"
    using same st lj by simp
  from jackdet_duplicate [OF rd2 dup, of C] obtain i' where
    d: "arizona_jackdet H C info2 = Inr (IRQ_HANDLED, i') \<and>
           filter is_report (trace i') = filter is_report (trace info2) \<and>
           edev i' = edev info2 \<and> state i' = state info2 \<and>
           last_jackdet i' = last_jackdet info2 \<and>
           pending i' hpdet_work =
             (if pending info2 hpdet_work \<noteq> None then Some HPDET_DEBOUNCE else None) \<and>
           (pending i' state_timeout_work \<noteq> None) =
             (pending info2 state_timeout_work \<noteq> None \<and> has_state_timeout H C info2)" ..
  then show ?thesis by (intro exI [of _ i']) simp
qed

lemmas inserted_defs = inserted_info_def with_reg_def with_pdata_def example_info_def
  example_arizona_def example_pdata_def example_io_def example_hdr_def

text \<open>
  The first run handles the insertion and queues the headphone detection work. A
  duplicate right after it queues the work again; a duplicate that arrives when the
  microphone detection is active with its timeout queued queues the timeout again.
\<close>

theorem duplicate_jackdet_suppressed_witness:
  "custom_keeps example_custom \<and>
   ARIZONA_JD1_STS example_hdr \<le> 0xFFFF \<and> ARIZONA_MICD_CLAMP_STS example_hdr \<le> 0xFFFF \<and>
   rd_ret (io (arizona inserted_info)) ARIZONA_AOD_IRQ_RAW_STATUS = 0 \<and>
   (\<exists>info1. arizona_jackdet example_hdr example_custom inserted_info = Inr (IRQ_HANDLED, info1) \<and>
      last_jackdet info1 = 1 \<and> pending info1 hpdet_work = Some HPDET_DEBOUNCE \<and>
      pending info1 state_timeout_work = None \<and>
      jackdet_raw example_hdr info1 = jackdet_raw example_hdr inserted_info \<and>
      (\<exists>i'. arizona_jackdet example_hdr example_custom info1 = Inr (IRQ_HANDLED, i') \<and>
         filter is_report (trace i') = filter is_report (trace info1) \<and>
         edev i' = edev info1 \<and> state i' = state info1 \<and>
         pending i' hpdet_work = Some HPDET_DEBOUNCE \<and>
         pending i' state_timeout_work = None) \<and>
      jackdet_config (mic_timeout_queued info1) = jackdet_config info1 \<and>
      jackdet_raw example_hdr (mic_timeout_queued info1) =
        jackdet_raw example_hdr inserted_info \<and>
      pending (mic_timeout_queued info1) state_timeout_work = Some DEFAULT_MICD_TIMEOUT \<and>
      has_state_timeout example_hdr example_custom (mic_timeout_queued info1) \<and>
      (\<exists>i'. arizona_jackdet example_hdr example_custom (mic_timeout_queued info1) =
               Inr (IRQ_HANDLED, i') \<and>
         filter is_report (trace i') = filter is_report (trace (mic_timeout_queued info1)) \<and>
         state i' = Some arizona_micd_microphone \<and>
         pending i' hpdet_work = None \<and>
         pending i' state_timeout_work \<noteq> None))"
proof -
  define j where "j = jackdet_out example_hdr
      (update_bits_ignore
         (schedule_work
            (emit (dev_info ''Detected jack'')
               ((jackdet_entry inserted_info)\<lparr>last_jackdet := 1\<rparr>))
            hpdet_work HPDET_DEBOUNCE)
         ARIZONA_JACK_DETECT_DEBOUNCE
         (ARIZONA_MICD_CLAMP_DB example_hdr OR ARIZONA_JD1_DB example_hdr) 0)"
  have a: "ARIZONA_JD1_STS example_hdr \<le> 0xFFFF" "ARIZONA_MICD_CLAMP_STS example_hdr \<le> 0xFFFF"
    by (simp_all add: example_hdr_def)
  have b: "rd_ret (io (arizona inserted_info)) ARIZONA_AOD_IRQ_RAW_STATUS = 0"
    by (simp add: inserted_defs)
  have raw: "jackdet_raw example_hdr inserted_info = 1"
    by (simp add: inserted_defs jackdet_raw_def jackdet_mask_def)
  have pres: "jackdet_present example_hdr inserted_info = 1"
    by (simp add: inserted_defs jackdet_present_def)
  have lj: "last_jackdet inserted_info = 0" by (simp add: inserted_defs)
  have ins: "jackdet_insert example_hdr example_custom
               ((jackdet_entry inserted_info)\<lparr>last_jackdet := 1\<rparr>) = Inr
      (update_bits_ignore
         (schedule_work
            (emit (dev_info ''Detected jack'')
               ((jackdet_entry inserted_info)\<lparr>last_jackdet := 1\<rparr>))
            hpdet_work HPDET_DEBOUNCE)
         ARIZONA_JACK_DETECT_DEBOUNCE
         (ARIZONA_MICD_CLAMP_DB example_hdr OR ARIZONA_JD1_DB example_hdr) 0)"
    by (simp add: jackdet_insert_def Let_def emit_def jackdet_entry_def cancel_work_def
        arizona_jds_cancel_timeout_def inserted_defs)
  have first: "arizona_jackdet example_hdr example_custom inserted_info = Inr (fst j, snd j)"
    unfolding jackdet_read_ok [OF b] raw pres lj by (simp add: ins j_def)
  have fj: "fst j = IRQ_HANDLED" by (simp add: j_def jackdet_out_fields)
  note ev = j_def jackdet_out_def write_reg_ignore_def write_reg_def regmap_write_def
        update_bits_ignore_def update_bits_def regmap_update_bits_def
        regmap_update_bits_check_def schedule_work_def emit_def jackdet_entry_def
        cancel_work_def arizona_jds_cancel_timeout_def Let_def
  have p1: "pending (snd j) hpdet_work = Some HPDET_DEBOUNCE"
      "pending (snd j) state_timeout_work = None" "last_jackdet (snd j) = 1"
    by (simp_all add: ev inserted_defs)
  have r1: "jackdet_raw example_hdr (snd j) = jackdet_raw example_hdr inserted_info"
    unfolding raw
    by (simp add: ev jackdet_raw_def jackdet_mask_def inserted_defs)
  have q: "jackdet_config (mic_timeout_queued (snd j)) = jackdet_config (snd j)"
      "jackdet_raw example_hdr (mic_timeout_queued (snd j)) = jackdet_raw example_hdr (snd j)"
      "pending (mic_timeout_queued (snd j)) state_timeout_work = Some DEFAULT_MICD_TIMEOUT"
      "pending (mic_timeout_queued (snd j)) hpdet_work = None"
      "state (mic_timeout_queued (snd j)) = Some arizona_micd_microphone"
      "has_state_timeout example_hdr example_custom (mic_timeout_queued (snd j))"
    by (simp_all add: mic_timeout_queued_def jackdet_config_def jackdet_raw_def
        jackdet_mask_def has_state_timeout_def jd_timeout_ms_def jd_timeout_def)
  from duplicate_jackdet_suppressed [OF example_custom_keeps a b first refl r1] p1
  have s1: "\<exists>i'. arizona_jackdet example_hdr example_custom (snd j) = Inr (IRQ_HANDLED, i') \<and>
         filter is_report (trace i') = filter is_report (trace (snd j)) \<and>
         edev i' = edev (snd j) \<and> state i' = state (snd j) \<and>
         pending i' hpdet_work = Some HPDET_DEBOUNCE \<and>
         pending i' state_timeout_work = None"
    by auto
  from duplicate_jackdet_suppressed [OF example_custom_keeps a b first q(1) q(2) [unfolded r1]] q
  have s2: "\<exists>i'. arizona_jackdet example_hdr example_custom (mic_timeout_queued (snd j)) =
               Inr (IRQ_HANDLED, i') \<and>
         filter is_report (trace i') = filter is_report (trace (mic_timeout_queued (snd j))) \<and>
         state i' = Some arizona_micd_microphone \<and>
         pending i' hpdet_work = None \<and>
         pending i' state_timeout_work \<noteq> None"
    by auto
  have "arizona_jackdet example_hdr example_custom inserted_info = Inr (IRQ_HANDLED, snd j) \<and>
      last_jackdet (snd j) = 1 \<and> pending (snd j) hpdet_work = Some HPDET_DEBOUNCE \<and>
      pending (snd j) state_timeout_work = None \<and>
      jackdet_raw example_hdr (snd j) = jackdet_raw example_hdr inserted_info \<and>
      (\<exists>i'. arizona_jackdet example_hdr example_custom (snd j) = Inr (IRQ_HANDLED, i') \<and>
         filter is_report (trace i') = filter is_report (trace (snd j)) \<and>
         edev i' = edev (snd j) \<and> state i' = state (snd j) \<and>
         pending i' hpdet_work = Some HPDET_DEBOUNCE \<and>
         pending i' state_timeout_work = None) \<and>
      jackdet_config (mic_timeout_queued (snd j)) = jackdet_config (snd j) \<and>
      jackdet_raw example_hdr (mic_timeout_queued (snd j)) =
        jackdet_raw example_hdr inserted_info \<and>
      pending (mic_timeout_queued (snd j)) state_timeout_work = Some DEFAULT_MICD_TIMEOUT \<and>
      has_state_timeout example_hdr example_custom (mic_timeout_queued (snd j)) \<and>
      (\<exists>i'. arizona_jackdet example_hdr example_custom (mic_timeout_queued (snd j)) =
               Inr (IRQ_HANDLED, i') \<and>
         filter is_report (trace i') = filter is_report (trace (mic_timeout_queued (snd j))) \<and>
         state i' = Some arizona_micd_microphone \<and>
         pending i' hpdet_work = None \<and>
         pending i' state_timeout_work \<noteq> None)"
    using first fj p1 r1 s1 q s2 by simp
  then have "\<exists>info1. arizona_jackdet example_hdr example_custom inserted_info =
        Inr (IRQ_HANDLED, info1) \<and>
      last_jackdet info1 = 1 \<and> pending info1 hpdet_work = Some HPDET_DEBOUNCE \<and>
      pending info1 state_timeout_work = None \<and>
      jackdet_raw example_hdr info1 = jackdet_raw example_hdr inserted_info \<and>
      (\<exists>i'. arizona_jackdet example_hdr example_custom info1 = Inr (IRQ_HANDLED, i') \<and>
         filter is_report (trace i') = filter is_report (trace info1) \<and>
         edev i' = edev info1 \<and> state i' = state info1 \<and>
         pending i' hpdet_work = Some HPDET_DEBOUNCE \<and>
         pending i' state_timeout_work = None) \<and>
      jackdet_config (mic_timeout_queued info1) = jackdet_config info1 \<and>
      jackdet_raw example_hdr (mic_timeout_queued info1) =
        jackdet_raw example_hdr inserted_info \<and>
      pending (mic_timeout_queued info1) state_timeout_work = Some DEFAULT_MICD_TIMEOUT \<and>
      has_state_timeout example_hdr example_custom (mic_timeout_queued info1) \<and>
      (\<exists>i'. arizona_jackdet example_hdr example_custom (mic_timeout_queued info1) =
               Inr (IRQ_HANDLED, i') \<and>
         filter is_report (trace i') = filter is_report (trace (mic_timeout_queued info1)) \<and>
         state i' = Some arizona_micd_microphone \<and>
         pending i' hpdet_work = None \<and>
         pending i' state_timeout_work \<noteq> None)"
    by (rule exI)
  with example_custom_keeps a b show ?thesis by (intro conjI)
qed

text \<open>
  The sentence of the specification has the state timeout re-armed whenever it was
  cancelled on entry. With the timeout queued while no detection state is active, two
  runs that read the same pattern leave it cancelled: \<^verbatim>\<open>arizona_jds_start_timeout\<close>
  returns at once when \<^verbatim>\<open>info->state\<close> is null.
\<close>

theorem duplicate_jackdet_drops_timeout:
  "\<exists>info1 i'.
     arizona_jackdet example_hdr example_custom example_info = Inr (IRQ_HANDLED, info1) \<and>
     jackdet_config (schedule_work info1 state_timeout_work 2000) = jackdet_config info1 \<and>
     jackdet_raw example_hdr (schedule_work info1 state_timeout_work 2000) =
       jackdet_raw example_hdr example_info \<and>
     state (schedule_work info1 state_timeout_work 2000) = None \<and>
     pending (schedule_work info1 state_timeout_work 2000) state_timeout_work = Some 2000 \<and>
     arizona_jackdet example_hdr example_custom (schedule_work info1 state_timeout_work 2000) =
       Inr (IRQ_HANDLED, i') \<and>
     pending i' state_timeout_work = None"
proof -
  note ex = example_info_def example_arizona_def example_pdata_def example_io_def
    example_hdr_def
  note ev = jackdet_out_def write_reg_ignore_def write_reg_def regmap_write_def
    schedule_work_def emit_def jackdet_entry_def cancel_work_def
    arizona_jds_cancel_timeout_def Let_def
  define j where "j = jackdet_out example_hdr (jackdet_entry example_info)"
  define info2 where "info2 = schedule_work (snd j) state_timeout_work 2000"
  have rd: "rd_ret (io (arizona example_info)) ARIZONA_AOD_IRQ_RAW_STATUS = 0"
    by (simp add: ex)
  have dup: "jackdet_raw example_hdr example_info = ucast (last_jackdet example_info)"
    by (simp add: ex jackdet_raw_def jackdet_mask_def)
  have np: "pending example_info hpdet_work = None"
      "pending example_info state_timeout_work = None"
    by (simp_all add: ex)
  have first: "arizona_jackdet example_hdr example_custom example_info = Inr (fst j, snd j)"
    unfolding jackdet_read_ok [OF rd] using dup np by (simp add: j_def)
  have fj: "fst j = IRQ_HANDLED" by (simp add: j_def jackdet_out_fields)
  have c2: "jackdet_config info2 = jackdet_config (snd j)" by (simp add: info2_def)
  have r2: "jackdet_raw example_hdr info2 = jackdet_raw example_hdr example_info"
    by (simp add: info2_def j_def ev jackdet_raw_def jackdet_mask_def ex)
  have q: "state info2 = None" "pending info2 state_timeout_work = Some 2000"
    by (simp_all add: info2_def j_def ev ex)
  have rd2: "rd_ret (io (arizona info2)) ARIZONA_AOD_IRQ_RAW_STATUS = 0"
    by (simp add: info2_def j_def ev ex)
  have dup2: "jackdet_raw example_hdr info2 = ucast (last_jackdet info2)"
    unfolding r2 by (simp add: info2_def j_def ev ex jackdet_raw_def jackdet_mask_def)
  have nt: "\<not> has_state_timeout example_hdr example_custom info2"
    using q(1) by (simp add: has_state_timeout_def)
  from jackdet_duplicate [OF rd2 dup2, of example_custom] obtain i' where
    d: "arizona_jackdet example_hdr example_custom info2 = Inr (IRQ_HANDLED, i') \<and>
           filter is_report (trace i') = filter is_report (trace info2) \<and>
           edev i' = edev info2 \<and> state i' = state info2 \<and>
           last_jackdet i' = last_jackdet info2 \<and>
           pending i' hpdet_work =
             (if pending info2 hpdet_work \<noteq> None then Some HPDET_DEBOUNCE else None) \<and>
           (pending i' state_timeout_work \<noteq> None) =
             (pending info2 state_timeout_work \<noteq> None \<and>
              has_state_timeout example_hdr example_custom info2)" ..
  then have d1: "arizona_jackdet example_hdr example_custom info2 = Inr (IRQ_HANDLED, i')"
    and d2: "pending i' state_timeout_work = None"
    using nt by simp_all
  have "arizona_jackdet example_hdr example_custom example_info = Inr (IRQ_HANDLED, snd j) \<and>
     jackdet_config (schedule_work (snd j) state_timeout_work 2000) = jackdet_config (snd j) \<and>
     jackdet_raw example_hdr (schedule_work (snd j) state_timeout_work 2000) =
       jackdet_raw example_hdr example_info \<and>
     state (schedule_work (snd j) state_timeout_work 2000) = None \<and>
     pending (schedule_work (snd j) state_timeout_work 2000) state_timeout_work = Some 2000 \<and>
     arizona_jackdet example_hdr example_custom (schedule_work (snd j) state_timeout_work 2000) =
       Inr (IRQ_HANDLED, i') \<and>
     pending i' state_timeout_work = None"
    using first fj c2 r2 q d1 d2 unfolding info2_def by simp
  then show ?thesis by (intro exI [of _ "snd j"] exI [of _ i'])
qed

section \<open>Polarity flips of the microphone detection\<close>

lemma smod_in_range: "0 \<le> (m::int) \<Longrightarrow> m < n \<Longrightarrow> m smod n = m"
  by (simp add: smod_int_alt_def sgn_if)

lemma int32_id: "- 2147483648 \<le> k \<Longrightarrow> k \<le> 2147483647 \<Longrightarrow> int32 k = k"
  by (simp add: int32_def sint_sbintrunc' signed_take_bit_int_eq_self)

lemma masked_update: "((x AND NOT m) OR (v AND m)) AND m = v AND (m::u32)"
  by (rule bit_word_eqI) (auto simp: bit_simps)

lemma regmap_update_bits_ignore:
  "regmap (arizona (update_bits_ignore i r m v)) r' =
     (if r' = r \<and> wr_ret (io (arizona i)) r = 0
      then (regmap (arizona i) r AND NOT m) OR (v AND m)
      else regmap (arizona i) r')"
  by (simp add: update_bits_ignore_def update_bits_def regmap_update_bits_def
      regmap_update_bits_check_def Let_def)

lemma done_stable:
  assumes ck: "custom_keeps C" and res: "micd_mic_reading_done H C i = Inr (r, i')"
  shows "r = 0 \<and> stable_state i' = stable_state i"
proof -
  define ns where "ns = (if hpdet_channel (pdata (arizona i)) \<noteq> 0
              then Some arizona_hpdet_right else Some arizona_hpdet_left)"
  from res obtain r1 i1 where
    s: "arizona_jds_set_state H C (emit pm_runtime_mark_last_busy i) ns = Inr (r1, i1)"
    unfolding micd_mic_reading_done_def ns_def [symmetric] by (auto split: sum.splits)
  have s1: "stable_state i1 = stable_state i"
    using set_state_stable [OF ck s] by simp
  from res s1 show ?thesis
    unfolding micd_mic_reading_done_def ns_def [symmetric] s
    by (auto simp: Let_def split: if_splits)
qed

text \<open>What \<^verbatim>\<open>arizona_extcon_set_mode\<close> does for a mode of the table.\<close>

lemma set_mode_effect:
  assumes "modes_ok i"
  shows "\<exists>i'. arizona_extcon_set_mode H i (micd_mode i) = Inr i' \<and>
           soft_state i' = soft_state i \<and>
           trace i' = trace i @
             (if micd_pol_gpio (pdata (arizona i)) > 0
              then [gpio_set_value_cansleep (micd_pol_gpio (pdata (arizona i)))
                      (gpio (micd_modes i ! nat (micd_mode i)))]
              else []) \<and>
           (wr_ret (io (arizona i)) ARIZONA_MIC_DETECT_1 = 0 \<longrightarrow>
              regmap (arizona i') ARIZONA_MIC_DETECT_1 AND ARIZONA_MICD_BIAS_SRC_MASK H =
                push_bit (ARIZONA_MICD_BIAS_SRC_SHIFT H) (bias (micd_modes i ! nat (micd_mode i)))
                  AND ARIZONA_MICD_BIAS_SRC_MASK H) \<and>
           (wr_ret (io (arizona i)) ARIZONA_ACCESSORY_DETECT_MODE_1 = 0 \<longrightarrow>
              regmap (arizona i') ARIZONA_ACCESSORY_DETECT_MODE_1 AND ARIZONA_ACCDET_SRC H =
                src (micd_modes i ! nat (micd_mode i)) AND ARIZONA_ACCDET_SRC H)"
proof -
  from assms have n: "micd_num_modes i \<noteq> 0" and
    sm: "micd_mode i smod micd_num_modes i = micd_mode i"
    by (auto simp: modes_ok_def smod_in_range)
  from assms have g: "array_get (micd_modes i) (micd_mode i) =
      Inr (micd_modes i ! nat (micd_mode i))"
    by (auto simp: modes_ok_def array_get_def)
  define m where "m = micd_modes i ! nat (micd_mode i)"
  define i1 where "i1 =
         (if micd_pol_gpio (pdata (arizona i)) > 0
          then emit (gpio_set_value_cansleep (micd_pol_gpio (pdata (arizona i))) (gpio m)) i
          else i)"
  define i2 where "i2 = update_bits_ignore i1
         ARIZONA_MIC_DETECT_1 (ARIZONA_MICD_BIAS_SRC_MASK H)
         (push_bit (ARIZONA_MICD_BIAS_SRC_SHIFT H) (bias m))"
  define i3 where "i3 = update_bits_ignore i2
      ARIZONA_ACCESSORY_DETECT_MODE_1 (ARIZONA_ACCDET_SRC H) (src m)"
  have f1: "io (arizona i1) = io (arizona i)"
      "trace i1 = trace i @
             (if micd_pol_gpio (pdata (arizona i)) > 0
              then [gpio_set_value_cansleep (micd_pol_gpio (pdata (arizona i))) (gpio m)]
              else [])"
    by (simp_all add: i1_def emit_def)
  have f2: "io (arizona i2) = io (arizona i)" "trace i2 = trace i1"
    using f1 by (simp_all add: i2_def update_bits_ignore_fields)
  have s3: "soft_state i3 = soft_state i" by (simp add: i3_def i2_def i1_def)
  have t3: "trace i3 = trace i1" using f2 by (simp add: i3_def)
  have r1: "wr_ret (io (arizona i)) ARIZONA_MIC_DETECT_1 = 0 \<longrightarrow>
        regmap (arizona i3) ARIZONA_MIC_DETECT_1 AND ARIZONA_MICD_BIAS_SRC_MASK H =
          push_bit (ARIZONA_MICD_BIAS_SRC_SHIFT H) (bias m) AND ARIZONA_MICD_BIAS_SRC_MASK H"
    using f1(1) by (simp add: i3_def i2_def regmap_update_bits_ignore masked_update)
  have r2: "wr_ret (io (arizona i)) ARIZONA_ACCESSORY_DETECT_MODE_1 = 0 \<longrightarrow>
        regmap (arizona i3) ARIZONA_ACCESSORY_DETECT_MODE_1 AND ARIZONA_ACCDET_SRC H =
          src m AND ARIZONA_ACCDET_SRC H"
    using f2(1) by (simp add: i3_def regmap_update_bits_ignore masked_update)
  have eq: "arizona_extcon_set_mode H i (micd_mode i) = Inr (i3\<lparr>micd_mode := micd_mode i\<rparr>)"
    using n by (simp add: arizona_extcon_set_mode_def Let_def sm g i3_def i2_def i1_def m_def)
  have u: "soft_state (a\<lparr>micd_mode := x\<rparr>) = (soft_state a)\<lparr>micd_mode := x\<rparr>" for a x
    by (simp add: soft_state_def)
  have "(soft_state i)\<lparr>micd_mode := micd_mode i\<rparr> = soft_state i"
    by (simp add: soft_state_def)
  then have s4: "soft_state (i3\<lparr>micd_mode := micd_mode i\<rparr>) = soft_state i"
    unfolding u s3 .
  show ?thesis
    using eq s4 t3 f1(2) r1 r2 unfolding m_def
    by (intro exI [of _ "i3\<lparr>micd_mode := micd_mode i\<rparr>"]) simp
qed

lemma mic_reading_flip_eq:
  assumes "ambiguous_level H val" and "jack_flips info < int32 (micd_num_modes info * 10)"
  shows "arizona_micd_mic_reading H C info val =
     (case arizona_extcon_set_mode H
             (let i1 = info\<lparr>micd_mode := int32 (micd_mode info + 1)\<rparr>
              in if micd_mode i1 = micd_num_modes i1 then i1\<lparr>micd_mode := 0\<rparr> else i1)
             (micd_mode
               (let i1 = info\<lparr>micd_mode := int32 (micd_mode info + 1)\<rparr>
                in if micd_mode i1 = micd_num_modes i1 then i1\<lparr>micd_mode := 0\<rparr> else i1)) of
        Inl f \<Rightarrow> Inl f
      | Inr i3 \<Rightarrow> Inr (0, i3\<lparr>jack_flips := int32 (jack_flips i3 + 1)\<rparr>))"
  using assms by (simp add: arizona_micd_mic_reading_def ambiguous_level_def Let_def)

text \<open>A reading of an ambiguous level below the bound flips the polarity.\<close>

lemma mic_reading_flip:
  assumes amb: "ambiguous_level H val" and ok: "modes_ok info"
      and fit: "micd_num_modes info * 10 \<le> INT_MAX"
      and nn: "0 \<le> jack_flips info"
      and lt: "jack_flips info < micd_num_modes info * 10"
  shows "\<exists>i'. arizona_micd_mic_reading H C info val = Inr (0, i') \<and>
           micd_mode i' = (micd_mode info + 1) mod micd_num_modes info \<and>
           jack_flips i' = jack_flips info + 1 \<and>
           state i' = state info \<and> mic i' = mic info \<and> edev i' = edev info \<and>
           modes_ok i' \<and>
           trace i' = trace info @
             (if micd_pol_gpio (pdata (arizona info)) > 0
              then [gpio_set_value_cansleep (micd_pol_gpio (pdata (arizona info)))
                      (gpio (micd_modes info !
                               nat ((micd_mode info + 1) mod micd_num_modes info)))]
              else []) \<and>
           (wr_ret (io (arizona info)) ARIZONA_MIC_DETECT_1 = 0 \<longrightarrow>
              regmap (arizona i') ARIZONA_MIC_DETECT_1 AND ARIZONA_MICD_BIAS_SRC_MASK H =
                push_bit (ARIZONA_MICD_BIAS_SRC_SHIFT H)
                  (bias (micd_modes info ! nat ((micd_mode info + 1) mod micd_num_modes info)))
                  AND ARIZONA_MICD_BIAS_SRC_MASK H) \<and>
           (wr_ret (io (arizona info)) ARIZONA_ACCESSORY_DETECT_MODE_1 = 0 \<longrightarrow>
              regmap (arizona i') ARIZONA_ACCESSORY_DETECT_MODE_1 AND ARIZONA_ACCDET_SRC H =
                src (micd_modes info ! nat ((micd_mode info + 1) mod micd_num_modes info))
                  AND ARIZONA_ACCDET_SRC H)"
proof -
  have w10: "int32 (micd_num_modes info * 10) = micd_num_modes info * 10"
    using ok fit by (intro int32_id) (auto simp: modes_ok_def INT_MAX_def)
  have wm: "int32 (micd_mode info + 1) = micd_mode info + 1"
    using ok fit by (intro int32_id) (auto simp: modes_ok_def INT_MAX_def)
  have wj: "int32 (jack_flips info + 1) = jack_flips info + 1"
    using nn lt fit by (intro int32_id) (auto simp: INT_MAX_def)
  define i2 where "i2 =
    (let i1 = info\<lparr>micd_mode := int32 (micd_mode info + 1)\<rparr>
     in if micd_mode i1 = micd_num_modes i1 then i1\<lparr>micd_mode := 0\<rparr> else i1)"
  have m2: "micd_mode i2 = (micd_mode info + 1) mod micd_num_modes info"
    using ok by (auto simp: i2_def Let_def modes_ok_def wm)
  have f2: "micd_num_modes i2 = micd_num_modes info" "micd_modes i2 = micd_modes info"
      "jack_flips i2 = jack_flips info" "state i2 = state info" "mic i2 = mic info"
      "edev i2 = edev info" "trace i2 = trace info" "arizona i2 = arizona info"
    by (simp_all add: i2_def Let_def)
  have ok2: "modes_ok i2"
    using ok m2 f2 by (auto simp: modes_ok_def)
  from set_mode_effect [OF ok2, of H] obtain i3 where
    sm: "arizona_extcon_set_mode H i2 (micd_mode i2) = Inr i3" and
    s3: "soft_state i3 = soft_state i2" and
    e3: "trace i3 = trace i2 @
             (if micd_pol_gpio (pdata (arizona i2)) > 0
              then [gpio_set_value_cansleep (micd_pol_gpio (pdata (arizona i2)))
                      (gpio (micd_modes i2 ! nat (micd_mode i2)))]
              else [])"
        "wr_ret (io (arizona i2)) ARIZONA_MIC_DETECT_1 = 0 \<longrightarrow>
              regmap (arizona i3) ARIZONA_MIC_DETECT_1 AND ARIZONA_MICD_BIAS_SRC_MASK H =
                push_bit (ARIZONA_MICD_BIAS_SRC_SHIFT H) (bias (micd_modes i2 ! nat (micd_mode i2)))
                  AND ARIZONA_MICD_BIAS_SRC_MASK H"
        "wr_ret (io (arizona i2)) ARIZONA_ACCESSORY_DETECT_MODE_1 = 0 \<longrightarrow>
              regmap (arizona i3) ARIZONA_ACCESSORY_DETECT_MODE_1 AND ARIZONA_ACCDET_SRC H =
                src (micd_modes i2 ! nat (micd_mode i2)) AND ARIZONA_ACCDET_SRC H"
    by blast
  note f3 = soft_fields [OF s3]
  have lt': "jack_flips info < int32 (micd_num_modes info * 10)" using lt w10 by simp
  have j3: "int32 (jack_flips i3 + 1) = jack_flips info + 1"
    using f3(17) f2(3) wj by simp
  have res: "arizona_micd_mic_reading H C info val =
        Inr (0, i3\<lparr>jack_flips := jack_flips info + 1\<rparr>)"
    unfolding mic_reading_flip_eq [OF amb lt'] i2_def [symmetric] by (simp add: sm j3)
  have okr: "modes_ok (i3\<lparr>jack_flips := jack_flips info + 1\<rparr>)"
    using ok2 f3(14,15,16) by (auto simp: modes_ok_def)
  show ?thesis
    using res okr m2 f2 f3(1,2,7,16) e3
    by (intro exI [of _ "i3\<lparr>jack_flips := jack_flips info + 1\<rparr>"]) simp
qed

text \<open>At the bound the reading is handled as the one of a headphone is.\<close>

lemma mic_reading_bound:
  assumes amb: "ambiguous_level H val"
      and ge: "int32 (micd_num_modes info * 10) \<le> jack_flips info"
  shows "arizona_micd_mic_reading H C info val = micd_mic_reading_done H C info"
  using amb ge by (simp add: arizona_micd_mic_reading_def ambiguous_level_def)

lemma mic_reading_flips:
  assumes ck: "custom_keeps C" and res: "arizona_micd_mic_reading H C info val = Inr (r, i')"
  shows "micd_num_modes i' = micd_num_modes info \<and>
         (jack_flips i' = jack_flips info \<or>
          jack_flips i' = int32 (jack_flips info + 1) \<and>
          jack_flips info < int32 (micd_num_modes info * 10))"
proof -
  have dn: "micd_mic_reading_done H C j = Inr (r, i') \<Longrightarrow>
            micd_num_modes j = micd_num_modes info \<Longrightarrow> jack_flips j = jack_flips info \<Longrightarrow>
            ?thesis" for j
    using stable_fields(8,10) [OF conjunct2 [OF done_stable [OF ck]], of H j r i'] by simp
  consider (neg) "val < 0"
    | (opn) "\<not> val < 0" "word_of_int val AND ARIZONA_MICD_STS H = 0"
    | (hs) "\<not> val < 0" "word_of_int val AND ARIZONA_MICD_STS H \<noteq> 0"
           "word_of_int val AND ARIZONA_MICD_LVL_8 H \<noteq> 0"
    | (flip) "\<not> val < 0" "word_of_int val AND ARIZONA_MICD_STS H \<noteq> 0"
           "word_of_int val AND ARIZONA_MICD_LVL_8 H = 0"
           "word_of_int val AND MICD_LVL_1_TO_7 H \<noteq> 0"
           "jack_flips info < int32 (micd_num_modes info * 10)"
    | (other) "\<not> val < 0" "word_of_int val AND ARIZONA_MICD_STS H \<noteq> 0"
           "word_of_int val AND ARIZONA_MICD_LVL_8 H = 0"
           "\<not> (word_of_int val AND MICD_LVL_1_TO_7 H \<noteq> 0 \<and>
               jack_flips info < int32 (micd_num_modes info * 10))"
    by blast
  then show ?thesis
  proof cases
    case neg
    with res show ?thesis by (simp add: arizona_micd_mic_reading_def)
  next
    case opn
    with res show ?thesis
      by (intro dn [of "(emit (dev_warn ''Detected open circuit'') info)
             \<lparr>mic := micd_open_circuit_declare (pdata (arizona info))\<rparr>"])
         (simp_all add: arizona_micd_mic_reading_def emit_def)
  next
    case hs
    with res show ?thesis
      by (intro dn [of "info\<lparr>mic := True\<rparr>"]) (simp_all add: arizona_micd_mic_reading_def)
  next
    case flip
    define i2 where "i2 =
      (let i1 = info\<lparr>micd_mode := int32 (micd_mode info + 1)\<rparr>
       in if micd_mode i1 = micd_num_modes i1 then i1\<lparr>micd_mode := 0\<rparr> else i1)"
    have f2: "micd_num_modes i2 = micd_num_modes info" "jack_flips i2 = jack_flips info"
      by (simp_all add: i2_def Let_def)
    have amb: "ambiguous_level H val" using flip by (simp add: ambiguous_level_def)
    from res obtain i3 where
      sm: "arizona_extcon_set_mode H i2 (micd_mode i2) = Inr i3" and
      i': "i' = i3\<lparr>jack_flips := int32 (jack_flips i3 + 1)\<rparr>"
      unfolding mic_reading_flip_eq [OF amb flip(5)] i2_def [symmetric]
      by (auto split: sum.splits)
    have "micd_num_modes i3 = micd_num_modes i2 \<and> jack_flips i3 = jack_flips i2"
      using sm
      by (auto simp: arizona_extcon_set_mode_def Let_def update_bits_ignore_fields emit_fields
          split: if_splits sum.splits)
    then show ?thesis using i' f2 flip by simp
  next
    case other
    with res show ?thesis
      by (intro dn [of info]) (auto simp: arizona_micd_mic_reading_def split: if_splits)
  qed
qed

lemma mic_session_bound:
  assumes ck: "custom_keeps C" and fit: "micd_num_modes info * 10 \<le> INT_MAX"
      and n: "0 \<le> micd_num_modes info" and nn: "0 \<le> jack_flips info"
  shows "int (length (filter fst (mic_session H C info vs))) \<le>
           max 0 (micd_num_modes info * 10 - jack_flips info)"
  using fit n nn
proof (induction vs arbitrary: info)
  case Nil
  then show ?case by simp
next
  case (Cons v vs)
  have w10: "int32 (micd_num_modes info * 10) = micd_num_modes info * 10"
    using Cons.prems by (intro int32_id) (auto simp: INT_MAX_def)
  show ?case
  proof (cases "arizona_micd_mic_reading H C info v")
    case (Inl f)
    then show ?thesis by simp
  next
    case (Inr p)
    obtain r i1 where p: "p = (r, i1)" by (cases p)
    from mic_reading_flips [OF ck Inr [unfolded p]]
    have n1: "micd_num_modes i1 = micd_num_modes info"
      and d: "jack_flips i1 = jack_flips info \<or>
              jack_flips i1 = int32 (jack_flips info + 1) \<and>
              jack_flips info < micd_num_modes info * 10" by (simp_all add: w10)
    have d': "jack_flips i1 = jack_flips info \<or>
              jack_flips i1 = jack_flips info + 1 \<and>
              jack_flips info < micd_num_modes info * 10"
    proof -
      have "jack_flips info < micd_num_modes info * 10 \<Longrightarrow>
            int32 (jack_flips info + 1) = jack_flips info + 1"
        using Cons.prems by (intro int32_id) (auto simp: INT_MAX_def)
      with d show ?thesis by auto
    qed
    have "0 \<le> jack_flips i1" using d' Cons.prems by auto
    with Cons.IH [of i1] Cons.prems n1
    have ih: "int (length (filter fst (mic_session H C i1 vs))) \<le>
           max 0 (micd_num_modes info * 10 - jack_flips i1)" by simp
    from d' ih show ?thesis
      by (auto simp: Inr p)
  qed
qed

lemma state_wm5110_tune [simp]: "state (arizona_wm5110_tune_headphone H i z) = state i"
  by (simp add: arizona_wm5110_tune_headphone_def write_patch_fields
      update_bits_ignore_fields emit_fields)

lemma state_wm1814_tune [simp]: "state (arizona_wm1814_tune_headphone i z) = state i"
  by (simp add: arizona_wm1814_tune_headphone_def write_patch_fields emit_fields)

lemmas hp_clamp_fields = soft_fields [OF soft_hp_clamp]
lemmas update_bits_fields = soft_fields [OF soft_update_bits]

lemma hpdet_start_returns:
  assumes st: "state i = Some s"
  shows "\<exists>r i'. arizona_hpdet_start H C i = Inr (r, i') \<and> state i' = Some s"
proof (cases "fixed_hpdet_imp (pdata (arizona i)) \<noteq> 0")
  case True
  have c: "codec (arizona (emit e i)) = codec (arizona i)" for e
    by (simp add: emit_def)
  from True st show ?thesis
    by (auto simp: arizona_hpdet_start_def Let_def c emit_fields split: arizona_type.splits)
next
  case False
  define i1 where "i1 = arizona_extcon_hp_clamp H (emit pm_runtime_get_sync i) True"
  have s1: "state i1 = Some s" using st by (simp add: i1_def hp_clamp_fields emit_fields)
  obtain ret2 i2 where u2: "update_bits i1 ARIZONA_ACCESSORY_DETECT_MODE_1
      (ARIZONA_ACCDET_MODE_MASK H) (word_of_int (jd_mode C s)) = (ret2, i2)"
    by (cases "update_bits i1 ARIZONA_ACCESSORY_DETECT_MODE_1
      (ARIZONA_ACCDET_MODE_MASK H) (word_of_int (jd_mode C s))")
  have s2: "state i2 = Some s"
    using update_bits_fields(1) [of i1 ARIZONA_ACCESSORY_DETECT_MODE_1
        "ARIZONA_ACCDET_MODE_MASK H" "word_of_int (jd_mode C s)"] u2 s1 by simp
  obtain ret3 i3 where u3: "update_bits i2 ARIZONA_HEADPHONE_DETECT_1 (ARIZONA_HP_POLL H)
      (ARIZONA_HP_POLL H) = (ret3, i3)"
    by (cases "update_bits i2 ARIZONA_HEADPHONE_DETECT_1 (ARIZONA_HP_POLL H)
      (ARIZONA_HP_POLL H)")
  have s3: "state i3 = Some s"
    using update_bits_fields(1) [of i2 ARIZONA_HEADPHONE_DETECT_1 "ARIZONA_HP_POLL H"
        "ARIZONA_HP_POLL H"] u3 s2 by simp
  from False s1 s2 s3 show ?thesis
    by (auto simp: arizona_hpdet_start_def Let_def i1_def [symmetric] u2 u3
        hpdet_start_err_def hp_clamp_fields emit_fields)
qed

lemma set_state_hpdet:
  assumes ck: "custom_keeps C" and modes: "micd_modes i \<noteq> []"
      and s: "s = arizona_hpdet_left \<or> s = arizona_hpdet_right"
  shows "\<exists>r i'. arizona_jds_set_state H C i (Some s) = Inr (r, i') \<and>
           (if r < 0 then state i' = None else state i' = Some s)"
proof (cases "Some s = state i")
  case True
  then have "arizona_jds_set_state H C i (Some s) = Inr (0, i)"
    by (subst arizona_jds_set_state.simps) simp
  with True show ?thesis by simp
next
  case False
  have "\<exists>i1. (case state i of None \<Rightarrow> Inr i | Some old \<Rightarrow> jd_stop H C old i) = Inr i1"
  proof (cases "state i")
    case None
    then show ?thesis by simp
  next
    case (Some old)
    with jd_stop_total [OF ck modes, of H old] show ?thesis by simp
  qed
  then obtain i1 where
    st: "(case state i of None \<Rightarrow> Inr i | Some old \<Rightarrow> jd_stop H C old i) = Inr i1" by blast
  have js: "jd_start H C s j = arizona_hpdet_start H C j" for j
    using s by (subst jd_start.simps) auto
  from hpdet_start_returns [of "i1\<lparr>state := Some s\<rparr>" s H C] obtain r i2 where
    hs: "arizona_hpdet_start H C (i1\<lparr>state := Some s\<rparr>) = Inr (r, i2)" and
    s2: "state i2 = Some s" by auto
  have "arizona_jds_set_state H C i (Some s) =
          Inr (r, if r < 0 then i2\<lparr>state := None\<rparr> else i2)"
    using False by (subst arizona_jds_set_state.simps) (simp add: st js hs)
  then show ?thesis using s2 by auto
qed

text \<open>The exit \<^verbatim>\<open>done\<close> of the reading returns and hands over to the headphone detection.\<close>

lemma done_returns:
  assumes ck: "custom_keeps C" and modes: "micd_modes i \<noteq> []"
  shows "\<exists>i'. micd_mic_reading_done H C i = Inr (0, i') \<and>
           stable_state i' = stable_state i \<and>
           (state i' = None \<or> state i' = Some arizona_hpdet_left \<or>
            state i' = Some arizona_hpdet_right) \<and>
           (state i' = None \<longrightarrow>
              edev i' = (if mic i then BIT_HEADSET else BIT_HEADSET_NO_MIC))"
proof -
  define s where "s = (if hpdet_channel (pdata (arizona i)) \<noteq> 0
              then arizona_hpdet_right else arizona_hpdet_left)"
  have ns: "(if hpdet_channel (pdata (arizona i)) \<noteq> 0
              then Some arizona_hpdet_right else Some arizona_hpdet_left) = Some s"
    by (simp add: s_def)
  have sc: "s = arizona_hpdet_left \<or> s = arizona_hpdet_right" by (simp add: s_def)
  have m: "micd_modes (emit pm_runtime_mark_last_busy i) \<noteq> []"
    using modes by (simp add: emit_fields)
  from set_state_hpdet [OF ck m sc, of H] obtain r i1 where
    ss: "arizona_jds_set_state H C (emit pm_runtime_mark_last_busy i) (Some s) = Inr (r, i1)"
    and st: "if r < 0 then state i1 = None else state i1 = Some s" by blast
  have s1: "stable_state i1 = stable_state i"
    using set_state_stable [OF ck ss] by simp
  have m1: "mic i1 = mic i" using stable_fields(1) [OF s1] .
  define i2 where "i2 = (if r < 0
                    then (if mic i1 then arizona_extcon_report i1 BIT_HEADSET
                          else arizona_extcon_report i1 BIT_HEADSET_NO_MIC)
                    else i1)"
  define i3 where "i3 = (if has_micd_cb (pdata (arizona i2)) then emit (micd_cb (mic i2)) i2
                         else i2)"
  have res: "micd_mic_reading_done H C i = Inr (0, i3)"
    unfolding micd_mic_reading_done_def ns ss by (simp add: Let_def i3_def i2_def)
  have s3: "stable_state i3 = stable_state i"
    using s1 by (simp add: i3_def i2_def)
  have st2: "state i2 = state i1" "r < 0 \<longrightarrow> edev i2 = (if mic i then BIT_HEADSET else BIT_HEADSET_NO_MIC)"
    using m1 by (simp_all add: i2_def arizona_extcon_report_def emit_def)
  have st3: "state i3 = state i1" "r < 0 \<longrightarrow> edev i3 = (if mic i then BIT_HEADSET else BIT_HEADSET_NO_MIC)"
    using st2 by (simp_all add: i3_def emit_fields)
  have a: "state i3 = None \<or> state i3 = Some arizona_hpdet_left \<or>
            state i3 = Some arizona_hpdet_right"
    using st st3(1) sc by (auto split: if_splits)
  have b: "state i3 = None \<longrightarrow> edev i3 = (if mic i then BIT_HEADSET else BIT_HEADSET_NO_MIC)"
    using st st3 by (auto split: if_splits)
  from res s3 a b show ?thesis by (intro exI [of _ i3] conjI)
qed

text \<open>
  Claim C5. The table of polarity modes is as the probe leaves it and ten times its
  length fits an \<^verbatim>\<open>int\<close>. A reading of an ambiguous level while the flip counter is below
  \<open>micd_num_modes * 10\<close> returns 0 with the mode index advanced by one modulo the number
  of modes, the flip counter incremented, and the detection state, the microphone flag
  and the reported classification as they were; the polarity GPIO, when there is one,
  is set to the value of the new mode, and the bias source and the detection source of
  the new mode are in their register fields when the writes succeed. Once the counter
  has reached the bound, the same reading takes the exit of a headphone: it returns 0
  with mode index, flip counter and microphone flag unchanged, and the active state is
  the headphone detection, or none with the classification reported when the
  headphone detection could not start. However many readings follow one another from
  a counter that is not negative, the flips are at most \<open>micd_num_modes * 10\<close>.
\<close>

theorem polarity_flips_bounded:
  assumes ck: "custom_keeps C"
  shows "(ambiguous_level H val \<and> modes_ok info \<and> micd_num_modes info * 10 \<le> INT_MAX \<and>
          0 \<le> jack_flips info \<and> jack_flips info < micd_num_modes info * 10 \<longrightarrow>
            (\<exists>i'. arizona_micd_mic_reading H C info val = Inr (0, i') \<and>
               micd_mode i' = (micd_mode info + 1) mod micd_num_modes info \<and>
               jack_flips i' = jack_flips info + 1 \<and>
               state i' = state info \<and> mic i' = mic info \<and> edev i' = edev info \<and>
               modes_ok i' \<and>
               trace i' = trace info @
                 (if micd_pol_gpio (pdata (arizona info)) > 0
                  then [gpio_set_value_cansleep (micd_pol_gpio (pdata (arizona info)))
                          (gpio (micd_modes info !
                                   nat ((micd_mode info + 1) mod micd_num_modes info)))]
                  else []) \<and>
               (wr_ret (io (arizona info)) ARIZONA_MIC_DETECT_1 = 0 \<longrightarrow>
                  regmap (arizona i') ARIZONA_MIC_DETECT_1 AND ARIZONA_MICD_BIAS_SRC_MASK H =
                    push_bit (ARIZONA_MICD_BIAS_SRC_SHIFT H)
                      (bias (micd_modes info !
                               nat ((micd_mode info + 1) mod micd_num_modes info)))
                      AND ARIZONA_MICD_BIAS_SRC_MASK H) \<and>
               (wr_ret (io (arizona info)) ARIZONA_ACCESSORY_DETECT_MODE_1 = 0 \<longrightarrow>
                  regmap (arizona i') ARIZONA_ACCESSORY_DETECT_MODE_1 AND ARIZONA_ACCDET_SRC H =
                    src (micd_modes info ! nat ((micd_mode info + 1) mod micd_num_modes info))
                      AND ARIZONA_ACCDET_SRC H))) \<and>
         (ambiguous_level H val \<and> modes_ok info \<and> micd_num_modes info * 10 \<le> INT_MAX \<and>
          micd_num_modes info * 10 \<le> jack_flips info \<longrightarrow>
            (\<exists>i'. arizona_micd_mic_reading H C info val = Inr (0, i') \<and>
               micd_mode i' = micd_mode info \<and> jack_flips i' = jack_flips info \<and>
               mic i' = mic info \<and>
               (state i' = None \<or> state i' = Some arizona_hpdet_left \<or>
                state i' = Some arizona_hpdet_right) \<and>
               (state i' = None \<longrightarrow>
                  edev i' = (if mic info then BIT_HEADSET else BIT_HEADSET_NO_MIC)))) \<and>
         (0 \<le> jack_flips start \<and> 0 \<le> micd_num_modes start \<and>
          micd_num_modes start * 10 \<le> INT_MAX \<longrightarrow>
            int (length (filter fst (mic_session H C start vs))) \<le> micd_num_modes start * 10)"
proof (intro conjI impI)
  assume h: "ambiguous_level H val \<and> modes_ok info \<and> micd_num_modes info * 10 \<le> INT_MAX \<and>
          0 \<le> jack_flips info \<and> jack_flips info < micd_num_modes info * 10"
  then have a: "ambiguous_level H val" "modes_ok info" "micd_num_modes info * 10 \<le> INT_MAX"
      "0 \<le> jack_flips info" "jack_flips info < micd_num_modes info * 10"
    by simp_all
  show "\<exists>i'. arizona_micd_mic_reading H C info val = Inr (0, i') \<and>
               micd_mode i' = (micd_mode info + 1) mod micd_num_modes info \<and>
               jack_flips i' = jack_flips info + 1 \<and>
               state i' = state info \<and> mic i' = mic info \<and> edev i' = edev info \<and>
               modes_ok i' \<and>
               trace i' = trace info @
                 (if micd_pol_gpio (pdata (arizona info)) > 0
                  then [gpio_set_value_cansleep (micd_pol_gpio (pdata (arizona info)))
                          (gpio (micd_modes info !
                                   nat ((micd_mode info + 1) mod micd_num_modes info)))]
                  else []) \<and>
               (wr_ret (io (arizona info)) ARIZONA_MIC_DETECT_1 = 0 \<longrightarrow>
                  regmap (arizona i') ARIZONA_MIC_DETECT_1 AND ARIZONA_MICD_BIAS_SRC_MASK H =
                    push_bit (ARIZONA_MICD_BIAS_SRC_SHIFT H)
                      (bias (micd_modes info !
                               nat ((micd_mode info + 1) mod micd_num_modes info)))
                      AND ARIZONA_MICD_BIAS_SRC_MASK H) \<and>
               (wr_ret (io (arizona info)) ARIZONA_ACCESSORY_DETECT_MODE_1 = 0 \<longrightarrow>
                  regmap (arizona i') ARIZONA_ACCESSORY_DETECT_MODE_1 AND ARIZONA_ACCDET_SRC H =
                    src (micd_modes info ! nat ((micd_mode info + 1) mod micd_num_modes info))
                      AND ARIZONA_ACCDET_SRC H)"
    by (rule mic_reading_flip [OF a])
next
  assume h: "ambiguous_level H val \<and> modes_ok info \<and> micd_num_modes info * 10 \<le> INT_MAX \<and>
             micd_num_modes info * 10 \<le> jack_flips info"
  then have w10: "int32 (micd_num_modes info * 10) = micd_num_modes info * 10"
    by (intro int32_id) (auto simp: modes_ok_def INT_MAX_def)
  from h have eq: "arizona_micd_mic_reading H C info val = micd_mic_reading_done H C info"
    using mic_reading_bound [of H val info C] w10 by simp
  from h have modes: "micd_modes info \<noteq> []" by (auto simp: modes_ok_def)
  from done_returns [OF ck modes, of H] obtain i' where
    d0: "micd_mic_reading_done H C info = Inr (0, i') \<and>
       stable_state i' = stable_state info \<and>
       (state i' = None \<or> state i' = Some arizona_hpdet_left \<or>
        state i' = Some arizona_hpdet_right) \<and>
       (state i' = None \<longrightarrow>
          edev i' = (if mic info then BIT_HEADSET else BIT_HEADSET_NO_MIC))" ..
  note d = conjunct1 [OF d0] conjunct1 [OF conjunct2 [OF d0]]
    conjunct1 [OF conjunct2 [OF conjunct2 [OF d0]]]
    conjunct2 [OF conjunct2 [OF conjunct2 [OF d0]]]
  note f = stable_fields [OF d(2)]
  have "arizona_micd_mic_reading H C info val = Inr (0, i') \<and>
               micd_mode i' = micd_mode info \<and> jack_flips i' = jack_flips info \<and>
               mic i' = mic info \<and>
               (state i' = None \<or> state i' = Some arizona_hpdet_left \<or>
                state i' = Some arizona_hpdet_right) \<and>
               (state i' = None \<longrightarrow>
                  edev i' = (if mic info then BIT_HEADSET else BIT_HEADSET_NO_MIC))"
    using eq d(1,3,4) f(1,9,10) by simp
  then show "\<exists>i'. arizona_micd_mic_reading H C info val = Inr (0, i') \<and>
               micd_mode i' = micd_mode info \<and> jack_flips i' = jack_flips info \<and>
               mic i' = mic info \<and>
               (state i' = None \<or> state i' = Some arizona_hpdet_left \<or>
                state i' = Some arizona_hpdet_right) \<and>
               (state i' = None \<longrightarrow>
                  edev i' = (if mic info then BIT_HEADSET else BIT_HEADSET_NO_MIC))"
    by (rule exI)
next
  assume h: "0 \<le> jack_flips start \<and> 0 \<le> micd_num_modes start \<and>
          micd_num_modes start * 10 \<le> INT_MAX"
  then have "int (length (filter fst (mic_session H C start vs))) \<le>
           max 0 (micd_num_modes start * 10 - jack_flips start)"
    by (intro mic_session_bound [OF ck]) simp_all
  with h show "int (length (filter fst (mic_session H C start vs))) \<le> micd_num_modes start * 10"
    by (simp add: max_def split: if_splits)
qed

lemmas mic_defs = exhausted_info_def mic_info_def example_info_def example_arizona_def
  example_pdata_def example_io_def example_hdr_def

theorem polarity_flips_bounded_witness:
  "custom_keeps example_custom \<and> ambiguous_level example_hdr 9 \<and>
   modes_ok mic_info \<and> micd_num_modes mic_info * 10 \<le> INT_MAX \<and>
   0 \<le> jack_flips mic_info \<and> jack_flips mic_info < micd_num_modes mic_info * 10 \<and>
   wr_ret (io (arizona mic_info)) ARIZONA_MIC_DETECT_1 = 0 \<and>
   wr_ret (io (arizona mic_info)) ARIZONA_ACCESSORY_DETECT_MODE_1 = 0 \<and>
   (\<exists>i'. arizona_micd_mic_reading example_hdr example_custom mic_info 9 = Inr (0, i') \<and>
      micd_mode i' = 1 \<and> jack_flips i' = 1 \<and> state i' = Some arizona_micd_microphone \<and>
      trace i' = trace mic_info \<and>
      regmap (arizona i') ARIZONA_MIC_DETECT_1 AND 0x0030 = 0x0020 \<and>
      regmap (arizona i') ARIZONA_ACCESSORY_DETECT_MODE_1 AND 0x2000 = 0) \<and>
   modes_ok exhausted_info \<and> micd_num_modes exhausted_info * 10 \<le> INT_MAX \<and>
   micd_num_modes exhausted_info * 10 \<le> jack_flips exhausted_info \<and>
   (\<exists>i'. arizona_micd_mic_reading example_hdr example_custom exhausted_info 9 = Inr (0, i') \<and>
      micd_mode i' = 0 \<and> jack_flips i' = 20 \<and> \<not> mic i' \<and>
      (state i' = None \<or> state i' = Some arizona_hpdet_left \<or>
       state i' = Some arizona_hpdet_right)) \<and>
   0 \<le> micd_num_modes mic_info \<and>
   int (length (filter fst (mic_session example_hdr example_custom mic_info [9, 9, 9]))) \<le> 20"
proof -
  have a: "ambiguous_level example_hdr 9"
    by (simp add: ambiguous_level_def example_hdr_def)
  have b: "modes_ok mic_info" "micd_num_modes mic_info * 10 \<le> INT_MAX"
    "0 \<le> jack_flips mic_info" "jack_flips mic_info < micd_num_modes mic_info * 10"
    "0 \<le> micd_num_modes mic_info"
    "wr_ret (io (arizona mic_info)) ARIZONA_MIC_DETECT_1 = 0"
    "wr_ret (io (arizona mic_info)) ARIZONA_ACCESSORY_DETECT_MODE_1 = 0"
    by (simp_all add: modes_ok_def mic_defs micd_default_modes_def INT_MAX_def)
  have c: "modes_ok exhausted_info" "micd_num_modes exhausted_info * 10 \<le> INT_MAX"
    "micd_num_modes exhausted_info * 10 \<le> jack_flips exhausted_info"
    by (simp_all add: modes_ok_def mic_defs micd_default_modes_def INT_MAX_def)
  have v: "micd_mode mic_info = 0" "micd_num_modes mic_info = 2" "jack_flips mic_info = 0"
    "state mic_info = Some arizona_micd_microphone" "micd_mode exhausted_info = 0"
    "jack_flips exhausted_info = 20" "\<not> mic exhausted_info"
    "micd_pol_gpio (pdata (arizona mic_info)) = 0"
    "micd_modes mic_info ! Suc 0 = \<lparr>src = 0, bias = 2, gpio = 1\<rparr>"
    "ARIZONA_MICD_BIAS_SRC_MASK example_hdr = 0x0030"
    "ARIZONA_MICD_BIAS_SRC_SHIFT example_hdr = 4"
    "ARIZONA_ACCDET_SRC example_hdr = 0x2000"
    by (simp_all add: mic_defs micd_default_modes_def)
  note t1 = polarity_flips_bounded [OF example_custom_keeps, of example_hdr 9 mic_info
      mic_info "[9, 9, 9]"]
  note t2 = polarity_flips_bounded [OF example_custom_keeps, of example_hdr 9 exhausted_info
      mic_info "[9, 9, 9]"]
  from conjunct1 [OF t1] a b
  have "\<exists>i'. arizona_micd_mic_reading example_hdr example_custom mic_info 9 = Inr (0, i') \<and>
               micd_mode i' = (micd_mode mic_info + 1) mod micd_num_modes mic_info \<and>
               jack_flips i' = jack_flips mic_info + 1 \<and>
               state i' = state mic_info \<and> mic i' = mic mic_info \<and> edev i' = edev mic_info \<and>
               modes_ok i' \<and>
               trace i' = trace mic_info @
                 (if micd_pol_gpio (pdata (arizona mic_info)) > 0
                  then [gpio_set_value_cansleep (micd_pol_gpio (pdata (arizona mic_info)))
                          (gpio (micd_modes mic_info !
                                   nat ((micd_mode mic_info + 1) mod micd_num_modes mic_info)))]
                  else []) \<and>
               (wr_ret (io (arizona mic_info)) ARIZONA_MIC_DETECT_1 = 0 \<longrightarrow>
                  regmap (arizona i') ARIZONA_MIC_DETECT_1 AND
                      ARIZONA_MICD_BIAS_SRC_MASK example_hdr =
                    push_bit (ARIZONA_MICD_BIAS_SRC_SHIFT example_hdr)
                      (bias (micd_modes mic_info !
                               nat ((micd_mode mic_info + 1) mod micd_num_modes mic_info)))
                      AND ARIZONA_MICD_BIAS_SRC_MASK example_hdr) \<and>
               (wr_ret (io (arizona mic_info)) ARIZONA_ACCESSORY_DETECT_MODE_1 = 0 \<longrightarrow>
                  regmap (arizona i') ARIZONA_ACCESSORY_DETECT_MODE_1 AND
                      ARIZONA_ACCDET_SRC example_hdr =
                    src (micd_modes mic_info !
                           nat ((micd_mode mic_info + 1) mod micd_num_modes mic_info))
                      AND ARIZONA_ACCDET_SRC example_hdr)"
    by (intro mp [OF conjunct1 [OF t1]] conjI)
  then obtain i1 where i1: "arizona_micd_mic_reading example_hdr example_custom mic_info 9 = Inr (0, i1) \<and>
               micd_mode i1 = (micd_mode mic_info + 1) mod micd_num_modes mic_info \<and>
               jack_flips i1 = jack_flips mic_info + 1 \<and>
               state i1 = state mic_info \<and> mic i1 = mic mic_info \<and> edev i1 = edev mic_info \<and>
               modes_ok i1 \<and>
               trace i1 = trace mic_info @
                 (if micd_pol_gpio (pdata (arizona mic_info)) > 0
                  then [gpio_set_value_cansleep (micd_pol_gpio (pdata (arizona mic_info)))
                          (gpio (micd_modes mic_info !
                                   nat ((micd_mode mic_info + 1) mod micd_num_modes mic_info)))]
                  else []) \<and>
               (wr_ret (io (arizona mic_info)) ARIZONA_MIC_DETECT_1 = 0 \<longrightarrow>
                  regmap (arizona i1) ARIZONA_MIC_DETECT_1 AND
                      ARIZONA_MICD_BIAS_SRC_MASK example_hdr =
                    push_bit (ARIZONA_MICD_BIAS_SRC_SHIFT example_hdr)
                      (bias (micd_modes mic_info !
                               nat ((micd_mode mic_info + 1) mod micd_num_modes mic_info)))
                      AND ARIZONA_MICD_BIAS_SRC_MASK example_hdr) \<and>
               (wr_ret (io (arizona mic_info)) ARIZONA_ACCESSORY_DETECT_MODE_1 = 0 \<longrightarrow>
                  regmap (arizona i1) ARIZONA_ACCESSORY_DETECT_MODE_1 AND
                      ARIZONA_ACCDET_SRC example_hdr =
                    src (micd_modes mic_info !
                           nat ((micd_mode mic_info + 1) mod micd_num_modes mic_info))
                      AND ARIZONA_ACCDET_SRC example_hdr)" ..
  have f: "\<exists>i'. arizona_micd_mic_reading example_hdr example_custom mic_info 9 = Inr (0, i') \<and>
      micd_mode i' = 1 \<and> jack_flips i' = 1 \<and> state i' = Some arizona_micd_microphone \<and>
      trace i' = trace mic_info \<and>
      regmap (arizona i') ARIZONA_MIC_DETECT_1 AND 0x0030 = 0x0020 \<and>
      regmap (arizona i') ARIZONA_ACCESSORY_DETECT_MODE_1 AND 0x2000 = 0"
    using i1 b(6,7) by (intro exI [of _ i1]) (simp add: v)
  from t2 a c v(5,6,7) have g: "\<exists>i'. arizona_micd_mic_reading example_hdr example_custom
        exhausted_info 9 = Inr (0, i') \<and>
      micd_mode i' = 0 \<and> jack_flips i' = 20 \<and> \<not> mic i' \<and>
      (state i' = None \<or> state i' = Some arizona_hpdet_left \<or>
       state i' = Some arizona_hpdet_right)"
    by auto
  from conjunct2 [OF conjunct2 [OF t1]] b have h: "int (length (filter fst
      (mic_session example_hdr example_custom mic_info [9, 9, 9]))) \<le> 20"
    using v(2) by (simp del: mic_session.simps)
  from example_custom_keeps a b c f g h show ?thesis by (intro conjI)
qed
end
